(* ===== verification/Prelude.thy ===== *)
theory Prelude
  imports Main "HOL-Library.Sublist"
begin

text \<open>
  Shared vocabulary of the job-portal development: the collections of rewrite rules the
  component theories fill, the type names of the model, and generic facts on lists and
  options that the views' list updates (\<open>prev.map(x => x.id === id ? ... : x)\<close>,
  \<open>prev.filter(...)\<close>, \<open>[...prev, x]\<close>, \<open>slice(0, n)\<close>) all rely on.
\<close>

named_theorems view_simps "equations of the view handlers, unfolded by the component proofs"
named_theorems js_simps "evaluation rules of the JavaScript value model"

type_synonym entity_id = int

text \<open>
  A record identifier in the views is a JavaScript number coming from the API; the code
  only ever compares it for equality, so it is an \<open>int\<close>.
  \<open>map_where P f xs\<close> is the idiom \<open>xs.map(x => P(x) ? f(x) : x)\<close> of the views.
\<close>

definition map_where :: "('a \<Rightarrow> bool) \<Rightarrow> ('a \<Rightarrow> 'a) \<Rightarrow> 'a list \<Rightarrow> 'a list" where
  "map_where P f xs = map (\<lambda>x. if P x then f x else x) xs"

lemma map_where_simps [simp]:
  "map_where P f [] = []"
  "map_where P f (x # xs) = (if P x then f x else x) # map_where P f xs"
  by (simp_all add: map_where_def)

lemma length_map_where [simp]: "length (map_where P f xs) = length xs"
  by (simp add: map_where_def)

lemma map_where_append [simp]: "map_where P f (xs @ ys) = map_where P f xs @ map_where P f ys"
  by (simp add: map_where_def)

lemma map_where_nth:
  "i < length xs \<Longrightarrow> map_where P f xs ! i = (if P (xs ! i) then f (xs ! i) else xs ! i)"
  by (simp add: map_where_def)

lemma map_where_no_match: "\<forall>x \<in> set xs. \<not> P x \<Longrightarrow> map_where P f xs = xs"
  by (induction xs) auto

lemma map_where_proj:
  assumes "\<And>x. P x \<Longrightarrow> g (f x) = g x"
  shows "map g (map_where P f xs) = map g xs"
  using assms by (induction xs) auto

lemma map_where_in_set:
  "y \<in> set (map_where P f xs) \<longleftrightarrow> (\<exists>x \<in> set xs. y = (if P x then f x else x))"
  by (auto simp: map_where_def)

text \<open>Filtering and truncating keep the relative order of the kept items.\<close>

lemma subseq_take_filter: "subseq (take n (filter P xs)) xs"
  by (rule subseq_order.order_trans [OF prefix_imp_subseq [OF take_is_prefix] subseq_filter_left])

lemma length_take_filter_le: "length (take n (filter P xs)) \<le> n"
  by simp

lemma set_take_filter: "x \<in> set (take n (filter P xs)) \<Longrightarrow> x \<in> set xs \<and> P x"
  using in_set_takeD [of x n "filter P xs"] by simp

lemma filter_filter_swap: "filter P (filter Q xs) = filter Q (filter P xs)"
  by (induction xs) auto

lemma filter_neq_count:
  "distinct (map g xs) \<Longrightarrow> k \<in> set (map g xs) \<Longrightarrow>
   length (filter (\<lambda>x. g x \<noteq> k) xs) = length xs - 1"
proof (induction xs)
  case Nil
  then show ?case by simp
next
  case (Cons x xs)
  show ?case
  proof (cases "g x = k")
    case True
    with Cons.prems have "\<forall>y \<in> set xs. g y \<noteq> k" by (auto simp: rev_image_eqI)
    with True show ?thesis by simp
  next
    case False
    with Cons.prems have "k \<in> set (map g xs)" and "distinct (map g xs)" by auto
    with Cons.IH have "length (filter (\<lambda>x. g x \<noteq> k) xs) = length xs - 1" by simp
    moreover from \<open>k \<in> set (map g xs)\<close> have "xs \<noteq> []" by auto
    ultimately show ?thesis using False by simp
  qed
qed

text \<open>\<open>map_of\<close> over the identifiers of a list: the abstraction the CRUD views refine.\<close>

lemma map_of_filter_key:
  "map_of (map h (filter (\<lambda>x. fst (h x) \<noteq> k) xs)) = (map_of (map h xs))(k := None)"
  by (induction xs) (auto simp: fun_eq_iff)

end
