(* ===== verification/JsRuntime.thy ===== *)
theory JsRuntime
  imports Prelude
begin

text \<open>
  The parts of JavaScript's value semantics that the views' conditions depend on:
  truthiness (\<open>if (id)\<close>, \<open>x || d\<close>, \<open>!x\<close>), strict equality (\<open>===\<close>), the
  conversion of a value to a string in a template literal (\<open>`/companies/${id}`\<close>),
  \<open>parseInt\<close> on a route parameter (BlogDetail.jsx) and \<open>String.prototype.trim\<close>
  (AddVacancy.tsx). These are the language's semantics, not code of the repository; they
  are modelled from the ECMAScript specification for the values the code handles.
  Numbers are integers here: every number the views compute with is an identifier, a
  count or a page index; \<open>NaN\<close> is its own constructor.
\<close>

datatype jsval = JUndef | JNull | JBool bool | JNum int | JNaN | JStr string

fun truthy :: "jsval \<Rightarrow> bool" where
  "truthy JUndef = False"
| "truthy JNull = False"
| "truthy (JBool b) = b"
| "truthy (JNum n) = (n \<noteq> 0)"
| "truthy JNaN = False"
| "truthy (JStr s) = (s \<noteq> [])"

definition js_not :: "jsval \<Rightarrow> jsval" where
  "js_not v = JBool (\<not> truthy v)"

text \<open>\<open>a || b\<close>: the first operand when it is truthy, else the second.\<close>

definition js_or :: "jsval \<Rightarrow> jsval \<Rightarrow> jsval" where
  "js_or a b = (if truthy a then a else b)"

fun strict_eq :: "jsval \<Rightarrow> jsval \<Rightarrow> bool" where
  "strict_eq JUndef JUndef = True"
| "strict_eq JNull JNull = True"
| "strict_eq (JBool a) (JBool b) = (a = b)"
| "strict_eq (JNum a) (JNum b) = (a = b)"
| "strict_eq (JStr a) (JStr b) = (a = b)"
| "strict_eq _ _ = False"

subsection \<open>Decimal digits and \<open>String(n)\<close>\<close>

definition digit_char :: "nat \<Rightarrow> char" where
  "digit_char d = char_of (48 + d)"

fun dec_digits :: "nat \<Rightarrow> string" where
  "dec_digits n = (if n < 10 then [digit_char n] else dec_digits (n div 10) @ [digit_char (n mod 10)])"

definition int_to_string :: "int \<Rightarrow> string" where
  "int_to_string i = (if i < 0 then CHR ''-'' # dec_digits (nat (- i)) else dec_digits (nat i))"

fun js_to_string :: "jsval \<Rightarrow> string" where
  "js_to_string JUndef = ''undefined''"
| "js_to_string JNull = ''null''"
| "js_to_string (JBool b) = (if b then ''true'' else ''false'')"
| "js_to_string (JNum n) = int_to_string n"
| "js_to_string JNaN = ''NaN''"
| "js_to_string (JStr s) = s"

subsection \<open>\<open>parseInt(s)\<close> with no radix\<close>

text \<open>
  ECMAScript \<open>parseInt\<close>: skip leading white space, read an optional sign, take a
  \<open>0x\<close>/\<open>0X\<close> prefix as radix 16 (else radix 10), read the longest prefix of digits of
  that radix; no digit at all gives \<open>NaN\<close>. White space is the ASCII set (tab, line feed,
  vertical tab, form feed, carriage return, space).
\<close>

definition is_js_space :: "char \<Rightarrow> bool" where
  "is_js_space c \<longleftrightarrow> c \<in> set [CHR 0x09, CHR 0x0A, CHR 0x0B, CHR 0x0C, CHR 0x0D, CHR 0x20]"

definition digit_in :: "nat \<Rightarrow> char \<Rightarrow> nat option" where
  "digit_in r c =
     (let k = of_char c :: nat in
      if 48 \<le> k \<and> k \<le> 57 \<and> k - 48 < r then Some (k - 48)
      else if r = 16 \<and> 97 \<le> k \<and> k \<le> 102 then Some (k - 87)
      else if r = 16 \<and> 65 \<le> k \<and> k \<le> 70 then Some (k - 55)
      else None)"

fun read_digits :: "nat \<Rightarrow> nat \<Rightarrow> string \<Rightarrow> nat" where
  "read_digits r acc [] = acc"
| "read_digits r acc (c # cs) =
     (case digit_in r c of None \<Rightarrow> acc | Some d \<Rightarrow> read_digits r (acc * r + d) cs)"

fun starts_with_digit :: "nat \<Rightarrow> string \<Rightarrow> bool" where
  "starts_with_digit r [] = False"
| "starts_with_digit r (c # _) = (digit_in r c \<noteq> None)"

definition split_sign :: "string \<Rightarrow> bool \<times> string" where
  "split_sign s =
     (case s of
        [] \<Rightarrow> (False, [])
      | c # cs \<Rightarrow> if c = CHR ''-'' then (True, cs) else if c = CHR ''+'' then (False, cs) else (False, s))"

definition split_radix :: "string \<Rightarrow> nat \<times> string" where
  "split_radix s = (if take 2 s = ''0x'' \<or> take 2 s = ''0X'' then (16, drop 2 s) else (10, s))"

definition parse_int :: "string \<Rightarrow> jsval" where
  "parse_int s =
     (let (neg, s1) = split_sign (dropWhile is_js_space s);
          (r, s2) = split_radix s1
      in if starts_with_digit r s2
         then JNum ((if neg then -1 else 1) * int (read_digits r 0 s2))
         else JNaN)"

subsection \<open>\<open>String.prototype.trim\<close>\<close>

definition js_trim :: "string \<Rightarrow> string" where
  "js_trim s = rev (dropWhile is_js_space (rev (dropWhile is_js_space s)))"

subsection \<open>\<open>String.prototype.toLowerCase\<close> and \<open>includes\<close>\<close>

text \<open>
  \<open>toLowerCase\<close> on the ASCII letters (the strings of the model are byte strings; the
  Unicode case mapping of other characters is not modelled), and \<open>s.includes(t)\<close>
  as the search of the specification: \<open>t\<close> occurs at some position of \<open>s\<close>.
\<close>

definition js_lower_char :: "char \<Rightarrow> char" where
  "js_lower_char c = (let n = (of_char c :: nat) in if 65 \<le> n \<and> n \<le> 90 then char_of (n + 32) else c)"

definition js_to_lower :: "string \<Rightarrow> string" where
  "js_to_lower s = map js_lower_char s"

fun js_includes :: "string \<Rightarrow> string \<Rightarrow> bool" where
  "js_includes [] t = (t = [])"
| "js_includes (c # cs) t = (prefix t (c # cs) \<or> js_includes cs t)"


subsection \<open>Facts\<close>

declare dec_digits.simps [simp del]

lemma digit_in_digit_char [simp]: "d < 10 \<Longrightarrow> digit_in 10 (digit_char d) = Some d"
  by (simp add: digit_in_def digit_char_def Let_def)

lemma dec_digits_nonempty [simp]: "dec_digits n \<noteq> []"
  by (subst dec_digits.simps) simp

lemma dec_digits_are_digits: "c \<in> set (dec_digits n) \<Longrightarrow> digit_in 10 c \<noteq> None"
proof (induction n rule: dec_digits.induct)
  case (1 n)
  show ?case
  proof (cases "n < 10")
    case True
    with "1.prems" show ?thesis by (simp add: dec_digits.simps [of n])
  next
    case False
    with "1.prems" have "c \<in> set (dec_digits (n div 10)) \<or> c = digit_char (n mod 10)"
      by (auto simp: dec_digits.simps [of n])
    with "1.IH" False show ?thesis by auto
  qed
qed

lemma read_digits_append:
  "\<forall>c \<in> set xs. digit_in r c \<noteq> None \<Longrightarrow>
   read_digits r acc (xs @ ys) = read_digits r (read_digits r acc xs) ys"
  by (induction xs arbitrary: acc) (auto split: option.splits)

lemma read_digits_dec_digits:
  "read_digits 10 acc (dec_digits n) = acc * 10 ^ length (dec_digits n) + n"
proof (induction n arbitrary: acc rule: dec_digits.induct)
  case (1 n)
  show ?case
  proof (cases "n < 10")
    case True
    then show ?thesis by (simp add: dec_digits.simps [of n])
  next
    case False
    have digs: "\<forall>c \<in> set (dec_digits (n div 10)). digit_in 10 c \<noteq> None"
      using dec_digits_are_digits by blast
    have "read_digits 10 acc (dec_digits n)
          = read_digits 10 (read_digits 10 acc (dec_digits (n div 10))) [digit_char (n mod 10)]"
      using False digs by (simp add: dec_digits.simps [of n] read_digits_append)
    also have "\<dots> = (acc * 10 ^ length (dec_digits (n div 10)) + n div 10) * 10 + n mod 10"
      using "1.IH" False by simp
    also have "\<dots> = acc * 10 ^ length (dec_digits n) + n"
      using False by (simp add: dec_digits.simps [of n] algebra_simps)
    finally show ?thesis .
  qed
qed

lemma digits_no_radix_prefix:
  assumes "\<forall>c \<in> set s. digit_in 10 c \<noteq> None"
  shows "split_radix s = (10, s)"
proof -
  have x: "digit_in 10 (CHR ''x'') = None" "digit_in 10 (CHR ''X'') = None"
    by (simp_all add: digit_in_def)
  have "take 2 s \<noteq> ''0x''"
  proof
    assume "take 2 s = ''0x''"
    then have "CHR ''x'' \<in> set s" by (metis in_set_takeD list.set_intros(1) list.set_intros(2))
    with assms x show False by auto
  qed
  moreover have "take 2 s \<noteq> ''0X''"
  proof
    assume "take 2 s = ''0X''"
    then have "CHR ''X'' \<in> set s" by (metis in_set_takeD list.set_intros(1) list.set_intros(2))
    with assms x show False by auto
  qed
  ultimately show ?thesis by (simp add: split_radix_def)
qed

lemma dec_digits_hd:
  obtains c cs where "dec_digits n = c # cs" and "digit_in 10 c \<noteq> None"
  using dec_digits_nonempty dec_digits_are_digits by (metis list.exhaust list.set_intros(1))

lemma digit_not_space_sign:
  "digit_in 10 c \<noteq> None \<Longrightarrow> \<not> is_js_space c \<and> c \<noteq> CHR ''-'' \<and> c \<noteq> CHR ''+''"
  by (auto simp: digit_in_def is_js_space_def Let_def)

lemma parse_int_dec_digits: "parse_int (dec_digits n) = JNum (int n)"
proof -
  obtain c cs where dd: "dec_digits n = c # cs" and c: "digit_in 10 c \<noteq> None"
    by (rule dec_digits_hd)
  have sp: "split_radix (dec_digits n) = (10, dec_digits n)"
    by (rule digits_no_radix_prefix) (use dec_digits_are_digits in blast)
  have "read_digits 10 0 (dec_digits n) = n"
    by (simp add: read_digits_dec_digits)
  with dd c sp digit_not_space_sign [OF c] show ?thesis
    by (simp add: parse_int_def split_sign_def)
qed

lemma parse_int_neg_dec_digits: "parse_int (CHR ''-'' # dec_digits n) = JNum (- int n)"
proof -
  obtain c cs where dd: "dec_digits n = c # cs" and c: "digit_in 10 c \<noteq> None"
    by (rule dec_digits_hd)
  have sp: "split_radix (dec_digits n) = (10, dec_digits n)"
    by (rule digits_no_radix_prefix) (use dec_digits_are_digits in blast)
  have "read_digits 10 0 (dec_digits n) = n"
    by (simp add: read_digits_dec_digits)
  with dd c sp show ?thesis
    by (simp add: parse_int_def split_sign_def is_js_space_def)
qed

lemma parse_int_int_to_string: "parse_int (int_to_string i) = JNum i"
  by (simp add: int_to_string_def parse_int_dec_digits parse_int_neg_dec_digits)

lemma all_dropWhile_iff: "(\<forall>x \<in> set (dropWhile P s). P x) \<longleftrightarrow> (\<forall>x \<in> set s. P x)"
  by (induction s) auto

lemma js_trim_empty_iff: "js_trim s = [] \<longleftrightarrow> (\<forall>c \<in> set s. is_js_space c)"
  by (simp add: js_trim_def dropWhile_eq_Nil_conv all_dropWhile_iff)

lemma js_includes_sublist: "js_includes s t \<longleftrightarrow> sublist t s"
  by (induction s) (simp_all add: sublist_Cons_right)

lemma js_to_lower_length [simp]: "length (js_to_lower s) = length s"
  by (simp add: js_to_lower_def)

lemmas [js_simps] = truthy.simps strict_eq.simps js_not_def js_or_def js_to_string.simps

end
