(* ===== verification/Http.thy ===== *)
theory Http
  imports JsRuntime
begin

text \<open>
  The remote resource client (spec section 4.1). The views call the backend through two
  libraries with different failure semantics:
  \<^item> \<open>axios(...)\<close>, \<open>axios.get\<close>, \<open>axiosInstance.get/put/post/delete\<close> reject the promise
    on a transport failure and on any status outside 200..299 (axios's default
    \<open>validateStatus\<close>), so a \<open>try\<close>/\<open>catch\<close> around them sees every non-2xx status as an
    exception;
  \<^item> \<open>fetch(...)\<close> rejects only on a transport failure; the caller must test
    \<open>response.ok\<close> (status 200..299) itself.
  A request's outcome as the network delivers it is \<open>'a outcome\<close>: a transport failure or a
  reply with its status and its (already decoded) body. Query strings built with
  \<open>new URLSearchParams({...}).toString()\<close> (FindJobs.jsx, ApplicantList.tsx) follow the
  WHATWG application/x-www-form-urlencoded serializer, modelled with its parser.
\<close>

datatype 'a outcome = Network_Failure | Reply nat 'a

datatype http_error = Transport_Error | Status_Error nat

definition status_2xx :: "nat \<Rightarrow> bool" where
  "status_2xx s \<longleftrightarrow> 200 \<le> s \<and> s < 300"

definition axios_call :: "'a outcome \<Rightarrow> http_error + (nat \<times> 'a)" where
  "axios_call r =
     (case r of
        Network_Failure \<Rightarrow> Inl Transport_Error
      | Reply s b \<Rightarrow> if status_2xx s then Inr (s, b) else Inl (Status_Error s))"

definition fetch_call :: "'a outcome \<Rightarrow> http_error + (nat \<times> 'a)" where
  "fetch_call r = (case r of Network_Failure \<Rightarrow> Inl Transport_Error | Reply s b \<Rightarrow> Inr (s, b))"

text \<open>
  The guard \<open>if (!response.status === 200) throw ...\<close> that FindJobs.jsx and JobDetails.jsx
  place after every \<open>axios\<close> call: \<open>!\<close> binds tighter than \<open>===\<close>, so a boolean is compared
  with the number 200.
\<close>

definition dead_status_guard :: "nat \<Rightarrow> bool" where
  "dead_status_guard s = strict_eq (js_not (JNum (int s))) (JNum 200)"

text \<open>\<open>axios(url)\<close> followed by that guard: the guard's \<open>throw\<close> is the second branch.\<close>

definition axios_with_guard :: "'a outcome \<Rightarrow> http_error + 'a" where
  "axios_with_guard r =
     (case axios_call r of
        Inl e \<Rightarrow> Inl e
      | Inr (s, b) \<Rightarrow> if dead_status_guard s then Inl (Status_Error s) else Inr b)"

subsection \<open>\<open>URLSearchParams\<close> serialization and parsing\<close>

definition hex_digit :: "nat \<Rightarrow> char" where
  "hex_digit d = (if d < 10 then char_of (48 + d) else char_of (55 + d))"

definition form_unreserved :: "char \<Rightarrow> bool" where
  "form_unreserved c \<longleftrightarrow>
     (let k = of_char c :: nat in
      k = 0x2A \<or> k = 0x2D \<or> k = 0x2E \<or> (0x30 \<le> k \<and> k \<le> 0x39) \<or> (0x41 \<le> k \<and> k \<le> 0x5A)
      \<or> k = 0x5F \<or> (0x61 \<le> k \<and> k \<le> 0x7A))"

fun form_encode :: "string \<Rightarrow> string" where
  "form_encode [] = []"
| "form_encode (c # cs) =
     (if c = CHR '' '' then CHR ''+'' # form_encode cs
      else if form_unreserved c then c # form_encode cs
      else CHR ''%'' # hex_digit (of_char c div 16) # hex_digit (of_char c mod 16) # form_encode cs)"

fun join_on :: "char \<Rightarrow> string list \<Rightarrow> string" where
  "join_on d [] = []"
| "join_on d [w] = w"
| "join_on d (w # ws) = w @ d # join_on d ws"

definition serialize_params :: "(string \<times> string) list \<Rightarrow> string" where
  "serialize_params ps =
     join_on (CHR ''&'') (map (\<lambda>(k, v). form_encode k @ CHR ''='' # form_encode v) ps)"

fun split_on :: "char \<Rightarrow> string \<Rightarrow> string list" where
  "split_on d [] = [[]]"
| "split_on d (c # cs) =
     (if c = d then [] # split_on d cs else (let r = split_on d cs in (c # hd r) # tl r))"

fun form_decode :: "string \<Rightarrow> string" where
  "form_decode [] = []"
| "form_decode (c # cs) =
     (if c = CHR ''%'' then
        (case cs of
           h1 # h2 # rest \<Rightarrow>
             (case (digit_in 16 h1, digit_in 16 h2) of
                (Some a, Some b) \<Rightarrow> char_of (16 * a + b) # form_decode rest
              | _ \<Rightarrow> c # form_decode cs)
         | _ \<Rightarrow> c # form_decode cs)
      else (if c = CHR ''+'' then CHR '' '' else c) # form_decode cs)"

definition parse_pair :: "string \<Rightarrow> string \<times> string" where
  "parse_pair s =
     (form_decode (takeWhile (\<lambda>c. c \<noteq> CHR ''='') s),
      form_decode (drop 1 (dropWhile (\<lambda>c. c \<noteq> CHR ''='') s)))"

definition parse_params :: "string \<Rightarrow> (string \<times> string) list" where
  "parse_params s = map parse_pair (filter (\<lambda>w. w \<noteq> []) (split_on (CHR ''&'') s))"

subsection \<open>Facts\<close>

lemma axios_call_Inr:
  "axios_call r = Inr (s, b) \<longleftrightarrow> r = Reply s b \<and> status_2xx s"
  by (cases r) (auto simp: axios_call_def)

lemma axios_call_Reply_fail:
  "\<not> status_2xx s \<Longrightarrow> axios_call (Reply s b) = Inl (Status_Error s)"
  by (simp add: axios_call_def)

lemma axios_call_Reply_ok:
  "status_2xx s \<Longrightarrow> axios_call (Reply s b) = Inr (s, b)"
  by (simp add: axios_call_def)

lemma axios_call_Network_Failure [simp]: "axios_call Network_Failure = Inl Transport_Error"
  by (simp add: axios_call_def)

lemma fetch_call_Reply [simp]: "fetch_call (Reply s b) = Inr (s, b)"
  by (simp add: fetch_call_def)

lemma fetch_call_Network_Failure [simp]: "fetch_call Network_Failure = Inl Transport_Error"
  by (simp add: fetch_call_def)

lemma dead_status_guard_never [simp]: "\<not> dead_status_guard s"
  by (simp add: dead_status_guard_def js_not_def)

lemma axios_with_guard_eq:
  "axios_with_guard r = (case axios_call r of Inl e \<Rightarrow> Inl e | Inr (s, b) \<Rightarrow> Inr b)"
  by (simp add: axios_with_guard_def split: sum.split)

lemmas http_simps = axios_call_Reply_fail axios_call_Reply_ok status_2xx_def

text \<open>
  A \<open>fetch\<close> followed by the caller's \<open>if (response.ok)\<close> test fails on exactly the
  outcomes on which \<open>axios\<close> rejects.
\<close>

lemma fetch_ok_check_eq_axios:
  "(case fetch_call r of Inl e \<Rightarrow> a | Inr (s, d) \<Rightarrow> if status_2xx s then b s d else a) =
   (case axios_call r of Inl e \<Rightarrow> a | Inr (s, d) \<Rightarrow> b s d)"
  by (cases r) (simp_all add: axios_call_def)

lemma digit_in_hex_digit [simp]: "d < 16 \<Longrightarrow> digit_in 16 (hex_digit d) = Some d"
  by (auto simp: digit_in_def hex_digit_def Let_def)
lemma of_char_lt_256: "of_char c < (256::nat)"
  by (metis of_char_mod_256 mod_less_divisor zero_less_numeral)
lemma of_char_div_16: "of_char c div 16 < (16::nat)"
  using less_mult_imp_div_less [of "of_char c" 16 16] of_char_lt_256 [of c] by simp
lemma hex_digit_not_special:
  assumes "d < 16" shows "hex_digit d \<noteq> CHR ''&'' \<and> hex_digit d \<noteq> CHR ''=''"
proof -
  have "of_char (hex_digit d) = (if d < 10 then 48 + d else 55 + d)"
    using assms by (simp add: hex_digit_def)
  then have "of_char (hex_digit d) \<noteq> (38::nat) \<and> of_char (hex_digit d) \<noteq> (61::nat)"
    using assms by auto
  then show ?thesis by auto
qed
lemma form_decode_encode: "form_decode (form_encode s) = s"
proof (induction s)
  case Nil
  then show ?case by simp
next
  case (Cons c cs)
  have pct: "\<not> form_unreserved (CHR ''%'')" and plus: "\<not> form_unreserved (CHR ''+'')"
    by (simp_all add: form_unreserved_def)
  show ?case
  proof (cases "c = CHR '' '' \<or> form_unreserved c")
    case True
    with Cons.IH pct plus show ?thesis by auto
  next
    case False
    let ?k = "of_char c :: nat"
    have dec: "digit_in 16 (hex_digit (?k div 16)) = Some (?k div 16)"
              "digit_in 16 (hex_digit (?k mod 16)) = Some (?k mod 16)"
      using of_char_div_16 [of c] by simp_all
    have "char_of (16 * (?k div 16) + ?k mod 16) = c" by simp
    with False Cons.IH dec show ?thesis by simp
  qed
qed
lemma form_encode_no_sep:
  "x \<in> set (form_encode s) \<Longrightarrow> x \<noteq> CHR ''&'' \<and> x \<noteq> CHR ''=''"
proof (induction s)
  case Nil
  then show ?case by simp
next
  case (Cons c cs)
  have amp: "\<not> form_unreserved (CHR ''&'')" and eq: "\<not> form_unreserved (CHR ''='')"
    by (simp_all add: form_unreserved_def)
  have hx: "hex_digit (of_char c div 16) \<noteq> CHR ''&'' \<and> hex_digit (of_char c div 16) \<noteq> CHR ''=''"
           "hex_digit (of_char c mod 16) \<noteq> CHR ''&'' \<and> hex_digit (of_char c mod 16) \<noteq> CHR ''=''"
    using of_char_div_16 [of c] by (simp_all add: hex_digit_not_special)
  consider "x \<in> set (form_encode cs)" | "x = CHR ''+''" | "x = c" "form_unreserved c"
    | "x = CHR ''%''" | "x = hex_digit (of_char c div 16)" | "x = hex_digit (of_char c mod 16)"
    using Cons.prems by (auto split: if_splits)
  then show ?case
    by cases (use Cons.IH amp eq hx in auto)
qed
lemma split_on_no_sep: "d \<notin> set w \<Longrightarrow> split_on d w = [w]"
  by (induction w) (auto simp: Let_def)
lemma split_on_append_sep:
  "d \<notin> set w \<Longrightarrow> split_on d (w @ d # rest) = w # split_on d rest"
  by (induction w) (auto simp: Let_def)
lemma split_on_join_on:
  "ws \<noteq> [] \<Longrightarrow> \<forall>w \<in> set ws. d \<notin> set w \<Longrightarrow> split_on d (join_on d ws) = ws"
proof (induction d ws rule: join_on.induct)
  case (3 d w v vs)
  then show ?case by (simp add: split_on_append_sep)
qed (auto simp: split_on_no_sep)
lemma parse_pair_encoded:
  "parse_pair (form_encode k @ CHR ''='' # form_encode v) = (k, v)"
proof -
  have noeq: "\<forall>x \<in> set (form_encode k). x \<noteq> CHR ''=''"
    using form_encode_no_sep by blast
  then have "takeWhile (\<lambda>c. c \<noteq> CHR ''='') (form_encode k @ CHR ''='' # form_encode v) = form_encode k"
    by (simp add: takeWhile_append2)
  moreover from noeq have "dropWhile (\<lambda>c. c \<noteq> CHR ''='') (form_encode k @ CHR ''='' # form_encode v)
      = CHR ''='' # form_encode v"
    by (simp add: dropWhile_append2)
  ultimately show ?thesis by (simp add: parse_pair_def form_decode_encode)
qed
text \<open>
  Parsing a query string produced by \<open>URLSearchParams.toString()\<close> gives back the
  exact list of name/value pairs, whatever characters they contain (spaces, \<open>&\<close>,
  \<open>=\<close>, \<open>+\<close>, \<open>%\<close>, non-ASCII bytes).
\<close>

theorem urlsearchparams_roundtrip: "parse_params (serialize_params ps) = ps"
proof (cases "ps = []")
  case True
  then show ?thesis by (simp add: parse_params_def serialize_params_def)
next
  case False
  let ?ws = "map (\<lambda>(k, v). form_encode k @ CHR ''='' # form_encode v) ps"
  have sep: "\<forall>w \<in> set ?ws. CHR ''&'' \<notin> set w"
    using form_encode_no_sep by fastforce
  have ne: "\<forall>w \<in> set ?ws. w \<noteq> []" by auto
  have "split_on (CHR ''&'') (join_on (CHR ''&'') ?ws) = ?ws"
    using False sep by (simp add: split_on_join_on)
  moreover have "filter (\<lambda>w. w \<noteq> []) ?ws = ?ws" using ne by (simp add: filter_id_conv)
  moreover have "map parse_pair ?ws = ps"
    by (induction ps) (auto simp: parse_pair_encoded)
  ultimately show ?thesis by (simp add: parse_params_def serialize_params_def)
qed

subsection \<open>Properties of the client\<close>

text \<open>
  The status guard \<open>if (!response.status === 200) throw\<close> after every axios call in
  FindJobs.jsx and JobDetails.jsx never throws. What the caller sees depends only on
  the status class: every 2xx reply is accepted (201 and 204 included, although the
  guard's message speaks of a non-200 status), every other status is the error axios
  itself raised, and a transport failure is a transport error.
\<close>

theorem status_guard_is_dead:
  "axios_with_guard (Reply s b) = (if 200 \<le> s \<and> s < 300 then Inr b else Inl (Status_Error s)) \<and>
   axios_with_guard Network_Failure = Inl Transport_Error"
  by (simp add: axios_with_guard_eq axios_call_def status_2xx_def)

end
