(* ===== verification/BlogList.thy ===== *)
theory BlogList
  imports Http
begin

text \<open>
  The public blog pages: the list with its category filter (src/src/Components/Blog/Blogs.jsx)
  and the detail page with its related posts (src/src/Components/Blog/BlogDetail.jsx).
  A view's state is a record of its \<open>useState\<close> hooks. A step handles one event (a
  response arriving, a click) and then runs the effects whose dependency list changed,
  as React does after the render: the model's states are the settled states between two
  events. React compares dependencies with \<open>Object.is\<close>; a response body is a freshly
  parsed array, so a successful fetch always changes the \<open>blogs\<close> dependency.
\<close>

record blog =
  blog_id :: entity_id
  blog_title :: string
  blog_image_url :: string
  blog_category_id :: entity_id
  blog_categories_name :: string
  blog_content :: string
  blog_created_at :: string

subsection \<open>Blogs.jsx: the list view\<close>

record blogs_view =
  selected_category :: string
  blogs :: "blog list"
  filtered_blogs :: "blog list"

definition blogs_init :: blogs_view where
  "blogs_init = \<lparr>selected_category = ''All'', blogs = [], filtered_blogs = []\<rparr>"

datatype blogs_event = Blogs_Response "blog list outcome" | Click_Category string

text \<open>The filter effect (lines 34--42), run when \<open>selectedCategory\<close> or \<open>blogs\<close> changed.\<close>

definition blog_filter :: "string \<Rightarrow> blog list \<Rightarrow> blog list" where
  "blog_filter c bs = (if c = ''All'' then bs else filter (\<lambda>b. blog_categories_name b = c) bs)"

definition blogs_filter_effect :: "blogs_view \<Rightarrow> blogs_view" where
  "blogs_filter_effect v = v\<lparr>filtered_blogs := blog_filter (selected_category v) (blogs v)\<rparr>"

text \<open>
  \<open>fetchBlogs\<close> (lines 16--28): a failed request or a status that is not ok is thrown
  and logged, leaving the state as it is; a good response sets both \<open>blogs\<close> and
  \<open>filteredBlogs\<close>. A click on a chip calls \<open>setSelectedCategory\<close>; setting the value
  it already has does not re-render. The boolean says whether an effect dependency changed.
\<close>

fun blogs_handle :: "blogs_view \<Rightarrow> blogs_event \<Rightarrow> blogs_view \<times> bool" where
  "blogs_handle v (Blogs_Response r) =
     (case fetch_call r of
        Inl _ \<Rightarrow> (v, False)
      | Inr (s, data) \<Rightarrow>
          if status_2xx s then (v\<lparr>blogs := data, filtered_blogs := data\<rparr>, True) else (v, False))"
| "blogs_handle v (Click_Category c) = (v\<lparr>selected_category := c\<rparr>, c \<noteq> selected_category v)"

definition blogs_step :: "blogs_view \<Rightarrow> blogs_event \<Rightarrow> blogs_view" where
  "blogs_step v e = (let (v', changed) = blogs_handle v e in if changed then blogs_filter_effect v' else v')"

inductive blogs_reachable :: "blogs_view \<Rightarrow> bool" where
  init: "blogs_reachable blogs_init"
| step: "blogs_reachable v \<Longrightarrow> blogs_reachable (blogs_step v e)"

text \<open>
  The chips: \<open>Array.from(new Set(blogs.map(b => b.categories_name)))\<close> (line 54). A
  \<open>Set\<close> keeps its elements in first-insertion order; the loop inserts each name.
\<close>

fun set_insert_all :: "'a list \<Rightarrow> 'a list \<Rightarrow> 'a list" where
  "set_insert_all acc [] = acc"
| "set_insert_all acc (x # xs) = set_insert_all (if x \<in> set acc then acc else acc @ [x]) xs"

definition blog_category_chips :: "blog list \<Rightarrow> string list" where
  "blog_category_chips bs = set_insert_all [] (map blog_categories_name bs)"

text \<open>\<open>truncateTitle\<close>: 40 characters in Blogs.jsx (line 10), 50 in BlogDetail.jsx (line 4).\<close>

definition truncate_title :: "nat \<Rightarrow> string \<Rightarrow> string" where
  "truncate_title n t = (if length t > n then take n t @ ''...'' else t)"

subsection \<open>BlogDetail.jsx: primary fetch, then the related posts\<close>

record blog_detail_view =
  detail_blog :: "blog option"
  related_blogs :: "blog list"

definition blog_detail_init :: blog_detail_view where
  "blog_detail_init = \<lparr>detail_blog = None, related_blogs = []\<rparr>"

text \<open>
  \<open>fetchRelatedBlogs(categoryId)\<close> (lines 38--51): all blogs, those of the same category
  whose id is not \<open>parseInt(id)\<close> of the route parameter, the first three.
\<close>

definition related_filter :: "string \<Rightarrow> entity_id \<Rightarrow> blog list \<Rightarrow> blog list" where
  "related_filter route_id cat bs =
     take 3 (filter (\<lambda>b. blog_category_id b = cat \<and>
                          \<not> strict_eq (JNum (blog_id b)) (parse_int route_id)) bs)"

definition fetch_related :: "string \<Rightarrow> entity_id \<Rightarrow> blog list outcome \<Rightarrow>
                             blog_detail_view \<Rightarrow> blog_detail_view" where
  "fetch_related route_id cat r v =
     (case fetch_call r of
        Inl _ \<Rightarrow> v
      | Inr (s, data) \<Rightarrow>
          if status_2xx s then v\<lparr>related_blogs := related_filter route_id cat data\<rparr> else v)"

text \<open>
  \<open>fetchBlogDetail\<close> (lines 22--36), run by the effect on \<open>[id]\<close>. The backend is a pair
  of functions from the requested path to the outcome; the result is the final view and
  the paths requested, in order. The related request is issued only after the detail
  response has been accepted, with the category of that response.
\<close>

definition blog_detail_load ::
  "string \<Rightarrow> (string \<Rightarrow> blog outcome) \<Rightarrow> (string \<Rightarrow> blog list outcome) \<Rightarrow>
   blog_detail_view \<Rightarrow> blog_detail_view \<times> string list" where
  "blog_detail_load route_id srv_one srv_all v =
     (let p1 = ''/blogs/'' @ route_id in
      case fetch_call (srv_one p1) of
        Inl _ \<Rightarrow> (v, [p1])
      | Inr (s, data) \<Rightarrow>
          if \<not> status_2xx s then (v, [p1])
          else (fetch_related route_id (blog_category_id data) (srv_all ''/blogs'')
                  (v\<lparr>detail_blog := Some data\<rparr>), [p1, ''/blogs'']))"

text \<open>\<open>handleBlogClick(blogId)\<close> navigates to \<open>`/blog/${blogId}`\<close>: the route parameter.\<close>

definition blog_route_param :: "entity_id \<Rightarrow> string" where
  "blog_route_param n = js_to_string (JNum n)"

definition blogs_filter_inv :: "blogs_view \<Rightarrow> bool" where
  "blogs_filter_inv v \<longleftrightarrow> filtered_blogs v = blog_filter (selected_category v) (blogs v)"

subsection \<open>Facts\<close>

lemma blogs_filter_inv_init: "blogs_filter_inv blogs_init"
  by (simp add: blogs_filter_inv_def blogs_init_def blog_filter_def)

lemma blogs_filter_effect_inv: "blogs_filter_inv (blogs_filter_effect v)"
  by (simp add: blogs_filter_inv_def blogs_filter_effect_def)

lemma blogs_step_inv:
  assumes inv: "blogs_filter_inv v" shows "blogs_filter_inv (blogs_step v e)"
proof (cases e)
  case (Blogs_Response r)
  then show ?thesis
    using inv by (auto simp: blogs_step_def blogs_filter_effect_inv split: sum.splits)
next
  case (Click_Category c)
  then show ?thesis
    using inv by (cases "c = selected_category v") (auto simp: blogs_step_def blogs_filter_effect_inv)
qed

lemma blogs_reachable_inv: "blogs_reachable v \<Longrightarrow> blogs_filter_inv v"
  by (induction rule: blogs_reachable.induct) (auto intro: blogs_filter_inv_init blogs_step_inv)

lemma set_insert_all_snoc:
  "set_insert_all acc (xs @ [x]) =
     (let r = set_insert_all acc xs in if x \<in> set r then r else r @ [x])"
  by (induction xs arbitrary: acc) auto

lemma set_set_insert_all: "set (set_insert_all acc xs) = set acc \<union> set xs"
  by (induction xs arbitrary: acc) auto

lemma set_insert_all_first_occurrence: "set_insert_all [] xs = rev (remdups (rev xs))"
proof (induction xs rule: rev_induct)
  case Nil
  then show ?case by simp
next
  case (snoc x xs)
  show ?case
    using snoc.IH by (simp add: set_insert_all_snoc set_set_insert_all Let_def)
qed

lemma blog_detail_load_primary_fails:
  assumes "\<not> (\<exists>s b. srv_one (''/blogs/'' @ rid) = Reply s b \<and> status_2xx s)"
  shows "blog_detail_load rid srv_one srv_all v = (v, [''/blogs/'' @ rid])"
  using assms by (cases "srv_one (''/blogs/'' @ rid)") (auto simp: blog_detail_load_def)

lemma blog_detail_load_primary_ok:
  assumes "srv_one (''/blogs/'' @ rid) = Reply s d" and "status_2xx s"
  shows "blog_detail_load rid srv_one srv_all v =
         (fetch_related rid (blog_category_id d) (srv_all ''/blogs'') (v\<lparr>detail_blog := Some d\<rparr>),
          [''/blogs/'' @ rid, ''/blogs''])"
  using assms by (simp add: blog_detail_load_def)

lemma fetch_related_detail [simp]: "detail_blog (fetch_related rid c r v) = detail_blog v"
  by (simp add: fetch_related_def split: sum.split)

lemma fetch_related_fails:
  "\<not> (\<exists>s bs. r = Reply s bs \<and> status_2xx s) \<Longrightarrow> fetch_related rid c r v = v"
  by (cases r) (auto simp: fetch_related_def)

lemma related_filter_props:
  "subseq (related_filter (int_to_string n) c bs) bs \<and> length (related_filter (int_to_string n) c bs) \<le> 3 \<and>
   (\<forall>b \<in> set (related_filter (int_to_string n) c bs).
      b \<in> set bs \<and> blog_category_id b = c \<and> blog_id b \<noteq> n)"
proof -
  let ?P = "\<lambda>b. blog_category_id b = c \<and> \<not> strict_eq (JNum (blog_id b)) (parse_int (int_to_string n))"
  have eq: "related_filter (int_to_string n) c bs = take 3 (filter ?P bs)"
    by (simp add: related_filter_def)
  have mem: "b \<in> set bs \<and> blog_category_id b = c \<and> blog_id b \<noteq> n"
    if "b \<in> set (take 3 (filter ?P bs))" for b
  proof -
    from set_take_filter [OF that] have "b \<in> set bs" and "?P b" by simp_all
    then show ?thesis by (simp add: parse_int_int_to_string)
  qed
  have sub: "subseq (take 3 (filter ?P bs)) bs" by (rule subseq_take_filter)
  have len: "length (take 3 (filter ?P bs)) \<le> 3" by simp
  from sub len mem show ?thesis unfolding eq by blast
qed

subsection \<open>Properties of the blog views\<close>

text \<open>
  C2: in every settled state of the blog list, the displayed list is exactly the fetched
  list when the selected category is \<open>'All'\<close>, and otherwise exactly the fetched blogs
  whose \<open>categories_name\<close> equals the selected category, in their fetched order.
\<close>

theorem blogs_displayed_filter:
  assumes "blogs_reachable v"
  shows "filtered_blogs v =
           (if selected_category v = ''All'' then blogs v
            else filter (\<lambda>b. blog_categories_name b = selected_category v) (blogs v))"
proof -
  have "blogs_filter_inv v"
    using assms
  proof (induction rule: blogs_reachable.induct)
    case init
    show ?case by (rule blogs_filter_inv_init)
  next
    case (step v e)
    show ?case
    proof (cases e)
      case (Click_Category c)
      with step.IH show ?thesis
        by (cases "c = selected_category v") (auto simp: blogs_step_def blogs_filter_effect_inv)
    qed (use step.IH blogs_step_inv in blast)
  qed
  then show ?thesis by (simp add: blogs_filter_inv_def blog_filter_def)
qed

theorem blogs_displayed_filter_witness:
  "let b1 = \<lparr>blog_id = 1, blog_title = ''a'', blog_image_url = [], blog_category_id = 7,
             blog_categories_name = ''Tech'', blog_content = [], blog_created_at = []\<rparr>;
       b2 = \<lparr>blog_id = 2, blog_title = ''b'', blog_image_url = [], blog_category_id = 7,
             blog_categories_name = ''Tech'', blog_content = [], blog_created_at = []\<rparr>;
       b3 = \<lparr>blog_id = 3, blog_title = ''c'', blog_image_url = [], blog_category_id = 8,
             blog_categories_name = ''Health'', blog_content = [], blog_created_at = []\<rparr>;
       v = blogs_step (blogs_step blogs_init (Blogs_Response (Reply 200 [b1, b2, b3])))
             (Click_Category ''Tech'')
   in blogs_reachable v \<and> filtered_blogs v = [b1, b2]"
proof -
  let ?b1 = "\<lparr>blog_id = 1, blog_title = ''a'', blog_image_url = [], blog_category_id = 7,
             blog_categories_name = ''Tech'', blog_content = [], blog_created_at = []\<rparr>"
  let ?b2 = "\<lparr>blog_id = 2, blog_title = ''b'', blog_image_url = [], blog_category_id = 7,
             blog_categories_name = ''Tech'', blog_content = [], blog_created_at = []\<rparr>"
  let ?b3 = "\<lparr>blog_id = 3, blog_title = ''c'', blog_image_url = [], blog_category_id = 8,
             blog_categories_name = ''Health'', blog_content = [], blog_created_at = []\<rparr>"
  let ?v = "blogs_step (blogs_step blogs_init (Blogs_Response (Reply 200 [?b1, ?b2, ?b3])))
             (Click_Category ''Tech'')"
  have r: "blogs_reachable ?v"
    by (intro blogs_reachable.step blogs_reachable.init)
  have sel: "selected_category ?v = ''Tech''" and bl: "blogs ?v = [?b1, ?b2, ?b3]"
    by (simp_all add: blogs_step_def blogs_init_def blogs_filter_effect_def status_2xx_def)
  from blogs_displayed_filter [OF r] sel bl have "filtered_blogs ?v = [?b1, ?b2]" by simp
  with r show ?thesis by (simp add: Let_def)
qed

text \<open>
  The category chips are the distinct \<open>categories_name\<close> values of the fetched blogs in
  the order of their first occurrence: \<open>Array.from(new Set(...))\<close> equals the reference
  "reverse, drop later duplicates, reverse back".
\<close>

theorem blog_chips_first_occurrence:
  "blog_category_chips bs = rev (remdups (rev (map blog_categories_name bs)))"
  by (simp add: blog_category_chips_def set_insert_all_first_occurrence)

text \<open>
  C8: BlogDetail.jsx, failing primary fetch: when the request for \<open>/blogs/{id}\<close> fails
  or its status is not ok, no further request is made and the view keeps its previous
  state (on a navigation between posts, the previous post stays on screen).
\<close>

theorem blog_detail_primary_failure:
  assumes "\<not> (\<exists>s b. srv_one (''/blogs/'' @ rid) = Reply s b \<and> status_2xx s)"
  shows "blog_detail_load rid srv_one srv_all v = (v, [''/blogs/'' @ rid])"
  using assms by (rule blog_detail_load_primary_fails)

theorem blog_detail_primary_failure_witness:
  "blog_detail_load ''5'' (\<lambda>_. Reply 404 \<lparr>blog_id = 0, blog_title = [], blog_image_url = [],
      blog_category_id = 0, blog_categories_name = [], blog_content = [], blog_created_at = []\<rparr>) (\<lambda>_. Reply 200 [])
      blog_detail_init = (blog_detail_init, [''/blogs/5''])"
  by (simp add: blog_detail_primary_failure status_2xx_def)

text \<open>
  C9: BlogDetail.jsx, failing secondary fetch: when the post was fetched but the request
  for the related posts fails, the post is kept and shown, the related list keeps its
  previous value, and the related request was issued only after the post's.
\<close>

theorem blog_detail_secondary_failure:
  assumes "srv_one (''/blogs/'' @ rid) = Reply s d" and "status_2xx s"
    and "\<not> (\<exists>s' bs. srv_all ''/blogs'' = Reply s' bs \<and> status_2xx s')"
  shows "blog_detail_load rid srv_one srv_all v =
           (v\<lparr>detail_blog := Some d\<rparr>, [''/blogs/'' @ rid, ''/blogs''])"
  using assms by (simp add: blog_detail_load_primary_ok fetch_related_fails)

theorem blog_detail_secondary_failure_witness:
  "let d = \<lparr>blog_id = 5, blog_title = ''t'', blog_image_url = [], blog_category_id = 2,
            blog_categories_name = ''Tech'', blog_content = [], blog_created_at = []\<rparr>
   in blog_detail_load ''5'' (\<lambda>_. Reply 200 d) (\<lambda>_. Network_Failure) blog_detail_init =
        (blog_detail_init\<lparr>detail_blog := Some d\<rparr>, [''/blogs/5'', ''/blogs''])"
  unfolding Let_def by (simp add: blog_detail_secondary_failure status_2xx_def)

text \<open>
  C10: BlogDetail.jsx, related posts: when both requests succeed and the route parameter is
  the one \<open>handleBlogClick\<close> builds for post \<open>n\<close>, the related list is an order-preserving
  sub-list of the fetched posts, has at most three elements, and holds only posts of the
  fetched post's category other than post \<open>n\<close> itself.
\<close>

theorem blog_detail_related:
  assumes "srv_one (''/blogs/'' @ blog_route_param n) = Reply s d" and "status_2xx s"
    and "srv_all ''/blogs'' = Reply s' bs" and "status_2xx s'"
  shows "let r = related_blogs (fst (blog_detail_load (blog_route_param n) srv_one srv_all v))
         in subseq r bs \<and> length r \<le> 3 \<and>
            (\<forall>b \<in> set r. b \<in> set bs \<and> blog_category_id b = blog_category_id d \<and> blog_id b \<noteq> n)"
proof -
  have "related_blogs (fst (blog_detail_load (blog_route_param n) srv_one srv_all v))
          = related_filter (int_to_string n) (blog_category_id d) bs"
    using assms by (simp add: blog_detail_load_primary_ok fetch_related_def blog_route_param_def)
  then show ?thesis using related_filter_props [of n "blog_category_id d" bs] by (simp add: Let_def)
qed

theorem blog_detail_related_witness:
  "let d = \<lparr>blog_id = 1, blog_title = ''a'', blog_image_url = [], blog_category_id = 7,
            blog_categories_name = ''Tech'', blog_content = [], blog_created_at = []\<rparr>;
       e = \<lparr>blog_id = 2, blog_title = ''b'', blog_image_url = [], blog_category_id = 7,
            blog_categories_name = ''Tech'', blog_content = [], blog_created_at = []\<rparr>;
       r = related_blogs (fst (blog_detail_load (blog_route_param 1) (\<lambda>_. Reply 200 d)
             (\<lambda>_. Reply 200 [d, e]) blog_detail_init))
   in subseq r [d, e] \<and> length r \<le> 3 \<and>
      (\<forall>b \<in> set r. b \<in> set [d, e] \<and> blog_category_id b = blog_category_id d \<and> blog_id b \<noteq> 1)"
proof -
  have st: "status_2xx (200::nat)" by (simp add: status_2xx_def)
  show ?thesis unfolding Let_def
    by (rule blog_detail_related [OF _ st _ st, unfolded Let_def]) simp_all
qed

text \<open>
  The route parameter that \<open>handleBlogClick\<close> builds from a post id
  (\<open>`/blog/${blogId}`\<close>) is read back by \<open>parseInt\<close> as the same id, negative ids included.
\<close>

theorem blog_route_param_roundtrip: "parse_int (blog_route_param n) = JNum n"
  by (simp add: blog_route_param_def parse_int_int_to_string)

end
