(* ===== verification/JobSearch.thy ===== *)
theory JobSearch
  imports Http
begin

text \<open>
  The job search page (src/src/Components/Find-Jobs/FindJobs.jsx). The view keeps its filter
  state in hooks, builds a query string from them and fetches one page of vacancies from
  \<open>/vacancies/filter\<close>. Requests are asynchronous: \<open>fetchJobs\<close> sets the loading flag,
  sends the request and returns; the response is applied when it settles. The model keeps
  the requests in flight as \<open>pending\<close>, numbered in the order they were sent, and a
  response is an event of its own, so every interleaving of user input and responses is a
  sequence of events. A handler that calls \<open>fetchJobs()\<close> directly runs the function of
  the render it was created in, so it reads the state from before its own \<open>set...\<close> calls;
  an effect runs after the re-render and reads the new state.
\<close>

record job =
  job_id :: entity_id
  job_title :: string
  job_company_name :: string
  job_city :: string
  job_country :: string
  job_type :: string
  job_created_at :: string

text \<open>The body of \<open>/vacancies/filter\<close>: \<open>{data: [...], total: N}\<close>, either field possibly absent.\<close>

record vacancy_page =
  page_data :: "job list option"
  page_total :: "int option"

record category =
  category_id :: entity_id
  category_name :: string

type_synonym query = "(string \<times> string) list"

record find_jobs_view =
  search_query :: string
  location_query :: string
  filtered_jobs :: "job list"
  selected_role :: jsval
  selected_level :: string
  selected_job_type :: string
  min_salary :: string
  is_remote :: jsval
  max_salary :: string
  current_page :: int
  total_jobs :: int
  is_loading :: bool
  categories :: "category list option"
  job_counts :: "entity_id \<rightharpoonup> int option"
  pending :: "(nat \<times> query) list"
  next_req :: nat

text \<open>The hooks' initial values (lines 8--21), before the mount effects run.\<close>

definition find_jobs_hooks :: find_jobs_view where
  "find_jobs_hooks =
     \<lparr>search_query = [], location_query = [], filtered_jobs = [], selected_role = JStr [],
      selected_level = [], selected_job_type = [], min_salary = [], is_remote = JStr [],
      max_salary = [], current_page = 1, total_jobs = 0, is_loading = False,
      categories = None, job_counts = Map.empty, pending = [], next_req = 0\<rparr>"

subsection \<open>The query of \<open>fetchJobs\<close>\<close>

text \<open>\<open>selectedJobType.replace(/\s+/g, '+')\<close>: every run of white space becomes one \<open>+\<close>.\<close>

fun replace_ws_runs :: "bool \<Rightarrow> string \<Rightarrow> string" where
  "replace_ws_runs in_run [] = []"
| "replace_ws_runs in_run (c # cs) =
     (if is_js_space c then (if in_run then replace_ws_runs True cs else CHR ''+'' # replace_ws_runs True cs)
      else c # replace_ws_runs False cs)"

text \<open>
  \<open>new URLSearchParams({...})\<close> (lines 70--81): every value is converted to a string;
  empty filters are sent as empty values.
\<close>

definition find_jobs_query :: "find_jobs_view \<Rightarrow> query" where
  "find_jobs_query v =
     [(''size'', ''10''),
      (''page'', int_to_string (current_page v)),
      (''title'', search_query v),
      (''jobType'', if selected_job_type v \<noteq> [] then replace_ws_runs False (selected_job_type v) else []),
      (''seniorityLevel'', selected_level v),
      (''salaryMin'', min_salary v),
      (''salaryMax'', max_salary v),
      (''isRemote'', if truthy (is_remote v) then ''true'' else []),
      (''location'', location_query v),
      (''categoryId'', js_to_string (selected_role v))]"

definition find_jobs_url :: "query \<Rightarrow> string" where
  "find_jobs_url q = ''/vacancies/filter?'' @ serialize_params q"

subsection \<open>\<open>fetchJobs\<close>: sending and settling\<close>

text \<open>Sending (lines 66--86): the loading flag is set and the request is in flight.\<close>

definition fetch_jobs :: "find_jobs_view \<Rightarrow> find_jobs_view \<Rightarrow> find_jobs_view" where
  "fetch_jobs closure v =
     v\<lparr>is_loading := True, pending := pending v @ [(next_req v, find_jobs_query closure)],
       next_req := Suc (next_req v)\<rparr>"

text \<open>
  Settling (lines 88--102): \<open>data.data || []\<close> and \<open>data.total || 0\<close> on success; on a
  rejected request only the list is emptied; the loading flag is cleared in \<open>finally\<close>
  whatever other requests are still in flight.
\<close>

definition apply_jobs_response :: "vacancy_page outcome \<Rightarrow> find_jobs_view \<Rightarrow> find_jobs_view" where
  "apply_jobs_response r v =
     (case axios_with_guard r of
        Inl _ \<Rightarrow> v\<lparr>filtered_jobs := [], is_loading := False\<rparr>
      | Inr d \<Rightarrow> v\<lparr>filtered_jobs := (case page_data d of None \<Rightarrow> [] | Some js \<Rightarrow> js),
                  total_jobs := (case page_total d of None \<Rightarrow> 0 | Some t \<Rightarrow> t),
                  is_loading := False\<rparr>)"

definition settle_jobs :: "nat \<Rightarrow> vacancy_page outcome \<Rightarrow> find_jobs_view \<Rightarrow> find_jobs_view" where
  "settle_jobs n r v =
     (if n \<in> fst ` set (pending v)
      then apply_jobs_response r (v\<lparr>pending := filter (\<lambda>p. fst p \<noteq> n) (pending v)\<rparr>)
      else v)"

subsection \<open>Job counts per category\<close>

text \<open>
  \<open>loadJobCounts\<close> (lines 48--64) awaits \<open>calculateJobCounts(category.id)\<close> (lines
  160--174) for each category in turn. Nothing catches a rejected request: the loop
  stops and \<open>setJobCounts\<close> is never called (\<open>None\<close> here).
\<close>

fun load_job_counts :: "(entity_id \<Rightarrow> vacancy_page outcome) \<Rightarrow> (entity_id \<rightharpoonup> int option) \<Rightarrow>
                        category list \<Rightarrow> (entity_id \<rightharpoonup> int option) option" where
  "load_job_counts srv acc [] = Some acc"
| "load_job_counts srv acc (c # cs) =
     (case axios_with_guard (srv (category_id c)) of
        Inl _ \<Rightarrow> None
      | Inr d \<Rightarrow> load_job_counts srv (acc(category_id c \<mapsto> page_total d)) cs)"

text \<open>The label's count: \<open>jobCounts[category?.id] || 0\<close> (line 276).\<close>

definition job_count_label :: "(entity_id \<rightharpoonup> int option) \<Rightarrow> entity_id \<Rightarrow> int" where
  "job_count_label m i = (case m i of Some (Some t) \<Rightarrow> t | _ \<Rightarrow> 0)"

subsection \<open>Events and the effect on the filter dependencies\<close>

datatype fj_event =
    Type_Search string
  | Type_Location string
  | Click_Search
  | Pick_Role jsval
  | Pick_Level string
  | Pick_Job_Type string
  | Toggle_Remote
  | Pick_Min_Salary string
  | Pick_Max_Salary string
  | Clear_Filters
  | Jobs_Response nat "vacancy_page outcome"
  | Categories_Response "category list outcome"
  | Counts_Loaded "entity_id \<Rightarrow> vacancy_page outcome"

text \<open>
  The dependency list of the fetching effect (lines 24--27). It names the setter
  \<open>setIsRemote\<close>, whose identity never changes, and not the value \<open>isRemote\<close>.
\<close>

definition fj_deps :: "find_jobs_view \<Rightarrow> jsval \<times> string \<times> string \<times> string \<times> string \<times> string \<times> string \<times> int" where
  "fj_deps v = (selected_role v, selected_level v, selected_job_type v, min_salary v, max_salary v,
                search_query v, location_query v, current_page v)"

text \<open>
  A user handler: its state updates, and whether it calls \<open>fetchJobs()\<close> from its own
  closure (\<open>handleSearch\<close>, lines 105--108; \<open>handleClearFilters\<close>, lines 122--133).
\<close>

fun fj_handler :: "fj_event \<Rightarrow> find_jobs_view \<Rightarrow> find_jobs_view \<times> bool" where
  "fj_handler (Type_Search s) v = (v\<lparr>search_query := s\<rparr>, False)"
| "fj_handler (Type_Location s) v = (v\<lparr>location_query := s\<rparr>, False)"
| "fj_handler Click_Search v = (v\<lparr>current_page := 1\<rparr>, True)"
| "fj_handler (Pick_Role r) v = (v\<lparr>selected_role := r\<rparr>, False)"
| "fj_handler (Pick_Level l) v = (v\<lparr>selected_level := l\<rparr>, False)"
| "fj_handler (Pick_Job_Type t) v = (v\<lparr>selected_job_type := t\<rparr>, False)"
| "fj_handler Toggle_Remote v = (v\<lparr>is_remote := JBool (\<not> truthy (is_remote v))\<rparr>, False)"
| "fj_handler (Pick_Min_Salary s) v = (v\<lparr>min_salary := s\<rparr>, False)"
| "fj_handler (Pick_Max_Salary s) v = (v\<lparr>max_salary := s\<rparr>, False)"
| "fj_handler Clear_Filters v =
     (v\<lparr>selected_role := JStr [], selected_level := [], search_query := [], location_query := [],
        selected_job_type := [], min_salary := [], max_salary := [], is_remote := JBool False,
        current_page := 1\<rparr>, True)"
| "fj_handler _ v = (v, False)"

text \<open>
  One step. A user event runs its handler (sending a request built from the old state
  when the handler calls \<open>fetchJobs()\<close>), then the effect sends a request built from the
  new state if a dependency changed. A response settles its request. The categories
  response of the mount effect (lines 33--46) is stored when the request succeeds (a
  rejection is thrown out of the effect). The counts loop runs once the categories are a
  non-empty list (lines 61--63).
\<close>

definition fj_user_step :: "find_jobs_view \<Rightarrow> fj_event \<Rightarrow> find_jobs_view" where
  "fj_user_step v e =
     (let (v1, calls) = fj_handler e v;
          v2 = (if calls then fetch_jobs v v1 else v1)
      in if fj_deps v2 \<noteq> fj_deps v then fetch_jobs v2 v2 else v2)"

fun fj_step :: "find_jobs_view \<Rightarrow> fj_event \<Rightarrow> find_jobs_view" where
  "fj_step v (Jobs_Response n r) = settle_jobs n r v"
| "fj_step v (Categories_Response r) =
     (case axios_with_guard r of Inl _ \<Rightarrow> v | Inr cs \<Rightarrow> v\<lparr>categories := Some cs\<rparr>)"
| "fj_step v (Counts_Loaded srv) =
     (case categories v of
        Some cs \<Rightarrow>
          if cs \<noteq> [] then
            (case load_job_counts srv Map.empty cs of None \<Rightarrow> v | Some m \<Rightarrow> v\<lparr>job_counts := m\<rparr>)
          else v
      | None \<Rightarrow> v)"
| "fj_step v e = fj_user_step v e"

text \<open>Mounting runs the fetching effect once with the initial hooks.\<close>

definition fj_mount :: find_jobs_view where
  "fj_mount = fetch_jobs find_jobs_hooks find_jobs_hooks"

inductive fj_reachable :: "find_jobs_view \<Rightarrow> bool" where
  mount: "fj_reachable fj_mount"
| step: "fj_reachable v \<Longrightarrow> fj_reachable (fj_step v e)"

text \<open>
  A backend that answers request \<open>n\<close> with a function of that request's query: the
  scenarios below use it to deliver responses in a chosen order.
\<close>

definition fj_serve :: "(query \<Rightarrow> vacancy_page outcome) \<Rightarrow> nat \<Rightarrow> find_jobs_view \<Rightarrow> find_jobs_view" where
  "fj_serve srv n v = (case map_of (pending v) n of None \<Rightarrow> v | Some q \<Rightarrow> fj_step v (Jobs_Response n (srv q)))"

text \<open>
  The bookkeeping invariant: the request numbers in flight are distinct and below the
  next number, and the loading flag is only set while some request is in flight.
\<close>

definition fj_inv :: "find_jobs_view \<Rightarrow> bool" where
  "fj_inv v \<longleftrightarrow>
     distinct (map fst (pending v)) \<and> (\<forall>p \<in> set (pending v). fst p < next_req v) \<and>
     (is_loading v \<longrightarrow> pending v \<noteq> [])"

subsection \<open>Facts\<close>

lemma fj_handler_frame:
  "fj_handler e v = (v1, c) \<Longrightarrow>
   pending v1 = pending v \<and> next_req v1 = next_req v \<and> is_loading v1 = is_loading v"
  by (cases e) auto

lemma fetch_jobs_fields [simp]:
  "pending (fetch_jobs c v) = pending v @ [(next_req v, find_jobs_query c)]"
  "next_req (fetch_jobs c v) = Suc (next_req v)"
  "is_loading (fetch_jobs c v) = True"
  "fj_deps (fetch_jobs c v) = fj_deps v"
  by (simp_all add: fetch_jobs_def fj_deps_def)

lemma fetch_jobs_inv: "fj_inv v \<Longrightarrow> fj_inv (fetch_jobs c v)"
  by (auto simp: fj_inv_def)

lemma apply_jobs_response_fields [simp]:
  "pending (apply_jobs_response r v) = pending v"
  "next_req (apply_jobs_response r v) = next_req v"
  "is_loading (apply_jobs_response r v) = False"
  by (simp_all add: apply_jobs_response_def split: sum.split)

lemma settle_jobs_inv: "fj_inv v \<Longrightarrow> fj_inv (settle_jobs n r v)"
  by (auto simp: fj_inv_def settle_jobs_def distinct_map_filter)

lemma fj_user_step_inv:
  assumes inv: "fj_inv v" shows "fj_inv (fj_user_step v e)"
proof -
  obtain v1 c where h: "fj_handler e v = (v1, c)" by (cases "fj_handler e v")
  from fj_handler_frame [OF h] inv have "fj_inv v1" by (simp add: fj_inv_def)
  then have "fj_inv (if c then fetch_jobs v v1 else v1)" by (simp add: fetch_jobs_inv)
  then show ?thesis by (simp add: fj_user_step_def h Let_def fetch_jobs_inv)
qed

lemma fj_step_inv:
  assumes inv: "fj_inv v" shows "fj_inv (fj_step v e)"
proof (cases e)
  case (Jobs_Response n r)
  with inv show ?thesis by (simp add: settle_jobs_inv)
next
  case (Categories_Response r)
  with inv show ?thesis by (simp add: fj_inv_def split: sum.split)
next
  case (Counts_Loaded srv)
  with inv show ?thesis by (simp add: fj_inv_def split: option.split)
qed (simp_all add: inv fj_user_step_inv)

lemma fj_mount_inv: "fj_inv fj_mount"
  by (simp add: fj_mount_def fj_inv_def find_jobs_hooks_def)

lemma fj_reachable_inv: "fj_reachable v \<Longrightarrow> fj_inv v"
  by (induction rule: fj_reachable.induct) (auto intro: fj_mount_inv fj_step_inv)
lemma find_jobs_query_fetch [simp]: "find_jobs_query (fetch_jobs c v) = find_jobs_query v"
  by (simp add: fetch_jobs_def find_jobs_query_def)

lemma settle_jobs_pending:
  "n \<in> fst ` set (pending v) \<Longrightarrow>
   settle_jobs n r v = apply_jobs_response r (v\<lparr>pending := filter (\<lambda>p. fst p \<noteq> n) (pending v)\<rparr>)"
  by (simp add: settle_jobs_def)

lemma axios_with_guard_ok:
  "status_2xx s \<Longrightarrow> axios_with_guard (Reply s d) = Inr d"
  by (simp add: axios_with_guard_def axios_call_def)

lemma axios_with_guard_Inl:
  "axios_call r = Inl e \<Longrightarrow> axios_with_guard r = Inl e"
  by (simp add: axios_with_guard_def)

lemma axios_with_guard_Inr:
  "axios_with_guard r = Inr d \<longleftrightarrow> (\<exists>s. r = Reply s d \<and> status_2xx s)"
  by (cases r) (auto simp: axios_with_guard_def axios_call_def)

lemma fj_user_step_toggle:
  "fj_user_step v Toggle_Remote = v\<lparr>is_remote := JBool (\<not> truthy (is_remote v))\<rparr>"
  by (simp add: fj_user_step_def fj_deps_def)

lemma length_replace_ws_runs: "length (replace_ws_runs b s) \<le> length s"
  by (induction b s rule: replace_ws_runs.induct) auto

lemma replace_ws_runs_id: "\<forall>c \<in> set s. \<not> is_js_space c \<Longrightarrow> replace_ws_runs b s = s"
  by (induction b s rule: replace_ws_runs.induct) auto

lemma replace_ws_runs_changes:
  "replace_ws_runs b s = s \<Longrightarrow> \<forall>c \<in> set s. \<not> is_js_space c"
proof (induction b s rule: replace_ws_runs.induct)
  case (1 in_run)
  then show ?case by simp
next
  case (2 in_run c cs)
  show ?case
  proof (cases "is_js_space c")
    case True
    show ?thesis
    proof (cases in_run)
      case True
      with \<open>is_js_space c\<close> "2.prems" have "replace_ws_runs True cs = c # cs" by simp
      with length_replace_ws_runs [of True cs] show ?thesis by simp
    next
      case False
      with \<open>is_js_space c\<close> "2.prems" have "c = CHR ''+''" by simp
      with \<open>is_js_space c\<close> show ?thesis by (simp add: is_js_space_def)
    qed
  next
    case False
    with "2.prems" "2.IH"(3) show ?thesis by simp
  qed
qed

lemma load_job_counts_fails:
  "c \<in> set cs \<Longrightarrow> axios_call (srv (category_id c)) = Inl e \<Longrightarrow> load_job_counts srv acc cs = None"
  by (induction srv acc cs rule: load_job_counts.induct)
     (auto simp: axios_with_guard_Inl split: sum.split)

lemma load_job_counts_ok:
  "\<forall>c \<in> set cs. \<exists>s d. srv (category_id c) = Reply s d \<and> status_2xx s \<Longrightarrow>
   \<exists>m. load_job_counts srv acc cs = Some m \<and> dom m = dom acc \<union> category_id ` set cs"
proof (induction srv acc cs rule: load_job_counts.induct)
  case (1 srv acc)
  then show ?case by simp
next
  case (2 srv acc c cs)
  from "2.prems" obtain s d where "srv (category_id c) = Reply s d" and "status_2xx s" by auto
  then have g: "axios_with_guard (srv (category_id c)) = Inr d" by (simp add: axios_with_guard_ok)
  from "2.prems" have "\<forall>c \<in> set cs. \<exists>s d. srv (category_id c) = Reply s d \<and> status_2xx s" by simp
  with "2.IH" [OF g] obtain m where
    m: "load_job_counts srv (acc(category_id c \<mapsto> page_total d)) cs = Some m"
    and dm: "dom m = dom (acc(category_id c \<mapsto> page_total d)) \<union> category_id ` set cs"
    by blast
  have "load_job_counts srv acc (c # cs) = Some m" using g m by simp
  moreover have "dom m = dom acc \<union> category_id ` set (c # cs)" using dm by auto
  ultimately show ?case by blast
qed
lemma fj_serve_reachable:
  assumes "fj_reachable v" shows "fj_reachable (fj_serve srv n v)"
proof (cases "map_of (pending v) n")
  case None
  with assms show ?thesis by (simp add: fj_serve_def)
next
  case (Some q)
  from assms have "fj_reachable (fj_step v (Jobs_Response n (srv q)))" by (rule fj_reachable.step)
  with Some show ?thesis by (simp only: fj_serve_def option.case)
qed

lemmas fj_eval = fj_serve_def fj_mount_def fetch_jobs_def find_jobs_hooks_def fj_user_step_def
  fj_deps_def settle_jobs_def apply_jobs_response_def axios_with_guard_def axios_call_def
  status_2xx_def find_jobs_query_def

lemma find_jobs_query_settle: "find_jobs_query (settle_jobs n r v) = find_jobs_query v"
  by (simp add: settle_jobs_def apply_jobs_response_def find_jobs_query_def split: sum.split)

lemma find_jobs_query_apply:
  "find_jobs_query (apply_jobs_response r v) = find_jobs_query v"
  "find_jobs_query (v\<lparr>pending := ps\<rparr>) = find_jobs_query v"
  by (simp_all add: apply_jobs_response_def find_jobs_query_def split: sum.split)

subsection \<open>Properties of the job search page\<close>

text \<open>
  C1: in every reachable state of the job search page the numbers of the requests in
  flight are distinct and below the next number, and the loading indicator is on only
  while at least one request is in flight.
\<close>
theorem find_jobs_request_bookkeeping:
  assumes "fj_reachable v"
  shows "distinct (map fst (pending v)) \<and> (\<forall>p \<in> set (pending v). fst p < next_req v) \<and>
         (is_loading v \<longrightarrow> pending v \<noteq> [])"
proof -
  have "fj_inv v"
    using assms
  proof (induction rule: fj_reachable.induct)
    case mount
    show ?case by (rule fj_mount_inv)
  next
    case (step v e)
    show ?case
    proof (cases e)
      case (Jobs_Response n r)
      with step.IH show ?thesis
        by (auto simp: fj_inv_def settle_jobs_def apply_jobs_response_def distinct_map_filter
                 split: sum.split)
    qed (use step.IH fj_step_inv in blast)+
  qed
  then show ?thesis by (simp add: fj_inv_def)
qed

theorem find_jobs_request_bookkeeping_witness:
  "let v = fj_step fj_mount (Pick_Level ''senior'')
   in fj_reachable v \<and> distinct (map fst (pending v)) \<and> (\<forall>p \<in> set (pending v). fst p < next_req v) \<and>
      (is_loading v \<longrightarrow> pending v \<noteq> [])"
proof -
  have r: "fj_reachable (fj_step fj_mount (Pick_Level ''senior''))"
    by (intro fj_reachable.step fj_reachable.mount)
  show ?thesis using r find_jobs_request_bookkeeping [OF r] by (simp add: Let_def)
qed

text \<open>
  C7: the converse fails: the loading indicator can be off while a request is still in
  flight, because the first response to settle clears the flag (\<open>finally\<close>, line 101)
  whatever requests were sent after it.
\<close>
theorem loading_cleared_while_request_in_flight:
  "\<exists>v. fj_reachable v \<and> pending v \<noteq> [] \<and> \<not> is_loading v"
proof -
  let ?v = "fj_step (fj_step fj_mount (Pick_Level ''senior'')) (Jobs_Response 0 Network_Failure)"
  have r: "fj_reachable ?v" by (intro fj_reachable.step fj_reachable.mount)
  have "pending ?v \<noteq> [] \<and> \<not> is_loading ?v" by code_simp
  with r show ?thesis by blast
qed

text \<open>
  C5: \<open>handleClearFilters\<close> sends two requests when it clears a filter: first one built
  from the filters as they were before the click (its \<open>fetchJobs()\<close> belongs to the old
  render), then one built from the cleared filters (the effect).
\<close>
theorem clear_filters_requests:
  assumes "fj_deps (fst (fj_handler Clear_Filters v)) \<noteq> fj_deps v"
  shows "pending (fj_step v Clear_Filters) =
           pending v @ [(next_req v, find_jobs_query v),
                        (Suc (next_req v), find_jobs_query (fst (fj_handler Clear_Filters v)))]"
  using assms by (simp add: fj_user_step_def Let_def)

theorem clear_filters_requests_witness:
  "let v = fj_step fj_mount (Pick_Level ''senior'')
   in fj_deps (fst (fj_handler Clear_Filters v)) \<noteq> fj_deps v \<and>
      pending (fj_step v Clear_Filters) =
        pending v @ [(next_req v, find_jobs_query v),
                     (Suc (next_req v), find_jobs_query (fst (fj_handler Clear_Filters v)))]"
proof -
  let ?v = "fj_step fj_mount (Pick_Level ''senior'')"
  have d: "fj_deps (fst (fj_handler Clear_Filters ?v)) \<noteq> fj_deps ?v" by code_simp
  show ?thesis using d clear_filters_requests [OF d] by (simp add: Let_def)
qed

text \<open>
  C6: the response that settles last is shown, whichever request it answers. When Clear
  changes a filter it sends the stale request (the old filters' query) and then the
  cleared one; if the cleared query's answer settles first and the stale answer after it,
  for any answers, the page keeps the cleared filters but shows the list and total of the
  stale answer, and nothing marks it as loading.
\<close>
theorem clear_filters_stale_response_wins:
  assumes "fj_deps (fst (fj_handler Clear_Filters v)) \<noteq> fj_deps v" and "status_2xx s"
  shows "let v1 = fj_step v Clear_Filters;
             v2 = fj_step (fj_step v1 (Jobs_Response (Suc (next_req v)) r)) (Jobs_Response (next_req v) (Reply s d))
         in (next_req v, find_jobs_query v) \<in> set (pending v1) \<and>
            find_jobs_query v2 = find_jobs_query (fst (fj_handler Clear_Filters v)) \<and>
            filtered_jobs v2 = (case page_data d of None \<Rightarrow> [] | Some js \<Rightarrow> js) \<and>
            total_jobs v2 = (case page_total d of None \<Rightarrow> 0 | Some t \<Rightarrow> t) \<and> \<not> is_loading v2"
proof -
  let ?c = "fst (fj_handler Clear_Filters v)"
  let ?v1 = "fj_step v Clear_Filters"
  let ?w = "fj_step ?v1 (Jobs_Response (Suc (next_req v)) r)"
  have v1: "?v1 = fetch_jobs (fetch_jobs v ?c) (fetch_jobs v ?c)"
    using assms(1) by (simp add: fj_user_step_def Let_def fetch_jobs_def fj_deps_def)
  have p1: "(next_req v, find_jobs_query v) \<in> set (pending ?v1)"
    unfolding v1 by (simp add: fetch_jobs_def)
  have n: "next_req v \<in> fst ` set (pending ?w)"
  proof -
    have "Suc (next_req v) \<in> fst ` set (pending ?v1)" unfolding v1 by (simp add: fetch_jobs_def)
    then have "pending ?w = pending (apply_jobs_response r (?v1\<lparr>pending := filter (\<lambda>p. fst p \<noteq> Suc (next_req v)) (pending ?v1)\<rparr>))"
      by (simp add: settle_jobs_def)
    also have "\<dots> = filter (\<lambda>p. fst p \<noteq> Suc (next_req v)) (pending ?v1)"
      by (simp add: apply_jobs_response_def split: sum.split)
    finally show ?thesis using p1 by force
  qed
  have q: "find_jobs_query ?w = find_jobs_query ?c"
    unfolding v1 by (simp add: find_jobs_query_settle find_jobs_query_fetch)
  define w where "w = ?w"
  have e: "fj_step w (Jobs_Response (next_req v) (Reply s d)) =
             apply_jobs_response (Reply s d) (w\<lparr>pending := filter (\<lambda>p. fst p \<noteq> next_req v) (pending w)\<rparr>)"
    using n unfolding w_def[symmetric] by (simp add: settle_jobs_def)
  have "find_jobs_query (fj_step w (Jobs_Response (next_req v) (Reply s d))) = find_jobs_query ?c"
    using q unfolding e w_def[symmetric] by (simp only: find_jobs_query_apply)
  moreover have "filtered_jobs (fj_step w (Jobs_Response (next_req v) (Reply s d))) =
                   (case page_data d of None \<Rightarrow> [] | Some js \<Rightarrow> js) \<and>
                 total_jobs (fj_step w (Jobs_Response (next_req v) (Reply s d))) =
                   (case page_total d of None \<Rightarrow> 0 | Some t \<Rightarrow> t) \<and>
                 \<not> is_loading (fj_step w (Jobs_Response (next_req v) (Reply s d)))"
    unfolding e using assms(2) by (simp add: apply_jobs_response_def axios_with_guard_eq axios_call_Reply_ok)
  ultimately show ?thesis
    using p1 unfolding Let_def w_def[symmetric] by simp
qed

theorem clear_filters_stale_response_wins_witness:
  "fj_deps (fst (fj_handler Clear_Filters (fj_step fj_mount (Pick_Level ''senior'')))) \<noteq>
     fj_deps (fj_step fj_mount (Pick_Level ''senior'')) \<and> status_2xx 200 \<and>
   find_jobs_query (fj_step fj_mount (Pick_Level ''senior'')) \<noteq>
     find_jobs_query (fst (fj_handler Clear_Filters (fj_step fj_mount (Pick_Level ''senior'')))) \<and>
   (let v = fj_step fj_mount (Pick_Level ''senior'');
        v1 = fj_step v Clear_Filters;
        v2 = fj_step (fj_step v1 (Jobs_Response (Suc (next_req v)) (Reply 200 \<lparr>page_data = None, page_total = Some 5\<rparr>)))
               (Jobs_Response (next_req v) (Reply 200 \<lparr>page_data = Some [], page_total = Some 0\<rparr>))
    in (next_req v, find_jobs_query v) \<in> set (pending v1) \<and>
       find_jobs_query v2 = find_jobs_query (fst (fj_handler Clear_Filters v)) \<and>
       filtered_jobs v2 = (case page_data \<lparr>page_data = Some [], page_total = Some (0::int)\<rparr> of None \<Rightarrow> [] | Some js \<Rightarrow> js) \<and>
       total_jobs v2 = (case page_total \<lparr>page_data = Some [], page_total = Some (0::int)\<rparr> of None \<Rightarrow> 0 | Some t \<Rightarrow> t) \<and>
       \<not> is_loading v2)"
proof -
  have d: "fj_deps (fst (fj_handler Clear_Filters (fj_step fj_mount (Pick_Level ''senior'')))) \<noteq>
             fj_deps (fj_step fj_mount (Pick_Level ''senior''))" by code_simp
  have s: "status_2xx (200::nat)" by (simp add: status_2xx_def)
  have q: "find_jobs_query (fj_step fj_mount (Pick_Level ''senior'')) \<noteq>
             find_jobs_query (fst (fj_handler Clear_Filters (fj_step fj_mount (Pick_Level ''senior''))))" by code_simp
  from d s q clear_filters_stale_response_wins [OF d s, of "Reply 200 \<lparr>page_data = None, page_total = Some 5\<rparr>"
                                   "\<lparr>page_data = Some [], page_total = Some 0\<rparr>"]
  show ?thesis by (simp only: Let_def) blast
qed

text \<open>
  C3: a successful response to a request in flight shows \<open>data.data\<close> (or nothing when
  absent) and \<open>data.total\<close> (or 0), removes the request and clears the loading flag.
\<close>
theorem jobs_response_success:
  assumes "n \<in> fst ` set (pending v)" and "status_2xx s"
  shows "fj_step v (Jobs_Response n (Reply s d)) =
           v\<lparr>pending := filter (\<lambda>p. fst p \<noteq> n) (pending v),
             filtered_jobs := (case page_data d of None \<Rightarrow> [] | Some js \<Rightarrow> js),
             total_jobs := (case page_total d of None \<Rightarrow> 0 | Some t \<Rightarrow> t),
             is_loading := False\<rparr>"
  using assms by (simp add: settle_jobs_pending apply_jobs_response_def axios_with_guard_ok)

theorem jobs_response_success_witness:
  "0 \<in> fst ` set (pending fj_mount) \<and> status_2xx 200 \<and>
   fj_step fj_mount (Jobs_Response 0 (Reply 200 \<lparr>page_data = None, page_total = Some 3\<rparr>)) =
     fj_mount\<lparr>pending := filter (\<lambda>p. fst p \<noteq> 0) (pending fj_mount), filtered_jobs := [],
              total_jobs := 3, is_loading := False\<rparr>"
proof -
  have p: "0 \<in> fst ` set (pending fj_mount)" by (simp add: fj_mount_def fetch_jobs_def find_jobs_hooks_def)
  have s: "status_2xx (200::nat)" by (simp add: status_2xx_def)
  show ?thesis using p s jobs_response_success [OF p s, of "\<lparr>page_data = None, page_total = Some 3\<rparr>"] by simp
qed

text \<open>
  C4: a rejected request (transport failure or non-2xx status) empties the list but
  keeps the previous total, so the header count and the list disagree; the request is
  removed and the loading flag cleared.
\<close>
theorem jobs_response_failure:
  assumes "n \<in> fst ` set (pending v)" and "axios_call r = Inl e"
  shows "filtered_jobs (fj_step v (Jobs_Response n r)) = [] \<and>
         total_jobs (fj_step v (Jobs_Response n r)) = total_jobs v \<and>
         \<not> is_loading (fj_step v (Jobs_Response n r)) \<and>
         pending (fj_step v (Jobs_Response n r)) = filter (\<lambda>p. fst p \<noteq> n) (pending v)"
  using assms by (simp add: settle_jobs_pending apply_jobs_response_def axios_with_guard_Inl)

theorem jobs_response_failure_witness:
  "let v = fj_step (fj_serve (\<lambda>_. Reply 200 \<lparr>page_data = None, page_total = Some 7\<rparr>) 0 fj_mount)
             (Pick_Level ''senior'')
   in 1 \<in> fst ` set (pending v) \<and> axios_call (Reply 500 \<lparr>page_data = None, page_total = None\<rparr>) =
        Inl (Status_Error 500) \<and>
      filtered_jobs (fj_step v (Jobs_Response 1 (Reply 500 \<lparr>page_data = None, page_total = None\<rparr>))) = [] \<and>
      total_jobs (fj_step v (Jobs_Response 1 (Reply 500 \<lparr>page_data = None, page_total = None\<rparr>))) = 7"
proof -
  let ?v = "fj_step (fj_serve (\<lambda>_. Reply 200 \<lparr>page_data = None, page_total = Some (7::int)\<rparr>) 0 fj_mount)
             (Pick_Level ''senior'')"
  have p: "1 \<in> fst ` set (pending ?v)" by (simp add: fj_eval)
  have a: "axios_call (Reply 500 \<lparr>page_data = None, page_total = None\<rparr>) =
             Inl (Status_Error 500 :: http_error)" by (simp add: axios_call_def status_2xx_def)
  have t: "total_jobs ?v = 7" by (simp add: fj_eval)
  show ?thesis using p a t jobs_response_failure [OF p a] by (simp add: Let_def)
qed

text \<open>
  Toggling "Open to remote" sends no request although it changes the query the page
  would send: the effect lists \<open>setIsRemote\<close> instead of \<open>isRemote\<close> (line 27).
\<close>
theorem remote_toggle_sends_no_request:
  "pending (fj_step v Toggle_Remote) = pending v \<and>
   find_jobs_query (fj_step v Toggle_Remote) \<noteq> find_jobs_query v"
  by (cases "truthy (is_remote v)") (simp_all add: fj_user_step_toggle find_jobs_query_def)

text \<open>
  the backend, parsing the query string of \<open>fetchJobs\<close>, reads back the selected
  job type exactly when it contains no white space: \<open>replace(/\s+/g, '+')\<close> puts a
  literal \<open>+\<close> that URLSearchParams then escapes as \<open>%2B\<close>, so it does not decode to a
  space.
\<close>
theorem job_type_sent_verbatim_iff:
  "map_of (parse_params (serialize_params (find_jobs_query v))) ''jobType'' = Some (selected_job_type v)
   \<longleftrightarrow> (\<forall>c \<in> set (selected_job_type v). \<not> is_js_space c)"
  using replace_ws_runs_id [of "selected_job_type v" False] replace_ws_runs_changes [of False "selected_job_type v"]
  by (auto simp: urlsearchparams_roundtrip find_jobs_query_def)

theorem job_type_sent_verbatim_iff_witness:
  "map_of (parse_params (serialize_params (find_jobs_query (fj_mount\<lparr>selected_job_type := ''full time''\<rparr>))))
     ''jobType'' \<noteq> Some ''full time''"
proof -
  have "\<not> (\<forall>c \<in> set ''full time''. \<not> is_js_space c)" by (simp add: is_js_space_def)
  with job_type_sent_verbatim_iff [of "fj_mount\<lparr>selected_job_type := ''full time''\<rparr>"] show ?thesis by simp
qed

text \<open>
  when the count request of any one category fails, no count is stored at all: the
  loop in \<open>loadJobCounts\<close> has no \<open>catch\<close>, so every label keeps showing 0.
\<close>
theorem job_counts_one_failure_discards_all:
  assumes "categories v = Some cs" and "c \<in> set cs" and "axios_call (srv (category_id c)) = Inl e"
  shows "job_counts (fj_step v (Counts_Loaded srv)) = job_counts v"
proof -
  have "load_job_counts srv Map.empty cs = None"
    using load_job_counts_fails [of c cs srv e Map.empty] assms(2,3) by blast
  moreover from assms(2) have "cs \<noteq> []" by auto
  ultimately show ?thesis using assms(1) by simp
qed

theorem job_counts_one_failure_discards_all_witness:
  "categories (fj_mount\<lparr>categories := Some [\<lparr>category_id = 4, category_name = ''Design''\<rparr>]\<rparr>) =
     Some [\<lparr>category_id = 4, category_name = ''Design''\<rparr>] \<and>
   job_counts (fj_step (fj_mount\<lparr>categories := Some [\<lparr>category_id = 4, category_name = ''Design''\<rparr>]\<rparr>)
     (Counts_Loaded (\<lambda>_. Network_Failure))) =
   job_counts (fj_mount\<lparr>categories := Some [\<lparr>category_id = 4, category_name = ''Design''\<rparr>]\<rparr>)"
proof -
  let ?c = "\<lparr>category_id = 4, category_name = ''Design''\<rparr>"
  let ?v = "fj_mount\<lparr>categories := Some [?c]\<rparr>"
  have h1: "categories ?v = Some [?c]" by simp
  have h2: "?c \<in> set [?c]" by simp
  have h3: "axios_call ((\<lambda>_. Network_Failure :: vacancy_page outcome) (category_id ?c)) = Inl Transport_Error"
    by simp
  from h1 job_counts_one_failure_discards_all [OF h1 h2 h3] show ?thesis by simp
qed

text \<open>
  When every count request succeeds, a count is stored for exactly the categories
  listed.
\<close>
theorem job_counts_all_loaded:
  assumes "categories v = Some cs" and "cs \<noteq> []"
    and "\<forall>c \<in> set cs. \<exists>s d. srv (category_id c) = Reply s d \<and> status_2xx s"
  shows "dom (job_counts (fj_step v (Counts_Loaded srv))) = category_id ` set cs"
proof -
  from load_job_counts_ok [OF assms(3), of Map.empty] obtain m
    where "load_job_counts srv Map.empty cs = Some m" and "dom m = category_id ` set cs" by auto
  with assms(1,2) show ?thesis by simp
qed

theorem job_counts_all_loaded_witness:
  "categories (fj_mount\<lparr>categories := Some [\<lparr>category_id = 4, category_name = ''Design''\<rparr>]\<rparr>) =
     Some [\<lparr>category_id = 4, category_name = ''Design''\<rparr>] \<and>
   dom (job_counts (fj_step (fj_mount\<lparr>categories := Some [\<lparr>category_id = 4, category_name = ''Design''\<rparr>]\<rparr>)
     (Counts_Loaded (\<lambda>_. Reply 200 \<lparr>page_data = None, page_total = Some 2\<rparr>)))) = {4}"
proof -
  let ?c = "\<lparr>category_id = 4, category_name = ''Design''\<rparr>"
  let ?v = "fj_mount\<lparr>categories := Some [?c]\<rparr>"
  let ?srv = "\<lambda>_::entity_id. Reply 200 \<lparr>page_data = None, page_total = Some (2::int)\<rparr>"
  have h1: "categories ?v = Some [?c]" by simp
  have h2: "[?c] \<noteq> []" by simp
  have h3: "\<forall>c \<in> set [?c]. \<exists>s d. ?srv (category_id c) = Reply s d \<and> status_2xx s"
    by (simp add: status_2xx_def)
  from h1 job_counts_all_loaded [OF h1 h2 h3] show ?thesis by simp
qed

end
