(* ===== verification/JobSearchProgress.thy ===== *)
theory JobSearchProgress
  imports JobSearch
begin

text \<open>
  Progress of the job search page (Components/Find-Jobs/FindJobs.jsx). The page never
  waits on anything but its own requests: once the network has answered every request in
  flight, whatever the answers, the page is settled. \<open>fj_drain\<close> answers the requests in
  flight one at a time, oldest first, with the answers of a backend \<open>srv\<close>; it is a loop
  whose recursion is not structural, so it is a \<open>function\<close> with a termination proof:
  each answer retires at least the request it settles.
\<close>

function (domintros) fj_drain :: "(query \<Rightarrow> vacancy_page outcome) \<Rightarrow> find_jobs_view \<Rightarrow> find_jobs_view" where
  "fj_drain srv v =
     (case pending v of
        [] \<Rightarrow> v
      | (n, q) # _ \<Rightarrow> fj_drain srv (fj_step v (Jobs_Response n (srv q))))"
  by pat_completeness auto

termination
  by (relation "measure (\<lambda>(srv, v). length (pending v))")
     (auto simp: settle_jobs_def le_imp_less_Suc)

subsection \<open>Termination and progress\<close>

lemma settle_jobs_shorter:
  "n \<in> fst ` set (pending v) \<Longrightarrow> length (pending (settle_jobs n r v)) < length (pending v)"
proof -
  assume n: "n \<in> fst ` set (pending v)"
  then obtain p where p: "p \<in> set (pending v)" "fst p = n" by blast
  have "length (filter (\<lambda>p. fst p \<noteq> n) (pending v)) < length (pending v)"
    using p by (auto simp: length_filter_less)
  with n show ?thesis by (simp add: settle_jobs_def)
qed


lemma fj_drain_dom_all: "fj_drain_dom (srv, v)"
proof (induction "length (pending v)" arbitrary: v rule: less_induct)
  case less
  show ?case
  proof (rule fj_drain.domintros)
    fix n q rest
    assume h: "pending v = (n, q) # rest"
    then have "n \<in> fst ` set (pending v)" by simp
    then have "length (pending (settle_jobs n (srv q) v)) < length (pending v)"
      by (rule settle_jobs_shorter)
    then show "fj_drain_dom (srv, settle_jobs n (srv q) v)" by (rule less)
  qed
qed

text \<open>
  Answering the page's requests is a terminating loop: the drain is defined on every
  backend and every state, and each answer to a request in flight strictly shortens the
  list of requests in flight, whatever the answer (a list, an error status or a
  transport failure).
\<close>
theorem fj_drain_terminates:
  "fj_drain_dom (srv, v) \<and>
   (n \<in> fst ` set (pending v) \<longrightarrow> length (pending (fj_step v (Jobs_Response n r))) < length (pending v))"
  by (simp add: fj_drain_dom_all settle_jobs_shorter)

text \<open>
  C11: From every reachable state, once every request in flight has been answered, the page
  is settled: it is still a reachable state, nothing is in flight, and the loading
  indicator is off. No answer, failed or not, can leave the page loading forever.
\<close>
theorem fj_drain_settles:
  "fj_reachable v \<Longrightarrow>
   fj_reachable (fj_drain srv v) \<and> pending (fj_drain srv v) = [] \<and> \<not> is_loading (fj_drain srv v)"
proof (induction srv v rule: fj_drain.induct)
  case (1 srv v)
  show ?case
  proof (cases "pending v")
    case Nil
    with "1.prems" fj_reachable_inv [OF "1.prems"] show ?thesis by (simp add: fj_inv_def)
  next
    case (Cons p rest)
    obtain n q where p: "p = (n, q)" by (cases p)
    have "fj_reachable (fj_step v (Jobs_Response n (srv q)))"
      using "1.prems" by (rule fj_reachable.step)
    with "1.IH" [OF Cons p [symmetric]] Cons p show ?thesis by simp
  qed
qed

theorem fj_drain_terminates_witness:
  "fj_drain_dom (\<lambda>_. Network_Failure, fj_mount) \<and>
   length (pending (fj_step fj_mount (Jobs_Response 0 Network_Failure))) < length (pending fj_mount)"
  using fj_drain_terminates [of "\<lambda>_. Network_Failure" fj_mount 0 Network_Failure]
  by (simp add: fj_mount_def fetch_jobs_def find_jobs_hooks_def)

theorem fj_drain_settles_witness:
  "fj_reachable (fj_drain (\<lambda>_. Reply 500 \<lparr>page_data = None, page_total = None\<rparr>) fj_mount) \<and>
   pending (fj_drain (\<lambda>_. Reply 500 \<lparr>page_data = None, page_total = None\<rparr>) fj_mount) = [] \<and>
   \<not> is_loading (fj_drain (\<lambda>_. Reply 500 \<lparr>page_data = None, page_total = None\<rparr>) fj_mount)"
  by (rule fj_drain_settles [OF fj_reachable.mount])

end
