(* ===== verification/JobListing.thy ===== *)
theory JobListing
  imports JobSearchProgress
begin

text \<open>
  What the job search page shows (Components/Find-Jobs/FindJobs.jsx, lines 182--269): the
  list of job cards, each with a link, the company, the age of the posting, the title,
  the place and the job type label. \<open>formatTimeAgo\<close> reads the clock: the model takes the
  difference \<open>now - new Date(createdAt)\<close> in milliseconds as its input, \<open>None\<close> when the
  date does not parse (the difference is then \<open>NaN\<close>). \<open>Math.floor\<close> of an integer
  quotient is HOL's \<open>div\<close> on \<open>int\<close>, which rounds towards minus infinity as it does.
\<close>

definition ms_per_day :: int where
  "ms_per_day = 1000 * 60 * 60 * 24"

definition plural_suffix :: "int \<Rightarrow> string" where
  "plural_suffix n = (if n = 1 then [] else ''s'')"

definition format_time_ago :: "int option \<Rightarrow> string" where
  "format_time_ago diff =
     (case diff of
        None \<Rightarrow> ''NaN months ago''
      | Some ms \<Rightarrow>
          let days = ms div ms_per_day in
          if days = 0 then ''Today''
          else if days < 30 then int_to_string days @ '' day'' @ plural_suffix days @ '' ago''
          else let months = days div 30 in
               int_to_string months @ '' month'' @ plural_suffix months @ '' ago'')"

text \<open>\<open>jobTypes\<close> (lines 154--158): the label under each card.\<close>

definition fj_job_types :: "(string \<times> string) list" where
  "fj_job_types = [(''full-time'', ''Full-time''), (''contract'', ''Contract''), (''part-time'', ''Part-time'')]"

record job_card =
  card_link :: string
  card_company :: string
  card_age :: string
  card_title :: string
  card_place :: string
  card_type :: "string option"

definition job_card_of :: "(string \<Rightarrow> int option) \<Rightarrow> job \<Rightarrow> job_card" where
  "job_card_of elapsed j =
     \<lparr>card_link = ''/job/'' @ int_to_string (job_id j), card_company = job_company_name j,
      card_age = format_time_ago (elapsed (job_created_at j)), card_title = job_title j,
      card_place = job_city j @ '', '' @ job_country j, card_type = map_of fj_job_types (job_type j)\<rparr>"

datatype jobs_panel = Panel_Blank | Panel_No_Jobs | Panel_Cards "job_card list"

text \<open>The list (lines 217--256): blank while loading, the message for an empty list, the cards.\<close>

definition jobs_panel_of :: "(string \<Rightarrow> int option) \<Rightarrow> find_jobs_view \<Rightarrow> jobs_panel" where
  "jobs_panel_of elapsed v =
     (if is_loading v then Panel_Blank
      else if filtered_jobs v \<noteq> [] then Panel_Cards (map (job_card_of elapsed) (filtered_jobs v))
      else Panel_No_Jobs)"

subsection \<open>Facts\<close>

lemma ms_per_day_pos: "0 < ms_per_day"
  by (simp add: ms_per_day_def)

lemma day_index_zero_iff: "ms div ms_per_day = 0 \<longleftrightarrow> 0 \<le> ms \<and> ms < ms_per_day"
proof
  assume z: "ms div ms_per_day = 0"
  have "ms = ms_per_day * (ms div ms_per_day) + ms mod ms_per_day" by simp
  with z have "ms = ms mod ms_per_day" by simp
  with ms_per_day_pos show "0 \<le> ms \<and> ms < ms_per_day"
    by (metis pos_mod_bound pos_mod_sign)
next
  assume "0 \<le> ms \<and> ms < ms_per_day"
  then show "ms div ms_per_day = 0" by (simp add: div_pos_pos_trivial)
qed

lemma day_index_neg_iff: "ms div ms_per_day < 0 \<longleftrightarrow> ms < 0"
  using ms_per_day_pos by (simp add: pos_imp_zdiv_neg_iff)

lemma int_to_string_not_T: "int_to_string i @ s \<noteq> ''Today''"
proof -
  obtain c cs where d: "dec_digits (nat \<bar>i\<bar>) = c # cs" "digit_in 10 c \<noteq> None"
    by (rule dec_digits_hd)
  have "digit_in 10 (CHR ''T'') = None" by (simp add: digit_in_def)
  with d show ?thesis by (auto simp: int_to_string_def)
qed

text \<open>
  C13: The age label of a job card says "Today" exactly for postings between 0 and one day
  old. A posting dated in the future (a clock behind the server's) gets a negative day
  count, "-1 days ago" and so on: the code tests \<open>daysDiff === 0\<close> and
  \<open>daysDiff < 30\<close> but never a negative difference.
\<close>
theorem time_ago_today_window_and_future:
  "(format_time_ago (Some ms) = ''Today'' \<longleftrightarrow> 0 \<le> ms \<and> ms < ms_per_day) \<and>
   (ms < 0 \<longrightarrow>
      format_time_ago (Some ms) = CHR ''-'' # dec_digits (nat (- (ms div ms_per_day))) @ '' days ago'')"
proof (intro conjI impI)
  show "format_time_ago (Some ms) = ''Today'' \<longleftrightarrow> 0 \<le> ms \<and> ms < ms_per_day"
    by (simp add: format_time_ago_def Let_def day_index_zero_iff [symmetric] int_to_string_not_T)
next
  assume "ms < 0"
  then have n: "ms div ms_per_day < 0" by (simp add: day_index_neg_iff)
  then show "format_time_ago (Some ms) = CHR ''-'' # dec_digits (nat (- (ms div ms_per_day))) @ '' days ago''"
    by (simp add: format_time_ago_def Let_def int_to_string_def plural_suffix_def)
qed

lemma job_type_label_missing: "map_of fj_job_types ''internship'' = None \<and> map_of fj_job_types ''intern'' = None"
  by (simp add: fj_job_types_def)

theorem time_ago_today_window_and_future_witness:
  "format_time_ago (Some (-3600000)) = ''-1 days ago''"
proof -
  have "(- 3600000::int) div ms_per_day = -1" by (simp add: ms_per_day_def)
  moreover have "char_of (49::nat) = CHR ''1''" by code_simp
  ultimately show ?thesis
    using time_ago_today_window_and_future [of "-3600000"]
    by (simp add: dec_digits.simps digit_char_def)
qed

end
