(* ===== verification/JobSearchScreen.thy ===== *)
theory JobSearchScreen
  imports JobListing
begin

text \<open>
  The search bar and the filter panel of Components/Find-Jobs/FindJobs.jsx (lines
  201--216 and 259--375) and the widgets whose state lives in the DOM rather than in a
  hook. The search inputs and the role, level and job-type radios are controlled: they
  show the hooks. The "Open to remote" radio (lines 347--348) has no \<open>checked\<close> prop and
  the two salary selects (lines 358--373) no \<open>value\<close>: the browser keeps what the user
  last chose. A radio fires \<open>onChange\<close> only when it becomes checked, and no radio of its
  group can uncheck it. The page is therefore the pair of the hooks and this DOM state,
  and a user's input on it a step of that pair.
\<close>

record fj_dom =
  dom_remote_checked :: bool
  dom_min_salary :: string
  dom_max_salary :: string

definition fj_dom_init :: fj_dom where
  "fj_dom_init = \<lparr>dom_remote_checked = False, dom_min_salary = [], dom_max_salary = []\<rparr>"

text \<open>The options of both salary selects; the first, \<open>$ Min\<close> or \<open>$ Max\<close>, has the value \<open>''\<close>.\<close>

definition salary_options :: "string list" where
  "salary_options = [[], ''3000'', ''5000'', ''10000'', ''20000'', ''200000'']"

datatype fj_input =
    In_Click_Remote
  | In_Select_Min string
  | In_Select_Max string
  | In_Event fj_event

text \<open>Events that reach the hooks only through the DOM widgets above.\<close>

fun dom_owned :: "fj_event \<Rightarrow> bool" where
  "dom_owned Toggle_Remote = True"
| "dom_owned (Pick_Min_Salary s) = True"
| "dom_owned (Pick_Max_Salary s) = True"
| "dom_owned _ = False"

text \<open>
  A click on the remote radio fires \<open>handleRemoteFilter(!isRemote)\<close> only while it is
  unchecked, and checks it; a choice in a select fires \<open>handleSalaryChange\<close> with the
  select's \<open>id\<close> and value; every other input is the event of the hooks' step.
\<close>

fun fj_page_step :: "find_jobs_view \<times> fj_dom \<Rightarrow> fj_input \<Rightarrow> find_jobs_view \<times> fj_dom" where
  "fj_page_step (v, d) In_Click_Remote =
     (if dom_remote_checked d then (v, d) else (fj_step v Toggle_Remote, d\<lparr>dom_remote_checked := True\<rparr>))"
| "fj_page_step (v, d) (In_Select_Min s) = (fj_step v (Pick_Min_Salary s), d\<lparr>dom_min_salary := s\<rparr>)"
| "fj_page_step (v, d) (In_Select_Max s) = (fj_step v (Pick_Max_Salary s), d\<lparr>dom_max_salary := s\<rparr>)"
| "fj_page_step (v, d) (In_Event e) = (if dom_owned e then (v, d) else (fj_step v e, d))"

text \<open>The radios of the seniority (lines 286--309) and job type (lines 316--339) filters.\<close>

definition fj_level_radios :: "(string \<times> string) list" where
  "fj_level_radios =
     [(''junior'', ''Junior''), (''mid-level'', ''Mid-Level''), (''senior'', ''Senior''),
      (''lead'', ''Expert & Leadership'')]"

definition fj_job_type_radios :: "(string \<times> string) list" where
  "fj_job_type_radios =
     [(''full-time'', ''Full-time''), (''contract'', ''Freelance/Contract''), (''intern'', ''Internship''),
      (''part-time'', ''Part-time'')]"

record fj_filters_screen =
  fs_search :: string
  fs_location :: string
  fs_total :: int
  fs_roles :: "(string \<times> int \<times> bool \<times> fj_event) list"
  fs_levels :: "(string \<times> bool) list"
  fs_job_types :: "(string \<times> bool) list"
  fs_remote_checked :: bool
  fs_min_select :: string
  fs_max_select :: string

text \<open>
  The render: the two search inputs, the total in the heading, one radio per category
  with \<open>jobCounts[category?.id] || 0\<close> and \<open>checked={selectedRole === category.id}\<close>
  (\<open>categories?.map\<close>: nothing before the categories arrive), the level and job-type
  radios checked by value, and the DOM widgets as the browser shows them.
\<close>

definition fj_filters_screen_of :: "find_jobs_view \<times> fj_dom \<Rightarrow> fj_filters_screen" where
  "fj_filters_screen_of p =
     (let (v, d) = p in
      \<lparr>fs_search = search_query v, fs_location = location_query v, fs_total = total_jobs v,
       fs_roles = (case categories v of
                     None \<Rightarrow> []
                   | Some cs \<Rightarrow> map (\<lambda>c. (category_name c, job_count_label (job_counts v) (category_id c),
                                           strict_eq (selected_role v) (JNum (category_id c)),
                                           Pick_Role (JNum (category_id c)))) cs),
       fs_levels = map (\<lambda>(x, l). (l, selected_level v = x)) fj_level_radios,
       fs_job_types = map (\<lambda>(x, l). (l, selected_job_type v = x)) fj_job_type_radios,
       fs_remote_checked = dom_remote_checked d,
       fs_min_select = dom_min_salary d, fs_max_select = dom_max_salary d\<rparr>)"

subsection \<open>Facts\<close>

lemma fetch_jobs_is_remote [simp]: "is_remote (fetch_jobs c v) = is_remote v"
  by (simp add: fetch_jobs_def)

lemma settle_jobs_is_remote [simp]: "is_remote (settle_jobs n r v) = is_remote v"
  by (simp add: settle_jobs_def apply_jobs_response_def split: sum.split)

lemma fj_step_keeps_remote_off:
  "e \<noteq> Toggle_Remote \<Longrightarrow> \<not> truthy (is_remote v) \<Longrightarrow> \<not> truthy (is_remote (fj_step v e))"
  by (cases e) (auto simp: fj_user_step_def Let_def split: sum.split option.split prod.split)

subsection \<open>Properties of the page\<close>

text \<open>
  C14: FindJobs.jsx, "Open to remote": once the radio has been checked it stays checked
  and never fires again, so after "Clear" has turned \<open>isRemote\<close> off no sequence of
  inputs on the page turns it on, while the radio still shows checked.
\<close>

theorem remote_filter_lost_after_clear:
  assumes "dom_remote_checked d" "\<not> truthy (is_remote v)"
  shows "\<not> truthy (is_remote (fst (foldl fj_page_step (v, d) xs))) \<and>
         fs_remote_checked (fj_filters_screen_of (foldl fj_page_step (v, d) xs))"
  using assms
proof (induction xs arbitrary: v d)
  case Nil
  then show ?case by (simp add: fj_filters_screen_of_def)
next
  case (Cons i xs)
  obtain v' d' where p: "fj_page_step (v, d) i = (v', d')" by fastforce
  have "dom_remote_checked d' \<and> \<not> truthy (is_remote v')"
  proof (cases i)
    case In_Click_Remote
    with Cons.prems p show ?thesis by simp
  next
    case (In_Select_Min s)
    have "\<not> truthy (is_remote (fj_step v (Pick_Min_Salary s)))"
      by (rule fj_step_keeps_remote_off) (simp_all add: Cons.prems)
    with Cons.prems p show ?thesis by (auto simp: In_Select_Min)
  next
    case (In_Select_Max s)
    have "\<not> truthy (is_remote (fj_step v (Pick_Max_Salary s)))"
      by (rule fj_step_keeps_remote_off) (simp_all add: Cons.prems)
    with Cons.prems p show ?thesis by (auto simp: In_Select_Max)
  next
    case (In_Event e)
    show ?thesis
    proof (cases "dom_owned e")
      case False
      then have "e \<noteq> Toggle_Remote" by auto
      then have "\<not> truthy (is_remote (fj_step v e))" using Cons.prems(2) by (rule fj_step_keeps_remote_off)
      with False Cons.prems p show ?thesis by (auto simp: In_Event)
    qed (use Cons.prems p In_Event in auto)
  qed
  then show ?case using Cons.IH by (simp add: p)
qed

theorem remote_filter_lost_after_clear_witness:
  "let p = foldl fj_page_step (fj_mount, fj_dom_init) [In_Click_Remote, In_Event Clear_Filters]
   in truthy (is_remote (fst (fj_page_step (fj_mount, fj_dom_init) In_Click_Remote))) \<and>
      \<not> truthy (is_remote (fst (foldl fj_page_step p [In_Click_Remote, In_Click_Remote]))) \<and>
      fs_remote_checked (fj_filters_screen_of (foldl fj_page_step p [In_Click_Remote, In_Click_Remote]))"
proof -
  obtain v d where p: "foldl fj_page_step (fj_mount, fj_dom_init) [In_Click_Remote, In_Event Clear_Filters] = (v, d)"
    by fastforce
  have on: "truthy (is_remote (fst (fj_page_step (fj_mount, fj_dom_init) In_Click_Remote)))"
    by (simp add: fj_dom_init_def fj_user_step_def fj_deps_def fj_mount_def fetch_jobs_def find_jobs_hooks_def)
  have "dom_remote_checked (snd (foldl fj_page_step (fj_mount, fj_dom_init) [In_Click_Remote, In_Event Clear_Filters])) \<and>
        \<not> truthy (is_remote (fst (foldl fj_page_step (fj_mount, fj_dom_init) [In_Click_Remote, In_Event Clear_Filters])))"
    by (simp add: fj_dom_init_def fj_user_step_def Let_def split: if_split)
  with p have "dom_remote_checked d \<and> \<not> truthy (is_remote v)" by (metis fst_conv snd_conv)
  then have "\<not> truthy (is_remote (fst (foldl fj_page_step (v, d) [In_Click_Remote, In_Click_Remote]))) \<and>
             fs_remote_checked (fj_filters_screen_of (foldl fj_page_step (v, d) [In_Click_Remote, In_Click_Remote]))"
    using remote_filter_lost_after_clear [of d v "[In_Click_Remote, In_Click_Remote]"] by blast
  with on show ?thesis unfolding Let_def p by blast
qed

text \<open>
  FindJobs.jsx, "Clear": the hooks of every filter are reset and the controlled
  widgets show it, but the salary selects and the remote radio keep showing the user's
  last choice, which the hooks no longer hold.
\<close>

theorem clear_filters_screen_stale:
  "let p' = fj_page_step (v, d) (In_Event Clear_Filters); s = fj_filters_screen_of p'
   in fs_min_select s = dom_min_salary d \<and> fs_max_select s = dom_max_salary d \<and>
      fs_remote_checked s = dom_remote_checked d \<and>
      min_salary (fst p') = [] \<and> max_salary (fst p') = [] \<and> \<not> truthy (is_remote (fst p')) \<and>
      fs_search s = [] \<and> fs_location s = [] \<and>
      list_all (\<lambda>r. \<not> snd r) (fs_levels s) \<and> list_all (\<lambda>r. \<not> snd r) (fs_job_types s)"
  by (simp add: fj_filters_screen_of_def fj_user_step_def fj_deps_def Let_def fetch_jobs_def
                fj_level_radios_def fj_job_type_radios_def)

end
