(* ===== verification/Json.thy ===== *)
theory Json
  imports Http
begin

text \<open>
  \<open>JSON.stringify\<close> on the values the views send (ECMAScript, section JSON.stringify): a
  string is quoted with its quote, backslash and control characters escaped (the latter
  as \<open>\\u00xx\<close> in lower-case hexadecimal), numbers are printed by \<open>String\<close>, an
  object lists its properties in order and leaves out those holding \<open>undefined\<close>. A
  property of a request body is a primitive, an array of strings, or the number
  \<open>parseFloat\<close> reads from a text (\<open>json_field\<close>).
\<close>

definition lower_hex :: "nat \<Rightarrow> char" where
  "lower_hex d = (if d < 10 then char_of (48 + d) else char_of (87 + d))"

definition json_char :: "char \<Rightarrow> string" where
  "json_char c =
     (if c = CHR 0x22 then [CHR 0x5C, CHR 0x22]
      else if c = CHR 0x5C then [CHR 0x5C, CHR 0x5C]
      else if c = CHR 0x08 then [CHR 0x5C, CHR ''b'']
      else if c = CHR 0x0C then [CHR 0x5C, CHR ''f'']
      else if c = CHR 0x0A then [CHR 0x5C, CHR ''n'']
      else if c = CHR 0x0D then [CHR 0x5C, CHR ''r'']
      else if c = CHR 0x09 then [CHR 0x5C, CHR ''t'']
      else if of_char c < (32::nat)
      then [CHR 0x5C, CHR ''u'', CHR ''0'', CHR ''0'',
            lower_hex (of_char c div 16), lower_hex (of_char c mod 16)]
      else [c])"

definition json_string :: "string \<Rightarrow> string" where
  "json_string s = CHR 0x22 # concat (map json_char s) @ [CHR 0x22]"

fun json_value :: "jsval \<Rightarrow> string" where
  "json_value JUndef = ''null''"
| "json_value JNull = ''null''"
| "json_value (JBool b) = (if b then ''true'' else ''false'')"
| "json_value (JNum n) = int_to_string n"
| "json_value JNaN = ''null''"
| "json_value (JStr s) = json_string s"

text \<open>\<open>JSON.stringify\<close> of an object: its properties in order, those holding \<open>undefined\<close> left out.\<close>

definition json_object :: "(string \<times> jsval) list \<Rightarrow> string" where
  "json_object kvs =
     CHR ''{'' # join_on (CHR '','')
       (map (\<lambda>(k, v). json_string k @ CHR '':'' # json_value v) (filter (\<lambda>(k, v). v \<noteq> JUndef) kvs))
     @ ''}''"

text \<open>The JSON value of a property: a primitive, an array of strings, or the number
  \<open>parseFloat\<close> reads from a text (its decimal form is not modelled, the text is kept).\<close>

datatype json_field = F_Val jsval | F_Strs "string list" | F_Float string

fun json_field_text :: "json_field \<Rightarrow> string" where
  "json_field_text (F_Val v) = json_value v"
| "json_field_text (F_Strs ss) = CHR ''['' # join_on (CHR '','') (map json_string ss) @ '']''"
| "json_field_text (F_Float s) = s"

definition json_props :: "(string \<times> json_field) list \<Rightarrow> string" where
  "json_props kvs =
     CHR ''{'' # join_on (CHR '','')
       (map (\<lambda>(k, v). json_string k @ CHR '':'' # json_field_text v) (filter (\<lambda>(k, v). v \<noteq> F_Val JUndef) kvs))
     @ ''}''"

end
