(* ===== verification/DependentFetch.thy ===== *)
theory DependentFetch
  imports JobSearch Json
begin

text \<open>
  Detail views that fetch a primary record and then a secondary record named by a field of
  the primary: the public job detail page (src/src/Components/Find-Jobs/JobDetails.jsx:
  vacancy, then its company) and the admin vacancy page
  (src/src/Pages/Admin/VacancyViewAdmin.tsx: vacancy, then its category). The spec's
  "dependent fetch orchestrator" (section 4.3) is stated here as an abstract function of
  the backend, and each view is shown to implement it through an abstraction of its
  state. The job detail page also holds the application form.
\<close>

subsection \<open>The orchestrator contract of the spec\<close>

text \<open>
  \<open>loadDetail\<close>: fetch the primary record; on failure stop with nothing and no other
  request; otherwise derive the secondary request from the primary record (or none), and
  keep the primary record whether or not the secondary request succeeds. The backend is a
  pair of functions from paths to outcomes, with axios's failure semantics.
\<close>

record ('p, 's) detail_result =
  res_primary :: "'p option"
  res_secondary :: "'s option"
  res_requests :: "string list"

definition load_detail_spec ::
  "string \<Rightarrow> ('p \<Rightarrow> string option) \<Rightarrow> ('b \<Rightarrow> 's) \<Rightarrow> (string \<Rightarrow> 'p outcome) \<Rightarrow> (string \<Rightarrow> 'b outcome) \<Rightarrow>
   ('p, 's) detail_result" where
  "load_detail_spec p1 key proj srv1 srv2 =
     (case axios_call (srv1 p1) of
        Inl _ \<Rightarrow> \<lparr>res_primary = None, res_secondary = None, res_requests = [p1]\<rparr>
      | Inr (_, d) \<Rightarrow>
          (case key d of
             None \<Rightarrow> \<lparr>res_primary = Some d, res_secondary = None, res_requests = [p1]\<rparr>
           | Some p2 \<Rightarrow>
               (case axios_call (srv2 p2) of
                  Inl _ \<Rightarrow> \<lparr>res_primary = Some d, res_secondary = None, res_requests = [p1, p2]\<rparr>
                | Inr (_, b) \<Rightarrow> \<lparr>res_primary = Some d, res_secondary = Some (proj b), res_requests = [p1, p2]\<rparr>)))"

subsection \<open>JobDetails.jsx\<close>

record vacancy_detail =
  vd_title :: string
  vd_city :: string
  vd_country :: string
  vd_job_type :: string
  vd_seniority_level :: string
  vd_is_remote :: bool
  vd_company_id :: jsval
  vd_job_overview :: json_field
  vd_job_role :: json_field
  vd_job_responsibilities :: json_field
  vd_you_have_text :: json_field

record company =
  company_name :: string
  company_logo :: string
  company_description :: string

record application_form =
  first_name :: string
  email :: string
  phone :: string
  applicant_job_title :: string
  linkedin :: string
  cv_file :: "string option"

record job_details_view =
  is_modal_open :: bool
  is_application_sent :: bool
  job_detail :: "vacancy_detail option"
  job_company :: "company option"
  form_values :: application_form

definition empty_application_form :: application_form where
  "empty_application_form =
     \<lparr>first_name = [], email = [], phone = [], applicant_job_title = [], linkedin = [], cv_file = None\<rparr>"

definition job_details_init :: job_details_view where
  "job_details_init =
     \<lparr>is_modal_open = False, is_application_sent = False, job_detail = None, job_company = None,
      form_values = empty_application_form\<rparr>"

text \<open>\<open>`/companies/${id}`\<close> with \<open>id = data?.companyId\<close> (lines 45, 49).\<close>

definition company_path :: "vacancy_detail \<Rightarrow> string" where
  "company_path d = ''/companies/'' @ js_to_string (vd_company_id d)"

text \<open>
  \<open>fetchJobDetails\<close> and \<open>fetchCompanyDetails\<close> (lines 25--64): neither catches; a
  rejected request ends its function without changing the state. The company request is
  sent only after the vacancy was stored.
\<close>

definition job_details_load ::
  "string \<Rightarrow> (string \<Rightarrow> vacancy_detail outcome) \<Rightarrow> (string \<Rightarrow> company outcome) \<Rightarrow>
   job_details_view \<Rightarrow> job_details_view \<times> string list" where
  "job_details_load rid srv1 srv2 v =
     (let p1 = ''/vacancies/'' @ rid in
      case axios_with_guard (srv1 p1) of
        Inl _ \<Rightarrow> (v, [p1])
      | Inr d \<Rightarrow>
          (let v1 = v\<lparr>job_detail := Some d\<rparr>; p2 = company_path d in
           ((case axios_with_guard (srv2 p2) of Inl _ \<Rightarrow> v1 | Inr c \<Rightarrow> v1\<lparr>job_company := Some c\<rparr>),
            [p1, p2])))"

text \<open>
  What the page renders (lines 138--140 and the markup): "Job not found" whenever the
  route id is not in the bundled \<open>jobsData.json\<close> (a file outside src/, so its lookup
  \<open>jobsData.find(job => job.id == id)\<close> is an input here), else the fetched detail.
\<close>

datatype job_details_screen =
    Job_Not_Found
  | Job_Page "vacancy_detail option" "company option" bool bool

definition job_details_render :: "bool \<Rightarrow> job_details_view \<Rightarrow> job_details_screen" where
  "job_details_render static_found v =
     (if \<not> static_found then Job_Not_Found
      else Job_Page (job_detail v) (job_company v) (is_modal_open v) (is_application_sent v))"

text \<open>
  The page's handlers (lines 66--106). \<open>handleBackClick\<close> and \<open>handleCloseModal\<close> navigate;
  their navigation target is returned beside the state. \<open>handleApplicationSent\<close>
  (lines 89--91) is called from nowhere.
\<close>

definition handle_back_click :: string where
  "handle_back_click = ''/jobs''"

definition handle_apply_click :: "job_details_view \<Rightarrow> job_details_view" where
  "handle_apply_click v = v\<lparr>is_modal_open := True, is_application_sent := False\<rparr>"

definition handle_close_modal :: "job_details_view \<Rightarrow> job_details_view \<times> string" where
  "handle_close_modal v = (v\<lparr>is_modal_open := False, is_application_sent := False,
                             form_values := empty_application_form\<rparr>, ''/jobs'')"

definition handle_application_sent :: "job_details_view \<Rightarrow> job_details_view" where
  "handle_application_sent v = v\<lparr>is_application_sent := True\<rparr>"

definition set_form_field :: "string \<Rightarrow> string \<Rightarrow> application_form \<Rightarrow> application_form" where
  "set_form_field name val f =
     (if name = ''first_name'' then f\<lparr>first_name := val\<rparr>
      else if name = ''email'' then f\<lparr>email := val\<rparr>
      else if name = ''phone'' then f\<lparr>phone := val\<rparr>
      else if name = ''job_title'' then f\<lparr>applicant_job_title := val\<rparr>
      else if name = ''linkedin'' then f\<lparr>linkedin := val\<rparr>
      else f)"

definition handle_input_change :: "string \<Rightarrow> string \<Rightarrow> job_details_view \<Rightarrow> job_details_view" where
  "handle_input_change name val v = v\<lparr>form_values := set_form_field name val (form_values v)\<rparr>"

definition handle_file_change :: "string option \<Rightarrow> job_details_view \<Rightarrow> job_details_view" where
  "handle_file_change file v = v\<lparr>form_values := (form_values v)\<lparr>cv_file := file\<rparr>\<rparr>"

text \<open>
  \<open>handleSubmit\<close> (lines 108--136): the multipart body, in the order of the
  \<open>append\<close> calls (a missing file is appended as \<open>null\<close>, which FormData turns into the
  string "null"), and the response: only status 201 marks the application as sent; a
  rejected request is logged and changes nothing.
\<close>

definition application_form_data :: "string \<Rightarrow> application_form \<Rightarrow> (string \<times> string) list" where
  "application_form_data rid f =
     [(''vacancy_id'', rid), (''first_name'', first_name f), (''email'', email f), (''phone'', phone f),
      (''job_title'', applicant_job_title f), (''linkedin'', linkedin f),
      (''cv_file'', case cv_file f of None \<Rightarrow> ''null'' | Some file \<Rightarrow> file)]"

definition handle_application_response :: "'b outcome \<Rightarrow> job_details_view \<Rightarrow> job_details_view" where
  "handle_application_response r v =
     (case axios_call r of
        Inl _ \<Rightarrow> v
      | Inr (s, _) \<Rightarrow> if s = 201 then v\<lparr>is_application_sent := True\<rparr> else v)"

subsection \<open>VacancyViewAdmin.tsx\<close>

record admin_vacancy =
  av_id :: entity_id
  av_title :: string
  av_category_id :: jsval
  av_is_active :: bool
  av_is_remote :: bool
  av_salary :: jsval
  av_description :: string
  av_job_type :: string
  av_seniority_level :: string
  av_city :: string
  av_state :: string
  av_country :: string
  av_job_overview :: json_field
  av_job_role :: json_field
  av_job_responsibilities :: json_field
  av_you_have_text :: json_field

record vacancy_view_admin =
  admin_vacancy :: "admin_vacancy option"
  admin_category_name :: string

definition vacancy_view_admin_init :: vacancy_view_admin where
  "vacancy_view_admin_init = \<lparr>admin_vacancy = None, admin_category_name = []\<rparr>"

text \<open>
  \<open>fetchVacancy\<close> (lines 89--109): one \<open>try\<close> around both requests; the category is
  requested only when \<open>vacancyData.categoryId\<close> is truthy, and a failure of that request
  leaves the vacancy already stored.
\<close>

definition vacancy_view_admin_load ::
  "string \<Rightarrow> (string \<Rightarrow> admin_vacancy outcome) \<Rightarrow> (string \<Rightarrow> category outcome) \<Rightarrow>
   vacancy_view_admin \<Rightarrow> vacancy_view_admin \<times> string list" where
  "vacancy_view_admin_load rid srv1 srv2 v =
     (let p1 = ''/admin/vacancies/'' @ rid in
      case axios_call (srv1 p1) of
        Inl _ \<Rightarrow> (v, [p1])
      | Inr (_, d) \<Rightarrow>
          (let v1 = v\<lparr>admin_vacancy := Some d\<rparr> in
           if truthy (av_category_id d) then
             (let p2 = ''/categories/'' @ js_to_string (av_category_id d) in
              ((case axios_call (srv2 p2) of
                  Inl _ \<Rightarrow> v1
                | Inr (_, c) \<Rightarrow> v1\<lparr>admin_category_name := category_name c\<rparr>), [p1, p2]))
           else (v1, [p1])))"

subsection \<open>Facts\<close>

lemma load_detail_spec_primary_fails:
  "\<not> (\<exists>s d. srv1 p1 = Reply s d \<and> status_2xx s) \<Longrightarrow>
   load_detail_spec p1 key proj srv1 srv2 = \<lparr>res_primary = None, res_secondary = None, res_requests = [p1]\<rparr>"
  by (cases "srv1 p1") (auto simp: load_detail_spec_def axios_call_def)

lemma load_detail_spec_secondary_fails:
  "srv1 p1 = Reply s d \<Longrightarrow> status_2xx s \<Longrightarrow> key d = Some p2 \<Longrightarrow>
   \<not> (\<exists>s' b. srv2 p2 = Reply s' b \<and> status_2xx s') \<Longrightarrow>
   load_detail_spec p1 key proj srv1 srv2 = \<lparr>res_primary = Some d, res_secondary = None, res_requests = [p1, p2]\<rparr>"
  by (cases "srv2 p2") (auto simp: load_detail_spec_def axios_call_def)

lemma job_details_load_abs:
  "job_details_load rid srv1 srv2 job_details_init = (v, reqs) \<Longrightarrow>
   \<lparr>res_primary = job_detail v, res_secondary = job_company v, res_requests = reqs\<rparr> =
   load_detail_spec (''/vacancies/'' @ rid) (\<lambda>d. Some (company_path d)) id srv1 srv2"
  by (auto simp: job_details_load_def load_detail_spec_def axios_with_guard_eq job_details_init_def Let_def
           split: sum.split)

subsection \<open>Properties of the detail views\<close>

text \<open>
  C33: JobDetails.jsx implements the orchestrator contract: from the initial state, the
  stored vacancy, the stored company and the requests sent are those of
  \<open>load_detail_spec\<close> with the company path derived from the vacancy.
\<close>

theorem job_details_refines_spec:
  "let (v, reqs) = job_details_load rid srv1 srv2 job_details_init
   in \<lparr>res_primary = job_detail v, res_secondary = job_company v, res_requests = reqs\<rparr> =
      load_detail_spec (''/vacancies/'' @ rid) (\<lambda>d. Some (company_path d)) id srv1 srv2"
  using job_details_load_abs by (simp split: prod.split)

text \<open>
  C34: VacancyViewAdmin.tsx implements the orchestrator contract with a secondary request
  only for a truthy \<open>categoryId\<close>; the category name shown is the secondary result, or
  the empty string when it is absent.
\<close>

theorem vacancy_view_admin_refines_spec:
  "let (v, reqs) = vacancy_view_admin_load rid srv1 srv2 vacancy_view_admin_init;
       r = load_detail_spec (''/admin/vacancies/'' @ rid)
             (\<lambda>d. if truthy (av_category_id d) then Some (''/categories/'' @ js_to_string (av_category_id d)) else None)
             category_name srv1 srv2
   in admin_vacancy v = res_primary r \<and> reqs = res_requests r \<and>
      admin_category_name v = (case res_secondary r of None \<Rightarrow> [] | Some n \<Rightarrow> n)"
  by (auto simp: vacancy_view_admin_load_def load_detail_spec_def vacancy_view_admin_init_def Let_def
           split: sum.split)

text \<open>
  JobDetails.jsx, failing company request: the vacancy is kept, the company stays
  absent, and the company request went to the path derived from the vacancy.
\<close>

theorem job_details_company_failure:
  assumes "srv1 (''/vacancies/'' @ rid) = Reply s d" and "status_2xx s"
    and "\<not> (\<exists>s' c. srv2 (company_path d) = Reply s' c \<and> status_2xx s')"
  shows "job_detail (fst (job_details_load rid srv1 srv2 job_details_init)) = Some d \<and>
         job_company (fst (job_details_load rid srv1 srv2 job_details_init)) = None \<and>
         snd (job_details_load rid srv1 srv2 job_details_init) = [''/vacancies/'' @ rid, company_path d]"
proof -
  obtain v reqs where l: "job_details_load rid srv1 srv2 job_details_init = (v, reqs)" by fastforce
  have "load_detail_spec (''/vacancies/'' @ rid) (\<lambda>d. Some (company_path d)) id srv1 srv2 =
          \<lparr>res_primary = Some d, res_secondary = None, res_requests = [''/vacancies/'' @ rid, company_path d]\<rparr>"
    using assms by (simp add: load_detail_spec_secondary_fails)
  with job_details_load_abs [OF l] l show ?thesis by simp
qed

theorem job_details_company_failure_witness:
  "let d = \<lparr>vd_title = ''Dev'', vd_city = [], vd_country = [], vd_job_type = [], vd_seniority_level = [],
            vd_is_remote = False, vd_company_id = JNum 3, vd_job_overview = F_Strs [],
            vd_job_role = F_Strs [], vd_job_responsibilities = F_Strs [], vd_you_have_text = F_Strs []\<rparr>
   in job_detail (fst (job_details_load ''9'' (\<lambda>_. Reply 200 d) (\<lambda>_. Network_Failure) job_details_init)) = Some d \<and>
      job_company (fst (job_details_load ''9'' (\<lambda>_. Reply 200 d) (\<lambda>_. Network_Failure) job_details_init)) = None \<and>
      snd (job_details_load ''9'' (\<lambda>_. Reply 200 d) (\<lambda>_. Network_Failure) job_details_init) =
        [''/vacancies/'' @ ''9'', company_path d]"
proof -
  have st: "status_2xx (200::nat)" by (simp add: status_2xx_def)
  show ?thesis unfolding Let_def
    by (rule job_details_company_failure [OF _ st]) simp_all
qed

text \<open>
  JobDetails.jsx sends the company request even when the vacancy has no
  \<open>companyId\<close>: the template literal turns \<open>undefined\<close> into the path
  \<open>/companies/undefined\<close>.
\<close>

theorem job_details_undefined_company_path:
  "snd (job_details_load ''9''
          (\<lambda>_. Reply 200 \<lparr>vd_title = ''Dev'', vd_city = [], vd_country = [], vd_job_type = [],
                           vd_seniority_level = [], vd_is_remote = False, vd_company_id = JUndef,
                           vd_job_overview = F_Strs [], vd_job_role = F_Strs [],
                           vd_job_responsibilities = F_Strs [], vd_you_have_text = F_Strs []\<rparr>)
          srv2 v) = [''/vacancies/9'', ''/companies/undefined'']"
  by (simp add: job_details_load_def axios_with_guard_eq axios_call_def status_2xx_def company_path_def Let_def
           split: sum.split)

text \<open>
  the application is marked as sent only for status 201: any other successful status
  (200 included) leaves the form open as if nothing happened.
\<close>

theorem application_sent_only_on_201:
  assumes "status_2xx s"
  shows "is_application_sent (handle_application_response (Reply s b) v) \<longleftrightarrow>
         s = 201 \<or> is_application_sent v"
  using assms by (simp add: handle_application_response_def axios_call_def)

theorem application_sent_only_on_201_witness:
  "\<not> is_application_sent (handle_application_response (Reply 200 ()) (handle_apply_click job_details_init))"
proof -
  have s: "status_2xx (200::nat)" by (simp add: status_2xx_def)
  have "\<not> is_application_sent (handle_apply_click job_details_init)"
    by (simp add: handle_apply_click_def)
  with application_sent_only_on_201 [OF s, of "()" "handle_apply_click job_details_init"] show ?thesis by simp
qed

text \<open>
  a rejected application request leaves the view as it was: the modal stays open
  with every entered value, so the user can retry (spec section 7).
\<close>

theorem application_failure_keeps_form:
  assumes "axios_call r = Inl e"
  shows "handle_application_response r v = v"
  using assms by (simp add: handle_application_response_def)

lemma application_failure_keeps_form_witness:
  "let v = handle_input_change ''email'' ''a@b.c'' (handle_apply_click job_details_init)
   in handle_application_response (Reply 500 ()) v = v \<and> is_modal_open v \<and> email (form_values v) = ''a@b.c''"
proof -
  have a: "axios_call (Reply 500 ()) = Inl (Status_Error 500)" by (simp add: axios_call_def status_2xx_def)
  show ?thesis
    using application_failure_keeps_form [OF a]
    by (simp add: Let_def handle_input_change_def handle_apply_click_def set_form_field_def job_details_init_def)
qed

end
