(* ===== verification/AdminCrud.thy ===== *)
theory AdminCrud
  imports Http
begin

text \<open>
  The admin list pages Pages/Admin/CategoryPage.tsx and Pages/Admin/IndustryPage.tsx. Each
  page holds the fetched list, the record being edited (\<open>editingX\<close>) and, inside its form
  component, the text of the name field. A submit, or a click on a delete button, starts an
  \<open>axiosInstance\<close> request whose callback later updates the list through a functional
  updater (\<open>prev => ...\<close>), so a response is applied to whatever the list is when it
  arrives; the requests in flight are the list \<open>al_pending\<close> and a response is a separate
  event naming one of them, so that every interleaving is a sequence of events.
  Both pages share the view record, the event type and the step function
  \<open>admin_step\<close>; they differ in the form's submit handler and in what a successful
  update or create puts into the list, which each page supplies.
  The catalogue a page promises to keep is the map from identifiers to names,
  \<open>catalog\<close>; the refinement lemmas show what each successful response does to it.
\<close>

record admin_category =
  cat_id :: entity_id
  cat_name :: string
  cat_created_at :: string
  cat_updated_at :: string

record industry =
  ind_id :: entity_id
  ind_name :: string

datatype admin_pending =
    Pending_Update entity_id string
  | Pending_Create string
  | Pending_Delete entity_id

datatype admin_request =
    Req_Get string
  | Req_Put string string
  | Req_Post string string
  | Req_Delete string

record 'a admin_list_view =
  al_items :: "'a list"
  al_editing :: "'a option"
  al_form_name :: string
  al_pending :: "admin_pending list"

definition admin_init :: "'a admin_list_view" where
  "admin_init = \<lparr>al_items = [], al_editing = None, al_form_name = [], al_pending = []\<rparr>"

datatype 'a admin_event =
    Admin_Loaded "'a list outcome"
  | Admin_Edit 'a
  | Admin_Cancel
  | Admin_Type string
  | Admin_Submit
  | Admin_Delete entity_id
  | Admin_Response nat "'a outcome"

text \<open>
  \<open>setEditingX(null)\<close>, followed by the form's effect on \<open>[category]\<close>, which fires only
  when the prop changed and then resets the name field to \<open>''\<close>.
\<close>

definition admin_close_edit :: "'a admin_list_view \<Rightarrow> 'a admin_list_view" where
  "admin_close_edit v =
     (if al_editing v = None then v else v\<lparr>al_editing := None, al_form_name := []\<rparr>)"

text \<open>
  \<open>handleEdit\<close>: \<open>setEditingX(x)\<close>; the form's effect copies the record's name into the
  field. Setting the record already being edited is a no-op (React bails out and the
  effect does not fire); record identity is modelled as equality of values.
\<close>

definition admin_edit :: "('a \<Rightarrow> string) \<Rightarrow> 'a \<Rightarrow> 'a admin_list_view \<Rightarrow> 'a admin_list_view" where
  "admin_edit name x v =
     (if al_editing v = Some x then v else v\<lparr>al_editing := Some x, al_form_name := name x\<rparr>)"

text \<open>\<open>fetchX\<close> on mount: \<open>setX(response.data)\<close>, a toast on failure.\<close>

definition admin_loaded :: "'a list outcome \<Rightarrow> 'a admin_list_view \<Rightarrow> 'a admin_list_view" where
  "admin_loaded r v = (case axios_call r of Inl _ \<Rightarrow> v | Inr (_, xs) \<Rightarrow> v\<lparr>al_items := xs\<rparr>)"

text \<open>\<open>prev.filter(x => x.id !== id)\<close> of \<open>handleDelete\<close>.\<close>

definition admin_remove :: "('a \<Rightarrow> entity_id) \<Rightarrow> entity_id \<Rightarrow> 'a list \<Rightarrow> 'a list" where
  "admin_remove key i xs = filter (\<lambda>x. key x \<noteq> i) xs"

definition remove_nth :: "nat \<Rightarrow> 'a list \<Rightarrow> 'a list" where
  "remove_nth k xs = take k xs @ drop (Suc k) xs"

text \<open>
  One event on a page. The submit handler and the response handler are the page's own;
  a response names the position of its request among those in flight.
\<close>

fun admin_step ::
  "('a \<Rightarrow> string) \<Rightarrow> ('a admin_list_view \<Rightarrow> 'a admin_list_view) \<Rightarrow>
   (admin_pending \<Rightarrow> 'a outcome \<Rightarrow> 'a admin_list_view \<Rightarrow> 'a admin_list_view) \<Rightarrow>
   'a admin_event \<Rightarrow> 'a admin_list_view \<Rightarrow> 'a admin_list_view" where
  "admin_step name submit respond (Admin_Loaded r) v = admin_loaded r v"
| "admin_step name submit respond (Admin_Edit x) v = admin_edit name x v"
| "admin_step name submit respond Admin_Cancel v = admin_close_edit v"
| "admin_step name submit respond (Admin_Type s) v = v\<lparr>al_form_name := s\<rparr>"
| "admin_step name submit respond Admin_Submit v = submit v"
| "admin_step name submit respond (Admin_Delete i) v =
     v\<lparr>al_pending := al_pending v @ [Pending_Delete i]\<rparr>"
| "admin_step name submit respond (Admin_Response k r) v =
     (if k < length (al_pending v)
      then respond (al_pending v ! k) r (v\<lparr>al_pending := remove_nth k (al_pending v)\<rparr>)
      else v)"

subsection \<open>CategoryPage\<close>

text \<open>
  \<open>CategoryForm.handleSubmit\<close> calls \<open>onSubmit(name, category?.id)\<close> and then clears the
  field only when no category is being edited; the page's \<open>handleSubmit\<close> branches on
  \<open>if (id)\<close>, JavaScript truthiness, so an edited category with id \<open>0\<close> is created anew.
  The input is \<open>required\<close>: the browser does not submit an empty field.
\<close>

definition category_submit :: "admin_category admin_list_view \<Rightarrow> admin_category admin_list_view" where
  "category_submit v =
     (if al_form_name v = [] then v
      else
        let n = al_form_name v;
            p = (case al_editing v of
                   None \<Rightarrow> Pending_Create n
                 | Some c \<Rightarrow> if truthy (JNum (cat_id c)) then Pending_Update (cat_id c) n
                             else Pending_Create n)
        in (if al_editing v = None then v\<lparr>al_form_name := []\<rparr> else v)
             \<lparr>al_pending := al_pending v @ [p]\<rparr>)"

definition category_request :: "admin_pending \<Rightarrow> admin_request" where
  "category_request p =
     (case p of
        Pending_Update i n \<Rightarrow> Req_Put (''/categories/'' @ int_to_string i) n
      | Pending_Create n \<Rightarrow> Req_Post ''/categories'' n
      | Pending_Delete i \<Rightarrow> Req_Delete (''/categories/'' @ int_to_string i))"

text \<open>
  The continuation of \<open>handleSubmit\<close> and \<open>handleDelete\<close> once the request settles: an
  update renames every category with that id (\<open>{...category, name}\<close>), a create appends
  \<open>response.data\<close>, a delete filters; both submit branches end in
  \<open>setEditingCategory(null)\<close>; any failure only shows a toast.
\<close>

fun category_response ::
  "admin_pending \<Rightarrow> admin_category outcome \<Rightarrow> admin_category admin_list_view \<Rightarrow>
   admin_category admin_list_view" where
  "category_response (Pending_Update i n) r v =
     (case axios_call r of
        Inl _ \<Rightarrow> v
      | Inr _ \<Rightarrow> admin_close_edit
          (v\<lparr>al_items := map_where (\<lambda>c. cat_id c = i) (\<lambda>c. c\<lparr>cat_name := n\<rparr>) (al_items v)\<rparr>))"
| "category_response (Pending_Create n) r v =
     (case axios_call r of
        Inl _ \<Rightarrow> v
      | Inr (_, c) \<Rightarrow> admin_close_edit (v\<lparr>al_items := al_items v @ [c]\<rparr>))"
| "category_response (Pending_Delete i) r v =
     (case axios_call r of
        Inl _ \<Rightarrow> v
      | Inr _ \<Rightarrow> v\<lparr>al_items := admin_remove cat_id i (al_items v)\<rparr>)"

definition category_step ::
  "admin_category admin_event \<Rightarrow> admin_category admin_list_view \<Rightarrow> admin_category admin_list_view" where
  "category_step = admin_step cat_name category_submit category_response"

subsection \<open>IndustryPage\<close>

text \<open>
  \<open>IndustryForm.handleSubmit\<close> clears the field after every submit, editing or not; the
  page's update and create put the server's \<open>response.data.industry\<close> into the list
  (the reply body is modelled as that record).
\<close>

definition industry_submit :: "industry admin_list_view \<Rightarrow> industry admin_list_view" where
  "industry_submit v =
     (if al_form_name v = [] then v
      else
        let n = al_form_name v;
            p = (case al_editing v of
                   None \<Rightarrow> Pending_Create n
                 | Some x \<Rightarrow> if truthy (JNum (ind_id x)) then Pending_Update (ind_id x) n
                             else Pending_Create n)
        in v\<lparr>al_form_name := [], al_pending := al_pending v @ [p]\<rparr>)"

definition industry_request :: "admin_pending \<Rightarrow> admin_request" where
  "industry_request p =
     (case p of
        Pending_Update i n \<Rightarrow> Req_Put (''/admin/industries/'' @ int_to_string i) n
      | Pending_Create n \<Rightarrow> Req_Post ''/admin/industries'' n
      | Pending_Delete i \<Rightarrow> Req_Delete (''/admin/industries/'' @ int_to_string i))"

fun industry_response ::
  "admin_pending \<Rightarrow> industry outcome \<Rightarrow> industry admin_list_view \<Rightarrow> industry admin_list_view" where
  "industry_response (Pending_Update i n) r v =
     (case axios_call r of
        Inl _ \<Rightarrow> v
      | Inr (_, x) \<Rightarrow> admin_close_edit
          (v\<lparr>al_items := map_where (\<lambda>y. ind_id y = i) (\<lambda>_. x) (al_items v)\<rparr>))"
| "industry_response (Pending_Create n) r v =
     (case axios_call r of
        Inl _ \<Rightarrow> v
      | Inr (_, x) \<Rightarrow> admin_close_edit (v\<lparr>al_items := al_items v @ [x]\<rparr>))"
| "industry_response (Pending_Delete i) r v =
     (case axios_call r of
        Inl _ \<Rightarrow> v
      | Inr _ \<Rightarrow> v\<lparr>al_items := admin_remove ind_id i (al_items v)\<rparr>)"

definition industry_step :: "industry admin_event \<Rightarrow> industry admin_list_view \<Rightarrow> industry admin_list_view" where
  "industry_step = admin_step ind_name industry_submit industry_response"

subsection \<open>The catalogue and a well-behaved backend\<close>

text \<open>
  The abstract state of a page: identifier to name, the first record with an identifier
  winning (the one the list renders first). The abstract operations are what the
  backend's CRUD endpoints promise: rename, insert a fresh record, delete.
\<close>

definition catalog :: "('a \<Rightarrow> entity_id) \<Rightarrow> ('a \<Rightarrow> string) \<Rightarrow> 'a list \<Rightarrow> entity_id \<rightharpoonup> string" where
  "catalog key name xs = map_of (map (\<lambda>x. (key x, name x)) xs)"

fun catalog_op ::
  "('a \<Rightarrow> entity_id) \<Rightarrow> ('a \<Rightarrow> string) \<Rightarrow> admin_pending \<Rightarrow> 'a \<Rightarrow>
   (entity_id \<rightharpoonup> string) \<Rightarrow> (entity_id \<rightharpoonup> string)" where
  "catalog_op key name (Pending_Update i n) x m = (if i \<in> dom m then m(i \<mapsto> n) else m)"
| "catalog_op key name (Pending_Create n) x m = m(key x \<mapsto> name x)"
| "catalog_op key name (Pending_Delete i) x m = m(i := None)"

text \<open>
  The replies a backend honouring its contract sends: a loaded list has distinct ids, a
  created record has an id not yet listed, an updated record keeps its id and carries
  the submitted name.
\<close>

fun reply_ok ::
  "('a \<Rightarrow> entity_id) \<Rightarrow> ('a \<Rightarrow> string) \<Rightarrow> admin_pending \<Rightarrow> 'a outcome \<Rightarrow> 'a list \<Rightarrow> bool" where
  "reply_ok key name (Pending_Create n) (Reply s x) xs = (key x \<notin> set (map key xs) \<and> name x = n)"
| "reply_ok key name (Pending_Update i n) (Reply s x) xs = (key x = i \<and> name x = n)"
| "reply_ok key name p r xs = True"

fun backend_ok ::
  "('a \<Rightarrow> entity_id) \<Rightarrow> ('a \<Rightarrow> string) \<Rightarrow> 'a admin_event \<Rightarrow> 'a admin_list_view \<Rightarrow> bool" where
  "backend_ok key name (Admin_Loaded (Reply s xs)) v = distinct (map key xs)"
| "backend_ok key name (Admin_Response k r) v =
     (k < length (al_pending v) \<longrightarrow> reply_ok key name (al_pending v ! k) r (al_items v))"
| "backend_ok key name e v = True"

inductive category_reachable :: "admin_category admin_list_view \<Rightarrow> bool" where
  init: "category_reachable admin_init"
| step: "category_reachable v \<Longrightarrow> backend_ok cat_id cat_name e v \<Longrightarrow>
         category_reachable (category_step e v)"

inductive industry_reachable :: "industry admin_list_view \<Rightarrow> bool" where
  init: "industry_reachable admin_init"
| step: "industry_reachable v \<Longrightarrow> backend_ok ind_id ind_name e v \<Longrightarrow>
         industry_reachable (industry_step e v)"

subsection \<open>Properties\<close>

lemma admin_close_edit_fields [simp]:
  "al_items (admin_close_edit v) = al_items v"
  "al_pending (admin_close_edit v) = al_pending v"
  "al_editing (admin_close_edit v) = None"
  by (simp_all add: admin_close_edit_def)

lemma admin_edit_fields [simp]:
  "al_items (admin_edit name x v) = al_items v"
  "al_pending (admin_edit name x v) = al_pending v"
  by (simp_all add: admin_edit_def)

lemma admin_loaded_items:
  "al_items (admin_loaded r v) = (case axios_call r of Inl _ \<Rightarrow> al_items v | Inr (_, xs) \<Rightarrow> xs)"
  by (simp add: admin_loaded_def split: sum.split prod.split)

lemma category_submit_items [simp]: "al_items (category_submit v) = al_items v"
  by (simp add: category_submit_def Let_def)

lemma industry_submit_items [simp]: "al_items (industry_submit v) = al_items v"
  by (simp add: industry_submit_def Let_def)

lemma dom_catalog: "dom (catalog key name xs) = set (map key xs)"
  by (simp add: catalog_def dom_map_of_conv_image_fst image_image)

lemma catalog_map_where:
  assumes "\<And>x. key x = i \<Longrightarrow> key (f x) = i" "\<And>x. key x = i \<Longrightarrow> name (f x) = n"
  shows "catalog key name (map_where (\<lambda>x. key x = i) f xs) =
         (if i \<in> dom (catalog key name xs) then (catalog key name xs)(i \<mapsto> n)
          else catalog key name xs)"
  using assms by (induction xs) (auto simp: catalog_def fun_upd_twist)

lemma catalog_append_fresh:
  "key x \<notin> set (map key xs) \<Longrightarrow>
   catalog key name (xs @ [x]) = (catalog key name xs)(key x \<mapsto> name x)"
  by (induction xs) (auto simp: catalog_def fun_upd_twist)

lemma catalog_remove: "catalog key name (admin_remove key i xs) = (catalog key name xs)(i := None)"
  by (induction xs) (auto simp: catalog_def admin_remove_def fun_upd_twist)

lemma distinct_map_where_key:
  "(\<And>x. key x = i \<Longrightarrow> key (f x) = i) \<Longrightarrow> map key (map_where (\<lambda>x. key x = i) f xs) = map key xs"
  by (rule map_where_proj) auto

lemma distinct_admin_remove: "distinct (map key xs) \<Longrightarrow> distinct (map key (admin_remove key i xs))"
  by (simp add: admin_remove_def distinct_map_filter)

lemma remove_nth_length [simp]: "k < length xs \<Longrightarrow> length (remove_nth k xs) = length xs - 1"
  by (simp add: remove_nth_def)

lemma category_response_inv:
  "distinct (map cat_id (al_items v)) \<Longrightarrow> reply_ok cat_id cat_name p r (al_items v) \<Longrightarrow>
   distinct (map cat_id (al_items (category_response p r v)))"
  by (cases p; cases r)
     (auto simp: axios_call_def distinct_map_where_key distinct_admin_remove)

lemma industry_response_inv:
  "distinct (map ind_id (al_items v)) \<Longrightarrow> reply_ok ind_id ind_name p r (al_items v) \<Longrightarrow>
   distinct (map ind_id (al_items (industry_response p r v)))"
  by (cases p; cases r)
     (auto simp: axios_call_def distinct_map_where_key distinct_admin_remove)

lemma admin_step_inv:
  assumes "distinct (map key (al_items v))" "backend_ok key name' e v"
    and "\<And>v. al_items (submit v) = al_items v"
    and "\<And>p r v. distinct (map key (al_items v)) \<Longrightarrow> reply_ok key name' p r (al_items v) \<Longrightarrow>
           distinct (map key (al_items (respond p r v)))"
  shows "distinct (map key (al_items (admin_step name submit respond e v)))"
  using assms
proof (cases e)
  case (Admin_Loaded r)
  with assms(1,2) show ?thesis
    by (cases r) (auto simp: admin_loaded_items axios_call_def)
next
  case (Admin_Response k r)
  with assms(1,2) assms(4) [of "v\<lparr>al_pending := remove_nth k (al_pending v)\<rparr>"] show ?thesis
    by simp
qed simp_all

text \<open>
  C29: In every state the category page can reach, with a backend that keeps its contract,
  no two listed categories share an id: loading, renaming, appending a fresh record and
  filtering all preserve distinctness, in any interleaving of requests and responses.
\<close>

theorem category_ids_distinct: "category_reachable v \<Longrightarrow> distinct (map cat_id (al_items v))"
  by (induction rule: category_reachable.induct)
     (auto simp: admin_init_def category_step_def intro: admin_step_inv category_response_inv)

lemma category_reachable_inv: "category_reachable v \<Longrightarrow> distinct (map cat_id (al_items v))"
  by (induction rule: category_reachable.induct)
     (auto simp: admin_init_def category_step_def intro: admin_step_inv category_response_inv)

lemma industry_reachable_inv: "industry_reachable v \<Longrightarrow> distinct (map ind_id (al_items v))"
  by (induction rule: industry_reachable.induct)
     (auto simp: admin_init_def industry_step_def intro: admin_step_inv industry_response_inv)

lemma category_response_catalog:
  "status_2xx s \<Longrightarrow> reply_ok cat_id cat_name p (Reply s x) (al_items v) \<Longrightarrow>
   catalog cat_id cat_name (al_items (category_response p (Reply s x) v)) =
   catalog_op cat_id cat_name p x (catalog cat_id cat_name (al_items v))"
  by (cases p) (simp_all add: axios_call_def catalog_map_where catalog_append_fresh catalog_remove)

lemma industry_response_catalog:
  "status_2xx s \<Longrightarrow> reply_ok ind_id ind_name p (Reply s x) (al_items v) \<Longrightarrow>
   catalog ind_id ind_name (al_items (industry_response p (Reply s x) v)) =
   catalog_op ind_id ind_name p x (catalog ind_id ind_name (al_items v))"
  by (cases p) (simp_all add: axios_call_def catalog_map_where catalog_append_fresh catalog_remove)

lemma category_response_failure:
  "axios_call r = Inl e \<Longrightarrow> category_response p r v = v"
  by (cases p) simp_all

lemma industry_response_failure:
  "axios_call r = Inl e \<Longrightarrow> industry_response p r v = v"
  by (cases p) simp_all

text \<open>
  C28: Refinement of the category page against the catalogue. When the response to the
  k-th request in flight arrives with a 2xx status and the backend kept its contract, the
  identifier-to-name map of the rendered list changes exactly as the abstract operation
  says: an update renames a listed id (and leaves the map alone if the id was deleted
  meanwhile), a create adds the new record, a delete removes the id.
\<close>
theorem category_step_refines_catalog:
  assumes "k < length (al_pending v)" "status_2xx s"
    and "backend_ok cat_id cat_name (Admin_Response k (Reply s x)) v"
  shows "catalog cat_id cat_name (al_items (category_step (Admin_Response k (Reply s x)) v)) =
         catalog_op cat_id cat_name (al_pending v ! k) x (catalog cat_id cat_name (al_items v))"
  using assms category_response_catalog [of s "al_pending v ! k" x "v\<lparr>al_pending := remove_nth k (al_pending v)\<rparr>"]
  by (simp add: category_step_def)

text \<open>
  The same refinement for the industry page, whose update and create put the
  server's \<open>response.data.industry\<close> record into the list.
\<close>
theorem industry_step_refines_catalog:
  assumes "k < length (al_pending v)" "status_2xx s"
    and "backend_ok ind_id ind_name (Admin_Response k (Reply s x)) v"
  shows "catalog ind_id ind_name (al_items (industry_step (Admin_Response k (Reply s x)) v)) =
         catalog_op ind_id ind_name (al_pending v ! k) x (catalog ind_id ind_name (al_items v))"
  using assms industry_response_catalog [of s "al_pending v ! k" x "v\<lparr>al_pending := remove_nth k (al_pending v)\<rparr>"]
  by (simp add: industry_step_def)

text \<open>
  A failed request (transport error or non-2xx status) changes nothing on either
  page except retiring the request: the list, the record being edited and the form's
  text are those of the moment the response arrives.
\<close>
theorem admin_failed_response_keeps_state:
  assumes "k < length (al_pending v)" "axios_call r = Inl e"
    and "k' < length (al_pending w)" "axios_call r' = Inl e'"
  shows "category_step (Admin_Response k r) v = v\<lparr>al_pending := remove_nth k (al_pending v)\<rparr> \<and>
         industry_step (Admin_Response k' r') w = w\<lparr>al_pending := remove_nth k' (al_pending w)\<rparr>"
  using assms by (simp add: category_step_def industry_step_def category_response_failure
                    industry_response_failure)

text \<open>
  On the category page a create whose request fails still empties the name field:
  the form clears it right after calling \<open>onSubmit\<close>, before the request settles,
  so the text the user typed is lost although the list is unchanged.
\<close>
theorem category_failed_create_clears_name:
  assumes "al_editing v = None" "al_form_name v \<noteq> []" "axios_call r = Inl e"
  shows "let v' = category_step (Admin_Response (length (al_pending v)) r) (category_step Admin_Submit v)
         in al_items v' = al_items v \<and> al_editing v' = None \<and> al_form_name v' = [] \<and>
            al_pending v' = al_pending v"
  using assms by (simp add: category_step_def category_submit_def category_response_failure remove_nth_def)

text \<open>
  On the industry page a failed update leaves the page in edit mode on the same
  record, with the list unchanged, but with an empty name field: \<open>IndustryForm\<close>
  clears the field after every submit.
\<close>
theorem industry_failed_update_clears_name:
  assumes "al_editing v = Some x" "ind_id x \<noteq> 0" "al_form_name v \<noteq> []" "axios_call r = Inl e"
  shows "let v' = industry_step (Admin_Response (length (al_pending v)) r) (industry_step Admin_Submit v)
         in al_items v' = al_items v \<and> al_editing v' = Some x \<and> al_form_name v' = [] \<and>
            al_pending v' = al_pending v"
  using assms by (simp add: industry_step_def industry_submit_def industry_response_failure remove_nth_def)

text \<open>
  Editing a category whose id is 0 and submitting sends
  \<open>POST /categories\<close>, not \<open>PUT /categories/0\<close>: the page tests \<open>if (id)\<close>.
  On success the server's new record is appended and the edited record keeps its old
  name.
\<close>
theorem category_zero_id_edit_posts_new:
  assumes "al_editing v = Some c" "cat_id c = 0" "al_form_name v \<noteq> []" "status_2xx s"
  shows "category_request (last (al_pending (category_step Admin_Submit v))) =
           Req_Post ''/categories'' (al_form_name v) \<and>
         al_items (category_step (Admin_Response (length (al_pending v)) (Reply s x))
                    (category_step Admin_Submit v)) = al_items v @ [x] \<and>
         al_editing (category_step (Admin_Response (length (al_pending v)) (Reply s x))
                    (category_step Admin_Submit v)) = None"
  using assms by (simp add: category_step_def category_submit_def category_request_def
                    axios_call_def remove_nth_def)

theorem category_step_refines_catalog_witness:
  "catalog cat_id cat_name
     (al_items (category_step (Admin_Response 0 (Reply 200 \<lparr>cat_id = 1, cat_name = ''IT'',
        cat_created_at = '''', cat_updated_at = ''''\<rparr>))
      \<lparr>al_items = [\<lparr>cat_id = 1, cat_name = ''Tech'', cat_created_at = '''', cat_updated_at = ''''\<rparr>],
       al_editing = None, al_form_name = '''', al_pending = [Pending_Update 1 ''IT'']\<rparr>)) =
   [1 \<mapsto> ''IT'']"
  using category_step_refines_catalog [of 0
      "\<lparr>al_items = [\<lparr>cat_id = 1, cat_name = ''Tech'', cat_created_at = '''', cat_updated_at = ''''\<rparr>],
        al_editing = None, al_form_name = '''', al_pending = [Pending_Update 1 ''IT'']\<rparr>" 200
      "\<lparr>cat_id = 1, cat_name = ''IT'', cat_created_at = '''', cat_updated_at = ''''\<rparr>"]
  by (simp add: catalog_def status_2xx_def)

theorem industry_step_refines_catalog_witness:
  "catalog ind_id ind_name
     (al_items (industry_step (Admin_Response 1 (Reply 201 \<lparr>ind_id = 7, ind_name = ''Fintech''\<rparr>))
      \<lparr>al_items = [\<lparr>ind_id = 3, ind_name = ''Health''\<rparr>], al_editing = None, al_form_name = '''',
       al_pending = [Pending_Delete 3, Pending_Create ''Fintech'']\<rparr>)) =
   [3 \<mapsto> ''Health'', 7 \<mapsto> ''Fintech'']"
  using industry_step_refines_catalog [of 1
      "\<lparr>al_items = [\<lparr>ind_id = 3, ind_name = ''Health''\<rparr>], al_editing = None, al_form_name = '''',
        al_pending = [Pending_Delete 3, Pending_Create ''Fintech'']\<rparr>" 201
      "\<lparr>ind_id = 7, ind_name = ''Fintech''\<rparr>"]
  by (simp add: catalog_def status_2xx_def)

theorem admin_failed_response_keeps_state_witness:
  "category_step (Admin_Response 0 Network_Failure)
      \<lparr>al_items = [], al_editing = None, al_form_name = ''x'', al_pending = [Pending_Delete 2]\<rparr> =
    \<lparr>al_items = [], al_editing = None, al_form_name = ''x'', al_pending = []\<rparr> \<and>
   industry_step (Admin_Response 0 (Reply 500 \<lparr>ind_id = 1, ind_name = ''A''\<rparr>))
      \<lparr>al_items = [], al_editing = None, al_form_name = '''', al_pending = [Pending_Create ''A'']\<rparr> =
    \<lparr>al_items = [], al_editing = None, al_form_name = '''', al_pending = []\<rparr>"
  using admin_failed_response_keeps_state [of 0
      "\<lparr>al_items = [], al_editing = None, al_form_name = ''x'', al_pending = [Pending_Delete 2]\<rparr>"
      Network_Failure Transport_Error 0
      "\<lparr>al_items = [], al_editing = None, al_form_name = '''', al_pending = [Pending_Create ''A'']\<rparr>"
      "Reply 500 \<lparr>ind_id = 1, ind_name = ''A''\<rparr>" "Status_Error 500"]
  by (simp add: axios_call_def status_2xx_def remove_nth_def)

theorem category_failed_create_clears_name_witness:
  "let v' = category_step (Admin_Response 0 (Reply 409 \<lparr>cat_id = 0, cat_name = '''',
                 cat_created_at = '''', cat_updated_at = ''''\<rparr>))
              (category_step Admin_Submit
                 \<lparr>al_items = [], al_editing = None, al_form_name = ''Design'', al_pending = []\<rparr>)
   in al_items v' = [] \<and> al_editing v' = None \<and> al_form_name v' = [] \<and> al_pending v' = []"
  using category_failed_create_clears_name [of
      "\<lparr>al_items = [], al_editing = None, al_form_name = ''Design'', al_pending = []\<rparr>"
      "Reply 409 \<lparr>cat_id = 0, cat_name = '''', cat_created_at = '''', cat_updated_at = ''''\<rparr>"
      "Status_Error 409"]
  by (simp add: axios_call_def status_2xx_def)

lemma industry_failed_update_clears_name_witness:
  "let v' = industry_step (Admin_Response 0 Network_Failure)
              (industry_step Admin_Submit
                 \<lparr>al_items = [\<lparr>ind_id = 4, ind_name = ''Retail''\<rparr>],
                  al_editing = Some \<lparr>ind_id = 4, ind_name = ''Retail''\<rparr>,
                  al_form_name = ''E-commerce'', al_pending = []\<rparr>)
   in al_items v' = [\<lparr>ind_id = 4, ind_name = ''Retail''\<rparr>] \<and>
      al_editing v' = Some \<lparr>ind_id = 4, ind_name = ''Retail''\<rparr> \<and> al_form_name v' = [] \<and>
      al_pending v' = []"
  using industry_failed_update_clears_name [of
      "\<lparr>al_items = [\<lparr>ind_id = 4, ind_name = ''Retail''\<rparr>],
        al_editing = Some \<lparr>ind_id = 4, ind_name = ''Retail''\<rparr>,
        al_form_name = ''E-commerce'', al_pending = []\<rparr>"
      "\<lparr>ind_id = 4, ind_name = ''Retail''\<rparr>" Network_Failure Transport_Error]
  by simp

theorem category_zero_id_edit_posts_new_witness:
  "category_request (last (al_pending (category_step Admin_Submit
      \<lparr>al_items = [\<lparr>cat_id = 0, cat_name = ''Misc'', cat_created_at = '''', cat_updated_at = ''''\<rparr>],
       al_editing = Some \<lparr>cat_id = 0, cat_name = ''Misc'', cat_created_at = '''', cat_updated_at = ''''\<rparr>,
       al_form_name = ''Other'', al_pending = []\<rparr>))) = Req_Post ''/categories'' ''Other''"
  using category_zero_id_edit_posts_new [of
      "\<lparr>al_items = [\<lparr>cat_id = 0, cat_name = ''Misc'', cat_created_at = '''', cat_updated_at = ''''\<rparr>],
        al_editing = Some \<lparr>cat_id = 0, cat_name = ''Misc'', cat_created_at = '''', cat_updated_at = ''''\<rparr>,
        al_form_name = ''Other'', al_pending = []\<rparr>"
      "\<lparr>cat_id = 0, cat_name = ''Misc'', cat_created_at = '''', cat_updated_at = ''''\<rparr>" 201]
  by (simp add: status_2xx_def)

theorem category_ids_distinct_witness:
  "distinct (map cat_id (al_items (category_step (Admin_Loaded (Reply 200
     [\<lparr>cat_id = 1, cat_name = ''Tech'', cat_created_at = '''', cat_updated_at = ''''\<rparr>,
      \<lparr>cat_id = 2, cat_name = ''Health'', cat_created_at = '''', cat_updated_at = ''''\<rparr>]))
     admin_init)))"
  by (rule category_ids_distinct [OF category_reachable.step [OF category_reachable.init]]) simp

end
