(* ===== verification/StartupBrowse.thy ===== *)
theory StartupBrowse
  imports AdminCrud
begin

text \<open>
  The startup directory Components/BrowseSturtups/Browse.jsx. The screen shows a list of
  companies (\<open>filteredJobs\<close>), first the static \<open>CompaniesData\<close> (a JSON file that is not
  part of the repository, so it is a parameter here), then the body of each
  \<open>GET /api/companies\<close> with status 200. The request is sent by an effect on six filter
  hooks and by the Search button; requests settle in any order, like FindJobs'. A second
  effect loads the industries once and then one company count per industry in parallel
  (\<open>Promise.all\<close>), each count defaulting to 0 on failure.
  The view record has one field per hook; \<open>browse_params\<close> is the \<open>params\<close> object of
  \<open>companies()\<close> before axios serializes it.
\<close>

record startup =
  st_id :: entity_id
  st_name :: string
  st_logo :: string
  st_description :: string
  st_job_count :: int
  st_job_title :: string
  st_remote_status :: string

text \<open>
  \<open>useState()\<close> leaves \<open>openToRemote\<close> undefined; the radio's \<open>onChange={handleOpenToRemote}\<close>
  passes React's change event object, which becomes the hook's value.
\<close>

datatype remote_param = Remote_Undefined | Remote_Event

record industry_count = industry +
  ic_company_count :: int

record browse_params =
  bp_name :: string
  bp_vacancy_name :: string
  bp_vacancy_city :: string
  bp_vacancy_country :: string
  bp_industry_id :: jsval
  bp_startup_stage :: string
  bp_startup_size :: string
  bp_open_to_remote :: remote_param
  bp_sort_by :: string

record browse_view =
  b_search :: string
  b_location :: string
  b_shown :: "startup list"
  b_open_to_remote :: remote_param
  b_role :: jsval
  b_level :: string
  b_size :: string
  b_funding :: string
  b_industries :: "industry_count list"
  b_pending :: "(nat \<times> browse_params) list"
  b_next :: nat

definition browse_hooks :: "startup list \<Rightarrow> browse_view" where
  "browse_hooks cd =
     \<lparr>b_search = [], b_location = [], b_shown = cd, b_open_to_remote = Remote_Undefined,
      b_role = JStr [], b_level = [], b_size = [], b_funding = [], b_industries = [],
      b_pending = [], b_next = 0\<rparr>"

text \<open>The \<open>params\<close> object of \<open>companies()\<close> (lines 61--71).\<close>

definition browse_query :: "browse_view \<Rightarrow> browse_params" where
  "browse_query v =
     \<lparr>bp_name = b_search v, bp_vacancy_name = b_search v, bp_vacancy_city = b_location v,
      bp_vacancy_country = b_location v, bp_industry_id = b_role v, bp_startup_stage = b_level v,
      bp_startup_size = b_size v, bp_open_to_remote = b_open_to_remote v, bp_sort_by = ''desc''\<rparr>"

text \<open>\<open>companies()\<close> sends the query of the render it was created in.\<close>

definition companies :: "browse_view \<Rightarrow> browse_view \<Rightarrow> browse_view" where
  "companies closure v =
     v\<lparr>b_pending := b_pending v @ [(b_next v, browse_query closure)], b_next := Suc (b_next v)\<rparr>"

text \<open>
  Settling a companies request (lines 73--83): the list is replaced only when the status
  is exactly 200; another 2xx status is logged, a rejection is caught and logged.
\<close>

definition settle_companies :: "nat \<Rightarrow> startup list outcome \<Rightarrow> browse_view \<Rightarrow> browse_view" where
  "settle_companies n r v =
     (if n \<in> fst ` set (b_pending v)
      then let v' = v\<lparr>b_pending := filter (\<lambda>p. fst p \<noteq> n) (b_pending v)\<rparr> in
           (case axios_call r of
              Inl _ \<Rightarrow> v'
            | Inr (s, data) \<Rightarrow> if s = 200 then v'\<lparr>b_shown := data\<rparr> else v')
      else v)"

text \<open>
  \<open>fetchIndustries\<close> (lines 28--58): the industries when the status is exactly 200, each
  extended (\<open>{...industry, companyCount}\<close>) with \<open>data.total\<close> of its count request or
  with 0 when that request fails; \<open>Promise.all\<close> keeps the order of the list.
\<close>

definition with_count :: "int outcome \<Rightarrow> industry \<Rightarrow> industry_count" where
  "with_count r x =
     \<lparr>ind_id = ind_id x, ind_name = ind_name x,
      ic_company_count = (case axios_call r of Inl _ \<Rightarrow> 0 | Inr (_, t) \<Rightarrow> t)\<rparr>"

definition fetch_industries ::
  "industry list outcome \<Rightarrow> (entity_id \<Rightarrow> int outcome) \<Rightarrow> browse_view \<Rightarrow> browse_view" where
  "fetch_industries r srv v =
     (case axios_call r of
        Inl _ \<Rightarrow> v
      | Inr (s, data) \<Rightarrow>
          if s = 200 then v\<lparr>b_industries := map (\<lambda>x. with_count (srv (ind_id x)) x) data\<rparr>
          else v)"

datatype browse_event =
    B_Type_Search string
  | B_Type_Location string
  | B_Click_Search
  | B_Pick_Industry entity_id
  | B_Pick_Stage string
  | B_Pick_Size string
  | B_Pick_Remote
  | B_Pick_Funding string
  | B_Clear_Filters
  | B_Companies_Response nat "startup list outcome"
  | B_Industries_Loaded "industry list outcome" "entity_id \<Rightarrow> int outcome"

text \<open>The dependency list of the companies effect (line 22).\<close>

definition browse_deps :: "browse_view \<Rightarrow> string \<times> string \<times> jsval \<times> string \<times> string \<times> string" where
  "browse_deps v = (b_search v, b_location v, b_role v, b_level v, b_size v, b_funding v)"

text \<open>
  The handlers: the inputs' \<open>onChange\<close>, \<open>handleSearch\<close> (which calls \<open>companies()\<close>),
  \<open>handleRoleFilter(industry.id)\<close>, \<open>handleLevelFilter\<close>, \<open>handleJobTypeFilter\<close>,
  \<open>handleOpenToRemote\<close>, the funding radios' \<open>setSelectedFunding\<close>, and
  \<open>handleClearFilters\<close>, which puts back the static list and leaves \<open>openToRemote\<close>.
  The boolean says whether the handler itself calls \<open>companies()\<close>.
\<close>

fun browse_handler :: "startup list \<Rightarrow> browse_event \<Rightarrow> browse_view \<Rightarrow> browse_view \<times> bool" where
  "browse_handler cd (B_Type_Search s) v = (v\<lparr>b_search := s\<rparr>, False)"
| "browse_handler cd (B_Type_Location s) v = (v\<lparr>b_location := s\<rparr>, False)"
| "browse_handler cd B_Click_Search v = (v, True)"
| "browse_handler cd (B_Pick_Industry i) v = (v\<lparr>b_role := JNum i\<rparr>, False)"
| "browse_handler cd (B_Pick_Stage l) v = (v\<lparr>b_level := l\<rparr>, False)"
| "browse_handler cd (B_Pick_Size t) v = (v\<lparr>b_size := t\<rparr>, False)"
| "browse_handler cd B_Pick_Remote v = (v\<lparr>b_open_to_remote := Remote_Event\<rparr>, False)"
| "browse_handler cd (B_Pick_Funding f) v = (v\<lparr>b_funding := f\<rparr>, False)"
| "browse_handler cd B_Clear_Filters v =
     (v\<lparr>b_role := JStr [], b_level := [], b_search := [], b_location := [], b_size := [],
        b_funding := [], b_shown := cd\<rparr>, False)"
| "browse_handler cd _ v = (v, False)"

definition browse_user_step :: "startup list \<Rightarrow> browse_view \<Rightarrow> browse_event \<Rightarrow> browse_view" where
  "browse_user_step cd v e =
     (let (v1, calls) = browse_handler cd e v;
          v2 = (if calls then companies v v1 else v1)
      in if browse_deps v2 \<noteq> browse_deps v then companies v2 v2 else v2)"

fun browse_step :: "startup list \<Rightarrow> browse_view \<Rightarrow> browse_event \<Rightarrow> browse_view" where
  "browse_step cd v (B_Companies_Response n r) = settle_companies n r v"
| "browse_step cd v (B_Industries_Loaded r srv) = fetch_industries r srv v"
| "browse_step cd v e = browse_user_step cd v e"

text \<open>Mounting runs the companies effect once with the initial hooks.\<close>

definition browse_mount :: "startup list \<Rightarrow> browse_view" where
  "browse_mount cd = companies (browse_hooks cd) (browse_hooks cd)"

text \<open>
  The values \<open>selectedRole\<close> takes: the initial \<open>''\<close> or an industry's numeric id, so that
  the radio's \<open>checked={selectedRole === industry.id}\<close> compares numbers.
\<close>

fun is_role_value :: "jsval \<Rightarrow> bool" where
  "is_role_value (JStr s) = (s = [])"
| "is_role_value (JNum i) = True"
| "is_role_value _ = False"

inductive browse_reachable :: "startup list \<Rightarrow> browse_view \<Rightarrow> bool" for cd where
  mount: "browse_reachable cd (browse_mount cd)"
| step: "browse_reachable cd v \<Longrightarrow> browse_reachable cd (browse_step cd v e)"

subsection \<open>Functions defined but not called\<close>

text \<open>
  Browse.jsx defines \<open>keywords\<close> (lines 105--115), \<open>calculateJobCounts\<close> (lines
  117--132) and \<open>handleRemoteFilter\<close> (lines 146--150) but no markup or effect calls
  them, so they are not part of \<open>browse_step\<close>. \<open>calculateJobCounts\<close> starts every
  keyword at 0 and, for each entry of \<open>Companies.json\<close> and each keyword, increments
  the keyword's count when the lower-cased job title includes the lower-cased keyword.
\<close>

definition browse_keywords :: "string list" where
  "browse_keywords =
     [''Advertising'', ''Agriculture'', ''Blockchain'', ''Consumer Goods'', ''Education'',
      ''Energy & Greentech'', ''Fintech'', ''Food & Beverage'', ''Healthcare'']"

definition title_matches :: "startup \<Rightarrow> string \<Rightarrow> bool" where
  "title_matches j k \<longleftrightarrow> js_includes (js_to_lower (st_job_title j)) (js_to_lower k)"

definition bump :: "string \<Rightarrow> (string \<times> int) list \<Rightarrow> (string \<times> int) list" where
  "bump k acc = map (\<lambda>(k', n). if k' = k then (k', n + 1) else (k', n)) acc"

definition calculate_job_counts :: "startup list \<Rightarrow> (string \<times> int) list" where
  "calculate_job_counts cd =
     foldl (\<lambda>acc j. foldl (\<lambda>acc k. if title_matches j k then bump k acc else acc) acc browse_keywords)
       (map (\<lambda>k. (k, 0)) browse_keywords) cd"

text \<open>The reference: a keyword's count is the number of entries whose title matches it.\<close>

definition keyword_count :: "startup list \<Rightarrow> string \<Rightarrow> int" where
  "keyword_count cd k = int (length (filter (\<lambda>j. title_matches j k) cd))"

definition browse_remote_filter :: "browse_view \<Rightarrow> browse_view" where
  "browse_remote_filter v = v\<lparr>b_shown := filter (\<lambda>j. st_remote_status j = ''Remote OK'') (b_shown v)\<rparr>"

subsection \<open>Properties\<close>

definition browse_inv :: "browse_view \<Rightarrow> bool" where
  "browse_inv v \<longleftrightarrow> distinct (map fst (b_pending v)) \<and> (\<forall>n \<in> fst ` set (b_pending v). n < b_next v)"

lemma companies_fields [simp]:
  "b_pending (companies c v) = b_pending v @ [(b_next v, browse_query c)]"
  "b_next (companies c v) = Suc (b_next v)"
  "b_shown (companies c v) = b_shown v"
  "b_industries (companies c v) = b_industries v"
  "browse_deps (companies c v) = browse_deps v"
  "b_open_to_remote (companies c v) = b_open_to_remote v"
  by (simp_all add: companies_def browse_deps_def)

lemma companies_inv: "browse_inv v \<Longrightarrow> browse_inv (companies c v)"
  by (auto simp: browse_inv_def)

lemma browse_handler_frame:
  "browse_handler cd e v = (v', calls) \<Longrightarrow> b_pending v' = b_pending v \<and> b_next v' = b_next v"
  by (cases e) auto

lemma browse_user_step_inv: "browse_inv v \<Longrightarrow> browse_inv (browse_user_step cd v e)"
proof -
  assume inv: "browse_inv v"
  obtain v1 calls where h: "browse_handler cd e v = (v1, calls)" by fastforce
  with inv have "browse_inv v1" using browse_handler_frame [OF h] by (simp add: browse_inv_def)
  then have "browse_inv (if calls then companies v v1 else v1)" by (simp add: companies_inv)
  then show ?thesis by (simp add: browse_user_step_def h Let_def companies_inv)
qed

lemma settle_companies_inv: "browse_inv v \<Longrightarrow> browse_inv (settle_companies n r v)"
  by (auto simp: settle_companies_def browse_inv_def Let_def distinct_map_filter
           split: sum.split prod.split)

lemma fetch_industries_frame [simp]:
  "b_pending (fetch_industries r srv v) = b_pending v"
  "b_next (fetch_industries r srv v) = b_next v"
  "b_shown (fetch_industries r srv v) = b_shown v"
  by (simp_all add: fetch_industries_def split: sum.split prod.split)

lemma browse_step_inv:
  assumes "browse_inv v"
  shows "browse_inv (browse_step cd v e)"
proof (cases e)
  case (B_Companies_Response n r)
  with assms show ?thesis by (simp add: settle_companies_inv)
next
  case (B_Industries_Loaded r srv)
  with assms show ?thesis by (simp add: browse_inv_def)
qed (simp_all add: assms browse_user_step_inv)

lemma browse_mount_inv: "browse_inv (browse_mount cd)"
  by (simp add: browse_mount_def browse_inv_def browse_hooks_def)

text \<open>
  In every reachable state of the startup directory the companies requests in flight
  carry distinct numbers, all below the next number to be issued: each response settles
  exactly the request it answers, whatever the order of arrival.
\<close>
theorem browse_request_bookkeeping:
  "browse_reachable cd v \<Longrightarrow> browse_inv v"
  by (induction rule: browse_reachable.induct) (simp_all add: browse_mount_inv browse_step_inv)

lemma browse_query_funding [simp]: "browse_query (v\<lparr>b_funding := f\<rparr>) = browse_query v"
  by (simp add: browse_query_def)

text \<open>
  Choosing a funding option sends a companies request although the funding is not a
  request parameter: \<open>selectedFunding\<close> is in the effect's dependency list, so the request
  repeats the query already sent and nothing else changes.
\<close>
theorem funding_resends_same_query:
  "b_funding v \<noteq> f \<Longrightarrow>
   browse_step cd v (B_Pick_Funding f) =
     v\<lparr>b_funding := f, b_pending := b_pending v @ [(b_next v, browse_query v)], b_next := Suc (b_next v)\<rparr>"
  by (simp add: browse_user_step_def browse_deps_def companies_def)

text \<open>
  C30: The "Open to remote" radio sends no request (\<open>openToRemote\<close> is not a dependency
  of the effect) and stores React's change event as the parameter's value: the next
  request carries that object as \<open>openToRemote\<close>, never a boolean.
\<close>
theorem open_to_remote_sends_event_object:
  "browse_step cd v B_Pick_Remote = v\<lparr>b_open_to_remote := Remote_Event\<rparr> \<and>
   snd (last (b_pending (browse_step cd (browse_step cd v B_Pick_Remote) B_Click_Search))) =
     (browse_query v)\<lparr>bp_open_to_remote := Remote_Event\<rparr>"
  by (simp add: browse_user_step_def browse_deps_def companies_def browse_query_def)

text \<open>
  Clear puts back the static company list, empties the six filter hooks and keeps the
  remote choice; it sends a request for the cleared query exactly when some filter was
  set, and that request still carries the remote choice.
\<close>
theorem browse_clear_filters:
  "let v' = browse_step cd v B_Clear_Filters;
       cleared = browse_deps v = ([], [], JStr [], [], [], [])
   in b_shown v' = cd \<and> b_open_to_remote v' = b_open_to_remote v \<and>
      b_pending v' = (if cleared then b_pending v
                      else b_pending v @ [(b_next v, \<lparr>bp_name = [], bp_vacancy_name = [],
                             bp_vacancy_city = [], bp_vacancy_country = [], bp_industry_id = JStr [],
                             bp_startup_stage = [], bp_startup_size = [],
                             bp_open_to_remote = b_open_to_remote v, bp_sort_by = ''desc''\<rparr>)])"
  by (auto simp: browse_user_step_def browse_deps_def companies_def browse_query_def Let_def)

text \<open>
  A companies response replaces the list only when its status is exactly 200; any
  other status, 2xx included, and a failed request leave the list as it was. In every
  case the request is no longer in flight.
\<close>
theorem companies_response_strict_200:
  "n \<in> fst ` set (b_pending v) \<Longrightarrow>
   b_shown (browse_step cd v (B_Companies_Response n r)) =
     (case r of Reply s data \<Rightarrow> if s = 200 then data else b_shown v | Network_Failure \<Rightarrow> b_shown v) \<and>
   b_pending (browse_step cd v (B_Companies_Response n r)) = filter (\<lambda>p. fst p \<noteq> n) (b_pending v)"
  by (cases r) (auto simp: settle_companies_def axios_call_def status_2xx_def Let_def)

text \<open>
  When the industries request returns status 200, the industries are shown in the
  order received, each with the total of its own count request, or 0 when that request
  failed: one failed count does not affect the others.
\<close>
theorem industries_with_counts:
  assumes "r = Reply 200 data"
  shows "map ind_id (b_industries (browse_step cd v (B_Industries_Loaded r srv))) = map ind_id data \<and>
         map ind_name (b_industries (browse_step cd v (B_Industries_Loaded r srv))) = map ind_name data \<and>
         (\<forall>k < length data. ic_company_count (b_industries (browse_step cd v (B_Industries_Loaded r srv)) ! k) =
            (case srv (ind_id (data ! k)) of
               Reply s t \<Rightarrow> if status_2xx s then t else 0
             | Network_Failure \<Rightarrow> 0))"
  using assms
  by (auto simp: fetch_industries_def with_count_def axios_call_def status_2xx_def comp_def
           split: outcome.split)

theorem browse_request_bookkeeping_witness:
  "browse_inv (browse_step [] (browse_mount []) (B_Pick_Funding ''Looking for funding''))"
  by (rule browse_request_bookkeeping [OF browse_reachable.step [OF browse_reachable.mount]])

theorem funding_resends_same_query_witness:
  "browse_step [] (browse_hooks []) (B_Pick_Funding ''Looking for funding'') =
     (browse_hooks [])\<lparr>b_funding := ''Looking for funding'',
        b_pending := [(0, browse_query (browse_hooks []))], b_next := 1\<rparr>"
  using funding_resends_same_query [of "browse_hooks []" "''Looking for funding''" "[]"]
  by (simp add: browse_hooks_def)

theorem companies_response_strict_200_witness:
  "b_shown (browse_step [] (browse_mount [])
      (B_Companies_Response 0 (Reply 204 [\<lparr>st_id = 1, st_name = ''Acme'', st_logo = '''',
          st_description = '''', st_job_count = 3, st_job_title = '''', st_remote_status = ''''\<rparr>]))) = [] \<and>
   b_pending (browse_step [] (browse_mount [])
      (B_Companies_Response 0 (Reply 204 [\<lparr>st_id = 1, st_name = ''Acme'', st_logo = '''',
          st_description = '''', st_job_count = 3, st_job_title = '''', st_remote_status = ''''\<rparr>]))) = []"
  using companies_response_strict_200 [of 0 "browse_mount []" "[]"
      "Reply 204 [\<lparr>st_id = 1, st_name = ''Acme'', st_logo = '''', st_description = '''', st_job_count = 3, st_job_title = '''', st_remote_status = ''''\<rparr>]"]
  by (simp add: browse_mount_def browse_hooks_def)

theorem industries_with_counts_witness:
  "ic_company_count (b_industries (browse_step [] (browse_hooks [])
      (B_Industries_Loaded (Reply 200 [\<lparr>ind_id = 1, ind_name = ''Fintech''\<rparr>, \<lparr>ind_id = 2, ind_name = ''Energy''\<rparr>])
         (\<lambda>i. if i = 1 then Reply 200 12 else Network_Failure))) ! 1) = 0"
proof -
  have "\<forall>k < 2. ic_company_count (b_industries (browse_step [] (browse_hooks [])
      (B_Industries_Loaded (Reply 200 [\<lparr>ind_id = 1, ind_name = ''Fintech''\<rparr>, \<lparr>ind_id = 2, ind_name = ''Energy''\<rparr>])
         (\<lambda>i. if i = 1 then Reply 200 12 else Network_Failure))) ! k) =
      (case (\<lambda>i. if i = 1 then Reply 200 12 else Network_Failure)
              (ind_id ([\<lparr>ind_id = 1, ind_name = ''Fintech''\<rparr>, \<lparr>ind_id = 2, ind_name = ''Energy''\<rparr>] ! k)) of
         Reply s t \<Rightarrow> if status_2xx s then t else 0 | Network_Failure \<Rightarrow> (0::int))"
    using industries_with_counts [of "Reply 200 [\<lparr>ind_id = 1, ind_name = ''Fintech''\<rparr>, \<lparr>ind_id = 2, ind_name = ''Energy''\<rparr>]"
        "[\<lparr>ind_id = 1, ind_name = ''Fintech''\<rparr>, \<lparr>ind_id = 2, ind_name = ''Energy''\<rparr>]" "[]" "browse_hooks []"
        "\<lambda>i. if i = 1 then Reply 200 12 else Network_Failure"]
    by simp
  then show ?thesis by (simp add: spec [of _ 1])
qed

lemma browse_handler_role:
  "is_role_value (b_role v) \<Longrightarrow> is_role_value (b_role (fst (browse_handler cd e v)))"
  by (cases e) simp_all

text \<open>
  C12: Typing of the role filter. In every reachable state of the startup directory
  \<open>selectedRole\<close> is the empty string or a number, and so is the \<open>industryId\<close> of every
  companies request in flight: the only writers are \<open>handleRoleFilter(industry.id)\<close>
  and Clear.
\<close>
theorem browse_role_typed:
  "browse_reachable cd v \<Longrightarrow>
   is_role_value (b_role v) \<and> (\<forall>p \<in> set (b_pending v). is_role_value (bp_industry_id (snd p)))"
proof (induction rule: browse_reachable.induct)
  case mount
  then show ?case by (simp add: browse_mount_def browse_hooks_def browse_query_def companies_def)
next
  case (step v e)
  obtain v1 calls where h: "browse_handler cd e v = (v1, calls)" by fastforce
  have r1: "is_role_value (b_role v1)"
    using browse_handler_role [of v cd e] step.IH h by simp
  have p1: "\<forall>p \<in> set (b_pending v1). is_role_value (bp_industry_id (snd p))"
    using browse_handler_frame [OF h] step.IH by simp
  have u: "is_role_value (b_role (browse_user_step cd v e)) \<and>
           (\<forall>p \<in> set (b_pending (browse_user_step cd v e)). is_role_value (bp_industry_id (snd p)))"
    using r1 p1 step.IH by (auto simp: browse_user_step_def h Let_def companies_def browse_query_def)
  show ?case
  proof (cases e)
    case (B_Companies_Response n r)
    with step.IH show ?thesis
      by (auto simp: settle_companies_def Let_def split: sum.split prod.split)
  next
    case (B_Industries_Loaded r srv)
    with step.IH show ?thesis
      by (simp add: fetch_industries_def split: sum.split prod.split)
  qed (use u in simp_all)
qed

theorem browse_role_typed_witness:
  "is_role_value (b_role (browse_step [] (browse_mount []) (B_Pick_Industry 4))) \<and>
   map (\<lambda>p. is_role_value (bp_industry_id (snd p)))
     (b_pending (browse_step [] (browse_mount []) (B_Pick_Industry 4))) = [True, True]"
  using browse_role_typed [OF browse_reachable.step [OF browse_reachable.mount], of "[]" "B_Pick_Industry 4"]
  by (simp add: browse_mount_def browse_hooks_def companies_def browse_user_step_def browse_deps_def)

lemma bump_map: "bump k (map (\<lambda>k'. (k', g k')) ks) = map (\<lambda>k'. (k', if k' = k then g k' + 1 else g k')) ks"
  by (induction ks) (auto simp: bump_def)

lemma keyword_loop:
  "distinct ls \<Longrightarrow>
   foldl (\<lambda>acc k. if title_matches j k then bump k acc else acc) (map (\<lambda>k'. (k', g k')) ks) ls =
   map (\<lambda>k'. (k', g k' + (if k' \<in> set ls \<and> title_matches j k' then 1 else 0))) ks"
proof (induction ls arbitrary: g)
  case (Cons l ls)
  let ?g = "\<lambda>k'. if k' = l \<and> title_matches j l then g k' + 1 else g k'"
  have "(if title_matches j l then bump l (map (\<lambda>k'. (k', g k')) ks) else map (\<lambda>k'. (k', g k')) ks) =
        map (\<lambda>k'. (k', ?g k')) ks"
    by (auto simp: bump_map)
  with Cons show ?case by auto
qed simp

text \<open>
  C35: Browse.jsx, \<open>calculateJobCounts\<close>: the nested loop of increments computes, for each
  keyword in order, the number of entries of \<open>Companies.json\<close> whose job title contains
  the keyword, ignoring ASCII case.
\<close>

theorem calculate_job_counts_eq:
  "calculate_job_counts cd = map (\<lambda>k. (k, keyword_count cd k)) browse_keywords"
proof -
  have d: "distinct browse_keywords" by (simp add: browse_keywords_def)
  have "foldl (\<lambda>acc j. foldl (\<lambda>acc k. if title_matches j k then bump k acc else acc) acc browse_keywords)
          (map (\<lambda>k. (k, g k)) browse_keywords) cd =
        map (\<lambda>k. (k, g k + keyword_count cd k)) browse_keywords" for g
  proof (induction cd arbitrary: g)
    case (Cons j cd)
    show ?case
      using Cons [of "\<lambda>k. g k + (if k \<in> set browse_keywords \<and> title_matches j k then 1 else 0)"]
      by (simp add: keyword_loop [OF d] keyword_count_def algebra_simps)
  qed (simp add: keyword_count_def)
  from this [of "\<lambda>_. 0"] show ?thesis by (simp add: calculate_job_counts_def)
qed

end
