(* ===== verification/Applications.thy ===== *)
theory Applications
  imports Complex_Main Json
begin

text \<open>
  The company's applicant list Pages/ApplicantList.tsx. The screen holds the fetched
  applications, the selected one (shown in a detail pane), the search text and the
  filter. An effect on \<open>[filterOption, searchTerm]\<close> requests
  \<open>/applications?\<close> followed by a \<open>URLSearchParams\<close> query; a status change sends a
  \<open>PUT\<close> for the selected application and, when it succeeds, writes the new status into
  the selected record and into the list. Requests settle in any order, each as an event
  of its own; a status request remembers the application it was sent for, as the
  handler's closure does.
\<close>

record application =
  app_id :: entity_id
  app_vacancy_id :: entity_id
  app_first_name :: string
  app_email :: string
  app_phone :: string
  app_status :: string
  app_job_title :: string
  app_linkedin :: string
  app_cv_link :: "string option"
  app_created_at :: string

datatype filter_option = Newest | Oldest | Submitted | Reviewed | Interview | Offer

text \<open>\<open>filterOption.toLowerCase()\<close> for the four status options.\<close>

fun filter_status :: "filter_option \<Rightarrow> string" where
  "filter_status Submitted = ''submitted''"
| "filter_status Reviewed = ''reviewed''"
| "filter_status Interview = ''interview''"
| "filter_status Offer = ''offer''"
| "filter_status Newest = ''newest''"
| "filter_status Oldest = ''oldest''"

text \<open>The parameters appended in \<open>fetchApplications\<close> (lines 72--85).\<close>

definition applications_params :: "filter_option \<Rightarrow> string \<Rightarrow> (string \<times> string) list" where
  "applications_params f s =
     (if f = Newest \<or> f = Oldest then [(''sort_order'', if f = Newest then ''desc'' else ''asc'')]
      else [(''status'', filter_status f)]) @
     (if s \<noteq> [] then [(''search'', s)] else [])"

definition applications_url :: "filter_option \<Rightarrow> string \<Rightarrow> string" where
  "applications_url f s = ''/applications?'' @ serialize_params (applications_params f s)"

text \<open>
  The body of the status request (lines 116--118): the object
  \<open>{body: JSON.stringify({status: newStatus})}\<close>, itself serialized as JSON by axios.
\<close>

definition status_request_body :: "string \<Rightarrow> (string \<times> string) list" where
  "status_request_body st =
     [(''body'', CHR ''{'' # json_string ''status'' @ CHR '':'' # json_string st @ ''}'')]"

text \<open>\<open>getStageProgress\<close> (lines 146--150) with \<open>Array.prototype.indexOf\<close>.\<close>

fun index_of :: "'a list \<Rightarrow> 'a \<Rightarrow> int" where
  "index_of [] x = -1"
| "index_of (y # ys) x = (if y = x then 0 else let i = index_of ys x in if i < 0 then -1 else i + 1)"

definition stages :: "string list" where
  "stages = [''submitted'', ''reviewed'', ''interview'', ''offer'']"

definition stage_progress :: "string \<Rightarrow> rat" where
  "stage_progress st = (of_int (index_of stages st + 1) / of_nat (length stages)) * 100"

record applicants_view =
  ap_applications :: "application list"
  ap_selected :: "application option"
  ap_search :: string
  ap_filter :: filter_option
  ap_mobile_detail :: bool
  ap_fetches :: "(nat \<times> string) list"
  ap_status_reqs :: "(nat \<times> application \<times> string) list"
  ap_next :: nat

definition applicants_hooks :: applicants_view where
  "applicants_hooks =
     \<lparr>ap_applications = [], ap_selected = None, ap_search = [], ap_filter = Newest,
      ap_mobile_detail = False, ap_fetches = [], ap_status_reqs = [], ap_next = 0\<rparr>"

definition fetch_applications :: "applicants_view \<Rightarrow> applicants_view" where
  "fetch_applications v =
     v\<lparr>ap_fetches := ap_fetches v @ [(ap_next v, applications_url (ap_filter v) (ap_search v))],
       ap_next := Suc (ap_next v)\<rparr>"

text \<open>
  A settled list request (lines 87--96): the list is replaced and the first application
  selected when there is one; an empty result keeps the previous selection. A rejection
  is rethrown out of the effect and changes nothing.
\<close>

definition settle_applications :: "nat \<Rightarrow> application list outcome \<Rightarrow> applicants_view \<Rightarrow> applicants_view" where
  "settle_applications n r v =
     (if n \<in> fst ` set (ap_fetches v)
      then let v' = v\<lparr>ap_fetches := filter (\<lambda>p. fst p \<noteq> n) (ap_fetches v)\<rparr> in
           (case axios_call r of
              Inl _ \<Rightarrow> v'
            | Inr (_, apps) \<Rightarrow>
                if apps \<noteq> [] then v'\<lparr>ap_applications := apps, ap_selected := Some (hd apps)\<rparr>
                else v'\<lparr>ap_applications := apps\<rparr>)
      else v)"

text \<open>
  \<open>handleStatusChange\<close> (lines 113--144): nothing without a selection; otherwise the request
  for the selected application. Its continuation writes the status into the application
  the handler saw, \<open>{...selectedApplication, status}\<close>, and into the list entries with its
  id. The test \<open>!response.status\<close> cannot fire for a resolved axios request.
\<close>

definition change_status :: "string \<Rightarrow> applicants_view \<Rightarrow> applicants_view" where
  "change_status st v =
     (case ap_selected v of
        None \<Rightarrow> v
      | Some a \<Rightarrow> v\<lparr>ap_status_reqs := ap_status_reqs v @ [(ap_next v, a, st)], ap_next := Suc (ap_next v)\<rparr>)"

definition status_path :: "application \<Rightarrow> string" where
  "status_path a = ''applications/'' @ int_to_string (app_id a)"

definition settle_status :: "nat \<Rightarrow> unit outcome \<Rightarrow> applicants_view \<Rightarrow> applicants_view" where
  "settle_status n r v =
     (case map_of (ap_status_reqs v) n of
        None \<Rightarrow> v
      | Some (a, st) \<Rightarrow>
          let v' = v\<lparr>ap_status_reqs := filter (\<lambda>p. fst p \<noteq> n) (ap_status_reqs v)\<rparr> in
          (case axios_call r of
             Inl _ \<Rightarrow> v'
           | Inr _ \<Rightarrow> v'\<lparr>ap_selected := Some (a\<lparr>app_status := st\<rparr>),
                         ap_applications := map_where (\<lambda>x. app_id x = app_id a)
                                              (\<lambda>x. x\<lparr>app_status := st\<rparr>) (ap_applications v)\<rparr>))"

datatype applicants_event =
    Ap_Type_Search string
  | Ap_Pick_Filter filter_option
  | Ap_Select application
  | Ap_Close_Detail
  | Ap_Change_Status string
  | Ap_List_Response nat "application list outcome"
  | Ap_Status_Response nat "unit outcome"

text \<open>
  One step: a handler, then the effect when \<open>filterOption\<close> or \<open>searchTerm\<close> changed.
\<close>

fun applicants_handler :: "applicants_event \<Rightarrow> applicants_view \<Rightarrow> applicants_view" where
  "applicants_handler (Ap_Type_Search s) v = v\<lparr>ap_search := s\<rparr>"
| "applicants_handler (Ap_Pick_Filter f) v = v\<lparr>ap_filter := f\<rparr>"
| "applicants_handler (Ap_Select a) v = v\<lparr>ap_selected := Some a, ap_mobile_detail := True\<rparr>"
| "applicants_handler Ap_Close_Detail v = v\<lparr>ap_mobile_detail := False\<rparr>"
| "applicants_handler (Ap_Change_Status st) v = change_status st v"
| "applicants_handler (Ap_List_Response n r) v = settle_applications n r v"
| "applicants_handler (Ap_Status_Response n r) v = settle_status n r v"

definition applicants_step :: "applicants_view \<Rightarrow> applicants_event \<Rightarrow> applicants_view" where
  "applicants_step v e =
     (let v1 = applicants_handler e v
      in if (ap_filter v1, ap_search v1) \<noteq> (ap_filter v, ap_search v) then fetch_applications v1 else v1)"

definition applicants_mount :: applicants_view where
  "applicants_mount = fetch_applications applicants_hooks"

subsection \<open>Properties\<close>

lemma index_of_bounds: "-1 \<le> index_of xs x \<and> index_of xs x < int (length xs)"
  by (induction xs) (auto simp: Let_def)

lemma index_of_neg [simp]: "index_of xs x < 0 \<longleftrightarrow> index_of xs x = -1"
  using index_of_bounds [of xs x] by arith

lemma index_of_neg_iff: "index_of xs x = -1 \<longleftrightarrow> x \<notin> set xs"
proof (induction xs)
  case Nil
  then show ?case by simp
next
  case (Cons y ys)
  have "-1 \<le> index_of ys x" using index_of_bounds [of ys x] by simp
  with Cons show ?case by (auto simp: Let_def)
qed

lemma map_of_applications_params:
  "map_of (applications_params f s) ''search'' = (if s = [] then None else Some s)"
  "map_of (applications_params f s) ''status'' =
     (if f = Newest \<or> f = Oldest then None else Some (filter_status f))"
  "map_of (applications_params f s) ''sort_order'' =
     (if f = Newest then Some ''desc'' else if f = Oldest then Some ''asc'' else None)"
  by (simp_all add: applications_params_def)

text \<open>
  A list response with no applications keeps the previous selection, which may then be
  an application that is not in the list.
\<close>

lemma settle_empty_keeps_selection:
  "n \<in> fst ` set (ap_fetches v) \<Longrightarrow> status_2xx s \<Longrightarrow>
   ap_selected (settle_applications n (Reply s []) v) = ap_selected v \<and>
   ap_applications (settle_applications n (Reply s []) v) = []"
  by (simp add: settle_applications_def axios_call_def)

text \<open>
  C32: The list request carries exactly the screen's filter and search text: parsing the
  query string of \<open>/applications?...\<close> back yields the search term unchanged for every
  string (spaces, \<open>&\<close>, \<open>=\<close>, \<open>+\<close>, \<open>%\<close> included) and absent when empty, the
  lower-cased status for a status filter, and \<open>desc\<close>/\<open>asc\<close> for Newest/Oldest.
\<close>
theorem applications_query_roundtrip:
  "let q = parse_params (drop (length ''/applications?'') (applications_url f s))
   in map_of q ''search'' = (if s = [] then None else Some s) \<and>
      map_of q ''status'' = (if f = Newest \<or> f = Oldest then None else Some (filter_status f)) \<and>
      map_of q ''sort_order'' = (if f = Newest then Some ''desc'' else if f = Oldest then Some ''asc'' else None)"
  by (simp add: applications_url_def urlsearchparams_roundtrip map_of_applications_params)

text \<open>
  C31: A status change answers into the application that was selected when it was sent:
  if the user selects another applicant while the request is in flight, the successful
  response switches the detail pane back to the first applicant (with the new status),
  and the list entry of the first applicant gets the new status.
\<close>
theorem status_response_restores_old_selection:
  assumes "ap_selected v = Some a" "ap_next v \<notin> fst ` set (ap_status_reqs v)" "status_2xx s"
  shows "let v3 = applicants_step (applicants_step (applicants_step v (Ap_Change_Status st)) (Ap_Select b))
                    (Ap_Status_Response (ap_next v) (Reply s ()))
         in ap_selected v3 = Some (a\<lparr>app_status := st\<rparr>) \<and>
            ap_applications v3 = map_where (\<lambda>x. app_id x = app_id a) (\<lambda>x. x\<lparr>app_status := st\<rparr>) (ap_applications v)"
proof -
  have "map_of (ap_status_reqs v) (ap_next v) = None"
    using assms(2) by (simp add: map_of_eq_None_iff)
  then have "map_of (ap_status_reqs v @ [(ap_next v, a, st)]) (ap_next v) = Some (a, st)"
    by (simp add: map_add_def)
  with assms show ?thesis
    by (simp add: applicants_step_def change_status_def settle_status_def axios_call_def Let_def)
qed

text \<open>
  The progress bar of the detail pane is between 0 and 100, and it is 0 exactly for a
  status outside the four stages (\<open>indexOf\<close> returns -1).
\<close>
theorem stage_progress_bounds:
  "0 \<le> stage_progress st \<and> stage_progress st \<le> 100 \<and> (stage_progress st = 0 \<longleftrightarrow> st \<notin> set stages)"
proof -
  have b: "-1 \<le> index_of stages st" "index_of stages st < 4"
    using index_of_bounds [of stages st] by (simp_all add: stages_def)
  have "stage_progress st = of_int (index_of stages st + 1) * 25"
    by (simp add: stage_progress_def stages_def)
  with b index_of_neg_iff [of stages st] show ?thesis by auto
qed

theorem status_response_restores_old_selection_witness:
  "ap_selected (applicants_step (applicants_step (applicants_step
      (applicants_hooks\<lparr>ap_selected := Some \<lparr>app_id = 1, app_vacancy_id = 9, app_first_name = ''Ann'',
          app_email = '''', app_phone = '''', app_status = ''submitted'', app_job_title = '''',
          app_linkedin = '''', app_cv_link = None, app_created_at = ''''\<rparr>\<rparr>)
      (Ap_Change_Status ''offer''))
      (Ap_Select \<lparr>app_id = 2, app_vacancy_id = 9, app_first_name = ''Bob'',
          app_email = '''', app_phone = '''', app_status = ''reviewed'', app_job_title = '''',
          app_linkedin = '''', app_cv_link = None, app_created_at = ''''\<rparr>))
      (Ap_Status_Response 0 (Reply 200 ()))) =
   Some \<lparr>app_id = 1, app_vacancy_id = 9, app_first_name = ''Ann'',
          app_email = '''', app_phone = '''', app_status = ''offer'', app_job_title = '''',
          app_linkedin = '''', app_cv_link = None, app_created_at = ''''\<rparr>"
  using status_response_restores_old_selection [of
      "applicants_hooks\<lparr>ap_selected := Some \<lparr>app_id = 1, app_vacancy_id = 9, app_first_name = ''Ann'',
          app_email = '''', app_phone = '''', app_status = ''submitted'', app_job_title = '''',
          app_linkedin = '''', app_cv_link = None, app_created_at = ''''\<rparr>\<rparr>"
      "\<lparr>app_id = 1, app_vacancy_id = 9, app_first_name = ''Ann'',
          app_email = '''', app_phone = '''', app_status = ''submitted'', app_job_title = '''',
          app_linkedin = '''', app_cv_link = None, app_created_at = ''''\<rparr>" 200 "''offer''"
      "\<lparr>app_id = 2, app_vacancy_id = 9, app_first_name = ''Bob'',
          app_email = '''', app_phone = '''', app_status = ''reviewed'', app_job_title = '''',
          app_linkedin = '''', app_cv_link = None, app_created_at = ''''\<rparr>"]
  by (simp add: applicants_hooks_def status_2xx_def Let_def)

theorem stage_progress_bounds_witness:
  "0 \<le> stage_progress ''rejected'' \<and> stage_progress ''rejected'' = 0"
  using stage_progress_bounds [of "''rejected''"] by (simp add: stages_def)

end
