(* ===== verification/AdminPages.thy ===== *)
theory AdminPages
  imports Applications
begin

text \<open>
  Three admin screens, each a fetch on mount and at most one form submission:
  Pages/Admin/VacancyEditAdmin.tsx (block or unblock a vacancy), Pages/Admin/BlogPage.tsx
  (the table of posts with its loading and error states) and Pages/Admin/BlogEditPage.tsx
  (edit a post and \<open>PUT\<close> it back as JSON, with \<open>json_object\<close> of theory Json).
\<close>

subsection \<open>VacancyEditAdmin.tsx\<close>

record blockable_vacancy =
  bv_is_blocked :: jsval
  bv_title :: string

definition vea_api :: string where
  "vea_api = ''http://127.0.0.1:8000/api/''"

text \<open>
  The effect on \<open>[vacancyId]\<close> (lines 26--44): the vacancy is requested only when the route
  parameter is present and non-empty; a failure shows a toast.
\<close>

definition vea_load ::
  "string option \<Rightarrow> (string \<Rightarrow> blockable_vacancy outcome) \<Rightarrow> blockable_vacancy option \<Rightarrow>
   blockable_vacancy option \<times> string list" where
  "vea_load route srv v =
     (case route of
        Some rid \<Rightarrow>
          if truthy (JStr rid) then
            let p = vea_api @ ''admin/vacancies/'' @ rid in
            (case axios_call (srv p) of Inl _ \<Rightarrow> (v, [p]) | Inr (_, d) \<Rightarrow> (Some d, [p]))
          else (v, [])
      | None \<Rightarrow> (v, []))"

text \<open>\<open>handleSwitchChange('isBlocked', checked)\<close> (lines 47--52).\<close>

definition vea_switch :: "bool \<Rightarrow> blockable_vacancy option \<Rightarrow> blockable_vacancy option" where
  "vea_switch checked v = map_option (\<lambda>x. x\<lparr>bv_is_blocked := JBool checked\<rparr>) v"

datatype vea_result = Vea_Invalid | Vea_Sent string "string option"

text \<open>
  \<open>handleSubmit\<close> (lines 54--97): without a vacancy or a route parameter nothing is sent;
  otherwise \<open>POST .../block\<close> or \<open>.../unblock\<close> after the truthiness of \<open>isBlocked\<close>, and a
  navigation to the vacancy's page when the status is exactly 200.
\<close>

definition vea_submit :: "string option \<Rightarrow> unit outcome \<Rightarrow> blockable_vacancy option \<Rightarrow> vea_result" where
  "vea_submit route r v =
     (case (v, route) of
        (Some x, Some rid) \<Rightarrow>
          if truthy (JStr rid) then
            let p = vea_api @ ''vacancies/'' @ rid @ (if truthy (bv_is_blocked x) then ''/block'' else ''/unblock'')
            in Vea_Sent p (case axios_call r of
                             Inl _ \<Rightarrow> None
                           | Inr (s, _) \<Rightarrow> if s = 200 then Some (''/admin/vacancies/'' @ rid) else None)
          else Vea_Invalid
      | _ \<Rightarrow> Vea_Invalid)"

text \<open>
  The render (lines 99--142): the vacancy's title, the "Block Vacancy" switch with
  \<open>checked={vacancy?.isBlocked}\<close> (\<open>undefined\<close>, so unchecked, until the vacancy is
  loaded), and the back link and Cancel button, both to the vacancy list.
\<close>

record vea_screen =
  vs_title :: string
  vs_blocked_switch :: jsval
  vs_back_path :: string
  vs_cancel_path :: string

definition vea_screen_of :: "blockable_vacancy option \<Rightarrow> vea_screen" where
  "vea_screen_of v =
     \<lparr>vs_title = (case v of Some x \<Rightarrow> bv_title x | None \<Rightarrow> []),
      vs_blocked_switch = (case v of Some x \<Rightarrow> bv_is_blocked x | None \<Rightarrow> JUndef),
      vs_back_path = ''/admin/vacancies'', vs_cancel_path = ''/admin/vacancies''\<rparr>"

subsection \<open>The admin blog record\<close>

record admin_blog =
  ab_id :: entity_id
  ab_title :: string
  ab_content :: string
  ab_is_active :: jsval
  ab_image_url :: string
  ab_category_id :: jsval
  ab_categories_name :: string
  ab_created_at :: string
  ab_updated_at :: string

text \<open>The properties of a post object, in the order of the \<open>Blog\<close> interface.\<close>

definition admin_blog_fields :: "admin_blog \<Rightarrow> (string \<times> jsval) list" where
  "admin_blog_fields b =
     [(''id'', JNum (ab_id b)), (''title'', JStr (ab_title b)), (''content'', JStr (ab_content b)),
      (''isActive'', ab_is_active b), (''imageUrl'', JStr (ab_image_url b)),
      (''categoryId'', ab_category_id b), (''categories_name'', JStr (ab_categories_name b)),
      (''createdAt'', JStr (ab_created_at b)), (''updatedAt'', JStr (ab_updated_at b))]"

subsection \<open>BlogPage.tsx\<close>

record blog_page_view =
  bpv_blogs :: "admin_blog list"
  bpv_loading :: bool
  bpv_error :: "string option"

definition blog_page_init :: blog_page_view where
  "blog_page_init = \<lparr>bpv_blogs = [], bpv_loading = True, bpv_error = None\<rparr>"

text \<open>\<open>fetchBlogs\<close> (lines 107--120): \<open>fetch\<close>, \<open>response.ok\<close>, and a message on any failure.\<close>

definition blog_page_load :: "admin_blog list outcome \<Rightarrow> blog_page_view \<Rightarrow> blog_page_view" where
  "blog_page_load r v =
     (case fetch_call r of
        Inr (s, data) \<Rightarrow>
          if status_2xx s then v\<lparr>bpv_blogs := data, bpv_loading := False\<rparr>
          else v\<lparr>bpv_error := Some ''An error occurred while fetching blogs'', bpv_loading := False\<rparr>
      | Inl _ \<Rightarrow> v\<lparr>bpv_error := Some ''An error occurred while fetching blogs'', bpv_loading := False\<rparr>)"

text \<open>
  \<open>BlogTableSkeleton\<close> (lines 21--48): the six column headers over five placeholder rows;
  \<open>BlogTable\<close> (lines 50--99): the same headers over one row per post. The created-at
  cell (\<open>format(new Date(...), 'PPP')\<close>) is date formatting and is not kept.
\<close>

definition blog_skeleton_headers :: "string list" where
  "blog_skeleton_headers = [''Image'', ''Title'', ''Category'', ''Active'', ''Created At'', ''Actions'']"

definition blog_skeleton_rows :: nat where
  "blog_skeleton_rows = length (replicate 5 ())"

definition blog_table_headers :: "string list" where
  "blog_table_headers = [''Image'', ''Title'', ''Category'', ''Active'', ''Created At'', ''Actions'']"

record blog_row =
  br_image :: string
  br_alt :: string
  br_title :: string
  br_category :: string
  br_active :: string
  br_edit_path :: string

definition active_label :: "jsval \<Rightarrow> string" where
  "active_label a = (if truthy a then ''Yes'' else ''No'')"

text \<open>A row: image and its alt text, title, category, \<open>isActive ? 'Yes' : 'No'\<close>, and the
  Edit button's \<open>navigate(`/admin/blogs/edit/${blog.id}`)\<close>.\<close>

definition blog_row_of :: "admin_blog \<Rightarrow> blog_row" where
  "blog_row_of b =
     \<lparr>br_image = ab_image_url b, br_alt = ab_title b, br_title = ab_title b,
      br_category = ab_categories_name b, br_active = active_label (ab_is_active b),
      br_edit_path = ''/admin/blogs/edit/'' @ int_to_string (ab_id b)\<rparr>"

datatype blog_table_screen =
    Table_Skeleton "string list" nat
  | Table_Error string
  | Table_Rows "string list" "blog_row list"

text \<open>The render (lines 125--136): skeleton while loading, else the error, else the table.\<close>

definition blog_page_render :: "blog_page_view \<Rightarrow> blog_table_screen" where
  "blog_page_render v =
     (if bpv_loading v then Table_Skeleton blog_skeleton_headers blog_skeleton_rows
      else case bpv_error v of
             Some e \<Rightarrow> Table_Error e
           | None \<Rightarrow> Table_Rows blog_table_headers (map blog_row_of (bpv_blogs v)))"

subsection \<open>BlogEditPage.tsx\<close>

record blog_edit_view =
  bev_blog :: "admin_blog option"
  bev_loading :: bool
  bev_saving :: bool
  bev_requests :: "string list"

definition blog_edit_init :: blog_edit_view where
  "blog_edit_init = \<lparr>bev_blog = None, bev_loading = True, bev_saving = False, bev_requests = []\<rparr>"

text \<open>\<open>fetchBlog\<close> (lines 33--51): the post on success, only the loading flag otherwise.\<close>

definition blog_edit_load :: "admin_blog outcome \<Rightarrow> blog_edit_view \<Rightarrow> blog_edit_view" where
  "blog_edit_load r v =
     (case fetch_call r of
        Inr (s, data) \<Rightarrow>
          if status_2xx s then v\<lparr>bev_blog := Some data, bev_loading := False\<rparr> else v\<lparr>bev_loading := False\<rparr>
      | Inl _ \<Rightarrow> v\<lparr>bev_loading := False\<rparr>)"

text \<open>
  \<open>handleInputChange\<close> (lines 87--90) for the form's four named inputs: every input
  delivers its value as a string, the number input of \<open>categoryId\<close> included.
  \<open>handleSwitchChange\<close> (lines 92--94) stores 1 or 0.
\<close>

definition blog_input_change :: "string \<Rightarrow> string \<Rightarrow> admin_blog \<Rightarrow> admin_blog" where
  "blog_input_change name value b =
     (if name = ''title'' then b\<lparr>ab_title := value\<rparr>
      else if name = ''content'' then b\<lparr>ab_content := value\<rparr>
      else if name = ''imageUrl'' then b\<lparr>ab_image_url := value\<rparr>
      else if name = ''categoryId'' then b\<lparr>ab_category_id := JStr value\<rparr>
      else b)"

definition blog_switch_change :: "bool \<Rightarrow> admin_blog \<Rightarrow> admin_blog" where
  "blog_switch_change checked b = b\<lparr>ab_is_active := JNum (if checked then 1 else 0)\<rparr>"

text \<open>The switch shows \<open>checked={blog.isActive === 1}\<close> (line 159).\<close>

definition switch_checked :: "admin_blog \<Rightarrow> bool" where
  "switch_checked b = strict_eq (ab_is_active b) (JNum 1)"

datatype blog_edit_event =
    Be_Loaded "admin_blog outcome"
  | Be_Input string string
  | Be_Switch bool
  | Be_Submit
  | Be_Save_Response nat "unit outcome"

text \<open>
  \<open>handleSubmit\<close> (lines 56--85) in two halves. The call sets \<open>isSaving\<close> and sends
  \<open>JSON.stringify(blog)\<close> (\<open>null\<close> before a post is loaded); every call's request stays in
  flight until it settles. A response settles one request in flight, the \<open>k\<close>-th: its
  \<open>finally\<close> clears \<open>isSaving\<close> whatever else is in flight, and it navigates to \<open>/blogs\<close>
  when \<open>response.ok\<close>. The navigation target is the second component.
\<close>

fun blog_edit_step :: "blog_edit_view \<Rightarrow> blog_edit_event \<Rightarrow> blog_edit_view \<times> string option" where
  "blog_edit_step v (Be_Loaded r) = (blog_edit_load r v, None)"
| "blog_edit_step v (Be_Input n x) = (v\<lparr>bev_blog := map_option (blog_input_change n x) (bev_blog v)\<rparr>, None)"
| "blog_edit_step v (Be_Switch c) = (v\<lparr>bev_blog := map_option (blog_switch_change c) (bev_blog v)\<rparr>, None)"
| "blog_edit_step v Be_Submit =
     (v\<lparr>bev_saving := True,
        bev_requests := bev_requests v @
          [case bev_blog v of Some b \<Rightarrow> json_object (admin_blog_fields b) | None \<Rightarrow> ''null'']\<rparr>, None)"
| "blog_edit_step v (Be_Save_Response k r) =
     (if k < length (bev_requests v)
      then (v\<lparr>bev_saving := False, bev_requests := take k (bev_requests v) @ drop (Suc k) (bev_requests v)\<rparr>,
            case fetch_call r of
              Inr (s, _) \<Rightarrow> if status_2xx s then Some ''/blogs'' else None
            | Inl _ \<Rightarrow> None)
      else (v, None))"

text \<open>
  The render (lines 96--200): skeletons while loading, the error card when no post was
  loaded, else the form with its fields, the switch, the Cancel button to
  \<open>/admin/blogs\<close>, and the submit button disabled and reading "Saving..." while a save
  is in flight. The two date cells are date formatting and are not kept.
\<close>

record blog_edit_form =
  bef_title :: string
  bef_content :: string
  bef_active_checked :: bool
  bef_image_url :: string
  bef_category_id :: jsval
  bef_cancel_path :: string
  bef_save_disabled :: bool
  bef_save_label :: string

datatype blog_edit_screen = Edit_Skeleton | Edit_Error | Edit_Form blog_edit_form

definition blog_edit_screen_of :: "blog_edit_view \<Rightarrow> blog_edit_screen" where
  "blog_edit_screen_of v =
     (if bev_loading v then Edit_Skeleton
      else case bev_blog v of
             None \<Rightarrow> Edit_Error
           | Some b \<Rightarrow> Edit_Form
               \<lparr>bef_title = ab_title b, bef_content = ab_content b, bef_active_checked = switch_checked b,
                bef_image_url = ab_image_url b, bef_category_id = ab_category_id b,
                bef_cancel_path = ''/admin/blogs'', bef_save_disabled = bev_saving v,
                bef_save_label = (if bev_saving v then ''Saving...'' else ''Save Changes'')\<rparr>)"

text \<open>
  What the value of an input shows: React renders \<open>null\<close> and \<open>undefined\<close> as an empty
  field, anything else as its string.
\<close>

definition input_value :: "jsval \<Rightarrow> string" where
  "input_value x = (case x of JUndef \<Rightarrow> [] | JNull \<Rightarrow> [] | _ \<Rightarrow> js_to_string x)"

text \<open>
  The form runs \<open>handleSubmit\<close> only through its submit button (line 197): the form is on
  screen, the button is not \<open>disabled={isSaving}\<close> (a disabled default button also blocks
  submission by Enter), and constraint validation passes, the inputs marked \<open>required\<close> being
  title, content and categoryId (lines 143, 153, 181).
\<close>

definition blog_edit_form_submits :: "blog_edit_view \<Rightarrow> bool" where
  "blog_edit_form_submits v \<longleftrightarrow>
     (case blog_edit_screen_of v of
        Edit_Form f \<Rightarrow> \<not> bef_save_disabled f \<and> bef_title f \<noteq> [] \<and> bef_content f \<noteq> [] \<and>
                       input_value (bef_category_id f) \<noteq> []
      | _ \<Rightarrow> False)"

text \<open>A step of the page: the user's submit goes through the form, every other event is direct.\<close>

definition blog_edit_ui_step :: "blog_edit_view \<Rightarrow> blog_edit_event \<Rightarrow> blog_edit_view \<times> string option" where
  "blog_edit_ui_step v e = (if e = Be_Submit \<and> \<not> blog_edit_form_submits v then (v, None) else blog_edit_step v e)"

text \<open>The states the edit page reaches from its initial state.\<close>

inductive blog_edit_reachable :: "blog_edit_view \<Rightarrow> bool" where
  init: "blog_edit_reachable blog_edit_init"
| step: "blog_edit_reachable v \<Longrightarrow> blog_edit_reachable (fst (blog_edit_ui_step v e))"

subsection \<open>Facts\<close>

lemma vea_submit_after_switch:
  assumes "rid \<noteq> []" "v \<noteq> None"
  shows "vea_submit (Some rid) r (vea_switch c v) =
           Vea_Sent (vea_api @ ''vacancies/'' @ rid @ (if c then ''/block'' else ''/unblock''))
             (case axios_call r of Inl _ \<Rightarrow> None
              | Inr (s, _) \<Rightarrow> if s = 200 then Some (''/admin/vacancies/'' @ rid) else None)"
  using assms by (auto simp: vea_submit_def vea_switch_def)

lemma vea_submit_invalid:
  "v = None \<or> route = None \<or> route = Some [] \<Longrightarrow> vea_submit route r v = Vea_Invalid"
  by (auto simp: vea_submit_def split: option.split)

lemma vea_load_requests:
  "snd (vea_load route srv v) = (case route of Some rid \<Rightarrow> if rid \<noteq> [] then [vea_api @ ''admin/vacancies/'' @ rid] else [] | None \<Rightarrow> [])"
  by (auto simp: vea_load_def Let_def split: option.split sum.split)

text \<open>
  VacancyEditAdmin.tsx, the switch and the request agree: before the vacancy is
  loaded the switch shows unchecked and "Save Changes" sends nothing; once it is loaded,
  Save posts to \<open>/block\<close> exactly when the switch shows checked, and to \<open>/unblock\<close>
  otherwise.
\<close>

theorem vea_switch_matches_request:
  assumes "rid \<noteq> []"
  shows "(v = None \<longrightarrow> vea_submit (Some rid) r v = Vea_Invalid \<and> \<not> truthy (vs_blocked_switch (vea_screen_of v))) \<and>
         (v \<noteq> None \<longrightarrow>
            (\<exists>nav. vea_submit (Some rid) r v =
                     Vea_Sent (vea_api @ ''vacancies/'' @ rid @
                                 (if truthy (vs_blocked_switch (vea_screen_of v)) then ''/block'' else ''/unblock''))
                              nav))"
  using assms by (cases v) (auto simp: vea_submit_def vea_screen_of_def Let_def)

theorem vea_switch_matches_request_witness:
  "vea_submit (Some ''9'') (Reply 200 ()) (vea_switch True (Some \<lparr>bv_is_blocked = JBool False, bv_title = ''Dev''\<rparr>)) =
     Vea_Sent (vea_api @ ''vacancies/9/block'') (Some ''/admin/vacancies/9'') \<and>
   truthy (vs_blocked_switch (vea_screen_of (vea_switch True (Some \<lparr>bv_is_blocked = JBool False, bv_title = ''Dev''\<rparr>))))"
  using vea_switch_matches_request [of "''9''" "vea_switch True (Some \<lparr>bv_is_blocked = JBool False, bv_title = ''Dev''\<rparr>)"
                                    "Reply 200 ()"]
  by (simp add: vea_switch_def vea_screen_of_def vea_submit_def axios_call_def status_2xx_def)

text \<open>
  BlogPage.tsx after its one request: the table with one row per post on a 2xx
  response, the error message on any other status or a transport failure, never the
  skeleton again; each row's Edit link carries the post's id, read back by \<open>parseInt\<close>.
\<close>

theorem blog_table_after_load:
  "blog_page_render (blog_page_load r blog_page_init) =
     (case r of
        Reply s data \<Rightarrow> if status_2xx s then Table_Rows blog_table_headers (map blog_row_of data)
                       else Table_Error ''An error occurred while fetching blogs''
      | Network_Failure \<Rightarrow> Table_Error ''An error occurred while fetching blogs'') \<and>
   parse_int (drop (length ''/admin/blogs/edit/'') (br_edit_path (blog_row_of b))) = JNum (ab_id b)"
  by (cases r) (simp_all add: blog_page_load_def blog_page_render_def blog_page_init_def blog_row_of_def
                              parse_int_int_to_string)

lemma blog_edit_loading_no_post:
  "blog_edit_reachable v \<Longrightarrow> bev_loading v \<longrightarrow> bev_blog v = None"
proof (induction rule: blog_edit_reachable.induct)
  case init
  then show ?case by (simp add: blog_edit_init_def)
next
  case (step v e)
  then show ?case
    by (cases e) (auto simp: blog_edit_ui_step_def blog_edit_load_def split: option.split sum.split prod.split)
qed

text \<open>
  C23: BlogEditPage.tsx never has two saves in flight: in every state the page reaches,
  whatever the order of clicks and responses, at most one PUT is pending, and the Save
  button is disabled exactly while it is. The disabled button keeps a second submit out
  while \<open>isSaving\<close> is set, and \<open>finally\<close> clears it when the request settles.
\<close>

theorem blog_edit_single_save:
  assumes "blog_edit_reachable v"
  shows "length (bev_requests v) \<le> 1 \<and> (bev_saving v \<longleftrightarrow> bev_requests v \<noteq> [])"
  using assms
proof (induction rule: blog_edit_reachable.induct)
  case init
  then show ?case by (simp add: blog_edit_init_def)
next
  case (step v e)
  show ?case
  proof (cases e)
    case Be_Submit
    then show ?thesis
    proof (cases "blog_edit_form_submits v")
      case True
      then have "\<not> bev_saving v"
        by (auto simp: blog_edit_form_submits_def blog_edit_screen_of_def split: if_splits option.splits)
      with step.IH True Be_Submit show ?thesis by (simp add: blog_edit_ui_step_def)
    next
      case False
      with step.IH Be_Submit show ?thesis by (simp add: blog_edit_ui_step_def)
    qed
  next
    case (Be_Save_Response k r)
    with step.IH show ?thesis by (auto simp: blog_edit_ui_step_def)
  qed (use step.IH in \<open>simp_all add: blog_edit_ui_step_def blog_edit_load_def split: sum.split prod.split\<close>)
qed

theorem blog_edit_single_save_witness:
  "let b = \<lparr>ab_id = 3, ab_title = ''Hello'', ab_content = ''Text'', ab_is_active = JNum 1, ab_image_url = [],
            ab_category_id = JNum 2, ab_categories_name = [], ab_created_at = [], ab_updated_at = []\<rparr>;
       v = fst (blog_edit_ui_step (fst (blog_edit_ui_step blog_edit_init (Be_Loaded (Reply 200 b)))) Be_Submit)
   in length (bev_requests v) \<le> 1 \<and> bev_saving v \<and> bev_requests v \<noteq> []"
proof -
  let ?b = "\<lparr>ab_id = 3, ab_title = ''Hello'', ab_content = ''Text'', ab_is_active = JNum 1, ab_image_url = [],
            ab_category_id = JNum 2, ab_categories_name = [], ab_created_at = [], ab_updated_at = []\<rparr>"
  let ?v = "fst (blog_edit_ui_step (fst (blog_edit_ui_step blog_edit_init (Be_Loaded (Reply 200 ?b)))) Be_Submit)"
  have r: "blog_edit_reachable ?v"
    by (intro blog_edit_reachable.step blog_edit_reachable.init)
  have "bev_saving ?v"
    by (simp add: blog_edit_ui_step_def blog_edit_form_submits_def blog_edit_screen_of_def blog_edit_load_def
                  blog_edit_init_def fetch_call_def status_2xx_def input_value_def int_to_string_def)
  with blog_edit_single_save [OF r] show ?thesis by (simp add: Let_def)
qed

lemma blog_edit_save_response:
  "k < length (bev_requests v) \<Longrightarrow>
   blog_edit_step v (Be_Save_Response k r) =
     (v\<lparr>bev_saving := False, bev_requests := take k (bev_requests v) @ drop (Suc k) (bev_requests v)\<rparr>,
      case r of Reply s _ \<Rightarrow> if status_2xx s then Some ''/blogs'' else None | Network_Failure \<Rightarrow> None)"
  by (cases r) simp_all

lemma blog_category_id_sent_as_string:
  "json_object (admin_blog_fields (blog_input_change ''categoryId'' ''5''
     \<lparr>ab_id = 3, ab_title = ''T'', ab_content = ''C'', ab_is_active = JNum 1, ab_image_url = '''',
      ab_category_id = JNum 5, ab_categories_name = ''Tech'', ab_created_at = '''', ab_updated_at = ''''\<rparr>)) =
   ''{\"id\":3,\"title\":\"T\",\"content\":\"C\",\"isActive\":1,\"imageUrl\":\"\",\"categoryId\":\"5\",\"categories_name\":\"Tech\",\"createdAt\":\"\",\"updatedAt\":\"\"}''"
  by code_simp

lemma active_label_switch_disagree:
  "active_label (JBool True) = ''Yes'' \<and> \<not> switch_checked (b\<lparr>ab_is_active := JBool True\<rparr>)"
  by (simp add: active_label_def switch_checked_def)

end
