(* ===== verification/Navigation.thy ===== *)
theory Navigation
  imports JsRuntime
begin

text \<open>
  The navigation bar Components/Navbar.jsx: the mobile menu's open flag, the document
  listener that closes it on a mouse press outside the bar, the two link lists and the
  buttons chosen from the signed-in user of \<open>AuthContext\<close>. The menu icon carries the
  class \<open>hidden\<close> while the menu is open, so it can only be clicked while closed.
\<close>

record nav_user =
  nu_token :: jsval
  nu_role :: string

definition desktop_links :: "(string \<times> string) list" where
  "desktop_links =
     [(''For Investor'', ''/investor''), (''For Startups'', ''/startups''), (''Find Jobs'', ''/jobs''),
      (''Browse Startups'', ''/browsestartups''), (''Seek Funding'', ''/seekfunding''),
      (''Company'', ''/companies'')]"

definition mobile_links :: "(string \<times> string) list" where
  "mobile_links =
     [(''For Investor'', ''/investor''), (''For Startups'', ''/startups''), (''Find Jobs'', ''/jobs''),
      (''Browse Startups'', ''/browsestartups''), (''Seek Funding'', ''/seekfunding''),
      (''Company'', ''/company'')]"

text \<open>The right-hand buttons (lines 55--67): \<open>user && user.token\<close> decides.\<close>

definition nav_buttons :: "nav_user option \<Rightarrow> (string \<times> string) list" where
  "nav_buttons u =
     (case u of
        Some usr \<Rightarrow>
          if truthy (nu_token usr)
          then [(''Dashboard'', if nu_role usr = ''company'' then ''/company/dashboard'' else ''/admin/dashboard'')]
          else [(''Log In'', ''/login''), (''Sign Up'', ''/register'')]
      | None \<Rightarrow> [(''Log In'', ''/login''), (''Sign Up'', ''/register'')])"

datatype nav_event = Click_Menu_Icon | Click_Link string | Mouse_Down_Outside | Mouse_Down_Inside

text \<open>
  \<open>toggleMenu\<close> on the icon, \<open>handleClickOutside\<close> on every \<open>mousedown\<close>
  (\<open>event.target.closest('.nav') === null\<close>); following a link is a press inside the bar
  and has no handler of its own.
\<close>

fun navbar_step :: "bool \<Rightarrow> nav_event \<Rightarrow> bool" where
  "navbar_step is_open Click_Menu_Icon = (if is_open then is_open else \<not> is_open)"
| "navbar_step is_open (Click_Link p) = is_open"
| "navbar_step is_open Mouse_Down_Outside = False"
| "navbar_step is_open Mouse_Down_Inside = is_open"

subsection \<open>Facts\<close>

lemma links_differ_only_at_company:
  "filter (\<lambda>(a, b). a \<noteq> b) (zip desktop_links mobile_links) =
     [((''Company'', ''/companies''), (''Company'', ''/company''))]"
  by (simp add: desktop_links_def mobile_links_def)

lemma menu_stays_open_after_link:
  "foldl navbar_step True (map Click_Link ps @ map (\<lambda>_. Mouse_Down_Inside) qs) = True"
proof -
  have "foldl navbar_step True (map Click_Link ps) = True" by (induction ps) simp_all
  moreover have "foldl navbar_step True (map (\<lambda>_. Mouse_Down_Inside) qs) = True" by (induction qs) simp_all
  ultimately show ?thesis by simp
qed

lemma only_outside_press_closes:
  "is_open \<Longrightarrow> \<not> navbar_step is_open e \<longleftrightarrow> e = Mouse_Down_Outside"
  by (cases e) simp_all

lemma nav_buttons_dashboard:
  "nav_buttons (Some u) = [(''Dashboard'', p)] \<longleftrightarrow>
     truthy (nu_token u) \<and> p = (if nu_role u = ''company'' then ''/company/dashboard'' else ''/admin/dashboard'')"
  by (auto simp: nav_buttons_def)

end
