(* ===== verification/VacancyForms.thy ===== *)
theory VacancyForms
  imports AdminCrud AdminPages
begin

text \<open>
  The company's vacancy forms Pages/AddVacancy.tsx (create) and Pages/VacancyEdit.tsx
  (edit), and the vocabulary the vacancy screens share: the country select, the job type
  and seniority values the forms store, the values FindJobs.jsx filters by, and the label
  maps of the detail screens. A form is a record of its fields; each handler is a
  function on it, the name-dispatched ones (\<open>[name]: value\<close>) by the names the markup
  passes. The request body of a submit is a list of properties (\<open>json_field\<close>).
\<close>

subsection \<open>Shared vocabulary\<close>

text \<open>\<open>countryMapping\<close>, identical in both forms (VacancyEdit.tsx lines 18--59).\<close>

definition country_mapping :: "(string \<times> string) list" where
  "country_mapping =
     [(''US'', ''United States''), (''AZ'', ''Azerbaijan''), (''UK'', ''United Kingdom''),
      (''CA'', ''Canada''), (''AU'', ''Australia''), (''DE'', ''Germany''),
      (''FR'', ''France''), (''ES'', ''Spain''), (''IT'', ''Italy''), (''BR'', ''Brazil''),
      (''IN'', ''India''), (''JP'', ''Japan''), (''CN'', ''China''), (''RU'', ''Russia''),
      (''MX'', ''Mexico''), (''ZA'', ''South Africa''), (''AR'', ''Argentina''),
      (''NG'', ''Nigeria''), (''AE'', ''United Arab Emirates''), (''TR'', ''Turkey''),
      (''SA'', ''Saudi Arabia''), (''NL'', ''Netherlands''), (''SE'', ''Sweden''),
      (''CH'', ''Switzerland''), (''BE'', ''Belgium''), (''AT'', ''Austria''),
      (''DK'', ''Denmark''), (''FI'', ''Finland''), (''NO'', ''Norway''),
      (''PL'', ''Poland''), (''PT'', ''Portugal''), (''GR'', ''Greece''),
      (''IE'', ''Ireland''), (''SG'', ''Singapore''), (''MY'', ''Malaysia''),
      (''TH'', ''Thailand''), (''PH'', ''Philippines''), (''ID'', ''Indonesia''),
      (''NZ'', ''New Zealand''), (''KR'', ''South Korea'')]"

text \<open>AddVacancy.tsx declares its own copy of the table (lines 148--189).\<close>

definition av_country_mapping :: "(string \<times> string) list" where
  "av_country_mapping =
     [(''US'', ''United States''), (''AZ'', ''Azerbaijan''), (''UK'', ''United Kingdom''),
      (''CA'', ''Canada''), (''AU'', ''Australia''), (''DE'', ''Germany''),
      (''FR'', ''France''), (''ES'', ''Spain''), (''IT'', ''Italy''), (''BR'', ''Brazil''),
      (''IN'', ''India''), (''JP'', ''Japan''), (''CN'', ''China''), (''RU'', ''Russia''),
      (''MX'', ''Mexico''), (''ZA'', ''South Africa''), (''AR'', ''Argentina''),
      (''NG'', ''Nigeria''), (''AE'', ''United Arab Emirates''), (''TR'', ''Turkey''),
      (''SA'', ''Saudi Arabia''), (''NL'', ''Netherlands''), (''SE'', ''Sweden''),
      (''CH'', ''Switzerland''), (''BE'', ''Belgium''), (''AT'', ''Austria''),
      (''DK'', ''Denmark''), (''FI'', ''Finland''), (''NO'', ''Norway''),
      (''PL'', ''Poland''), (''PT'', ''Portugal''), (''GR'', ''Greece''),
      (''IE'', ''Ireland''), (''SG'', ''Singapore''), (''MY'', ''Malaysia''),
      (''TH'', ''Thailand''), (''PH'', ''Philippines''), (''ID'', ''Indonesia''),
      (''NZ'', ''New Zealand''), (''KR'', ''South Korea'')]"

text \<open>\<open>countryMapping[value]\<close>: \<open>undefined\<close> for a code that is not a key.\<close>

definition country_of_code :: "(string \<times> string) list \<Rightarrow> string \<Rightarrow> jsval" where
  "country_of_code tbl c = (case map_of tbl c of Some n \<Rightarrow> JStr n | None \<Rightarrow> JUndef)"

text \<open>The select items of both forms and the filter values of FindJobs.jsx (lines 288--336).\<close>

definition form_job_types :: "string list" where
  "form_job_types = [''full-time'', ''part-time'', ''contract'', ''internship'']"

definition form_seniority_levels :: "string list" where
  "form_seniority_levels = [''intern'', ''junior'', ''middle'', ''senior'', ''lead'']"

definition search_job_types :: "string list" where
  "search_job_types = [''full-time'', ''contract'', ''intern'', ''part-time'']"

definition search_seniority_levels :: "string list" where
  "search_seniority_levels = [''junior'', ''mid-level'', ''senior'', ''lead'']"

text \<open>\<open>jobTypeLabels\<close> and \<open>seniorityLevelLabels\<close> (JobDetails.jsx lines 142--153, the same in VacancyViewAdmin.tsx).\<close>

definition job_type_labels :: "(string \<times> string) list" where
  "job_type_labels = [(''full-time'', ''Full-time''), (''part-time'', ''Part-time''), (''contract'', ''Contract'')]"

definition seniority_level_labels :: "(string \<times> string) list" where
  "seniority_level_labels =
     [(''junior'', ''Junior''), (''middle'', ''Middle''), (''senior'', ''Senior''), (''intern'', ''Intern'')]"

subsection \<open>Array fields\<close>

text \<open>
  \<open>prev[field].map((item, i) => i === index ? value : item)\<close>,
  \<open>[...prev[field], '']\<close> and \<open>prev[field].filter((_, i) => i !== index)\<close>.
\<close>

definition array_change :: "nat \<Rightarrow> string \<Rightarrow> string list \<Rightarrow> string list" where
  "array_change k x xs = map (\<lambda>(i, y). if i = k then x else y) (zip [0..<length xs] xs)"

definition array_add :: "string list \<Rightarrow> string list" where
  "array_add xs = xs @ [[]]"

definition array_remove :: "nat \<Rightarrow> string list \<Rightarrow> string list" where
  "array_remove k xs = map snd (filter (\<lambda>(i, y). i \<noteq> k) (zip [0..<length xs] xs))"

subsection \<open>AddVacancy.tsx\<close>

record vacancy_form =
  vf_title :: string
  vf_category_id :: string
  vf_is_remote :: bool
  vf_is_active :: bool
  vf_job_type :: string
  vf_seniority_level :: string
  vf_salary :: string
  vf_job_overview :: "string list"
  vf_city :: string
  vf_country :: jsval
  vf_description :: string
  vf_country_code :: string
  vf_state :: string
  vf_job_role :: "string list"
  vf_job_responsibilities :: "string list"
  vf_you_have_text :: "string list"
  vf_requirements :: "string list"

definition vacancy_form_init :: vacancy_form where
  "vacancy_form_init =
     \<lparr>vf_title = [], vf_category_id = [], vf_is_remote = False, vf_is_active = True, vf_job_type = [],
      vf_seniority_level = [], vf_salary = [], vf_job_overview = [[]], vf_city = [], vf_country = JStr [],
      vf_description = [], vf_country_code = [], vf_state = [], vf_job_role = [[]],
      vf_job_responsibilities = [[]], vf_you_have_text = [[]], vf_requirements = [[]]\<rparr>"

text \<open>\<open>handleInputChange\<close> (lines 38--41) for the named inputs of the form.\<close>

definition vf_input :: "string \<Rightarrow> string \<Rightarrow> vacancy_form \<Rightarrow> vacancy_form" where
  "vf_input name x f =
     (if name = ''title'' then f\<lparr>vf_title := x\<rparr>
      else if name = ''salary'' then f\<lparr>vf_salary := x\<rparr>
      else if name = ''state'' then f\<lparr>vf_state := x\<rparr>
      else if name = ''city'' then f\<lparr>vf_city := x\<rparr>
      else if name = ''description'' then f\<lparr>vf_description := x\<rparr>
      else f)"

text \<open>\<open>handleSelectChange\<close> (lines 43--63): the country select sets both country fields.\<close>

definition vf_select :: "string \<Rightarrow> string \<Rightarrow> vacancy_form \<Rightarrow> vacancy_form" where
  "vf_select name x f =
     (if name = ''country'' \<or> name = ''countryCode'' then f\<lparr>vf_country := country_of_code av_country_mapping x, vf_country_code := x\<rparr>
      else if name = ''categoryId'' then f\<lparr>vf_category_id := x\<rparr>
      else if name = ''jobType'' then f\<lparr>vf_job_type := x\<rparr>
      else if name = ''seniorityLevel'' then f\<lparr>vf_seniority_level := x\<rparr>
      else f)"

definition vf_switch :: "string \<Rightarrow> bool \<Rightarrow> vacancy_form \<Rightarrow> vacancy_form" where
  "vf_switch name c f =
     (if name = ''isRemote'' then f\<lparr>vf_is_remote := c\<rparr>
      else if name = ''isActive'' then f\<lparr>vf_is_active := c\<rparr> else f)"

datatype array_field = Job_Overview | Job_Role | Job_Responsibilities | You_Have_Text | Requirements

fun vf_array :: "array_field \<Rightarrow> vacancy_form \<Rightarrow> string list" where
  "vf_array Job_Overview f = vf_job_overview f"
| "vf_array Job_Role f = vf_job_role f"
| "vf_array Job_Responsibilities f = vf_job_responsibilities f"
| "vf_array You_Have_Text f = vf_you_have_text f"
| "vf_array Requirements f = vf_requirements f"

fun vf_set_array :: "array_field \<Rightarrow> string list \<Rightarrow> vacancy_form \<Rightarrow> vacancy_form" where
  "vf_set_array Job_Overview xs f = f\<lparr>vf_job_overview := xs\<rparr>"
| "vf_set_array Job_Role xs f = f\<lparr>vf_job_role := xs\<rparr>"
| "vf_set_array Job_Responsibilities xs f = f\<lparr>vf_job_responsibilities := xs\<rparr>"
| "vf_set_array You_Have_Text xs f = f\<lparr>vf_you_have_text := xs\<rparr>"
| "vf_set_array Requirements xs f = f\<lparr>vf_requirements := xs\<rparr>"

text \<open>\<open>handleArrayChange\<close>, \<open>addArrayItem\<close>, \<open>removeArrayItem\<close> (lines 69--88).\<close>

datatype vf_event =
    Vf_Input string string
  | Vf_Select string string
  | Vf_Switch string bool
  | Vf_Array_Change nat string array_field
  | Vf_Add_Item array_field
  | Vf_Remove_Item nat array_field

fun vf_step :: "vacancy_form \<Rightarrow> vf_event \<Rightarrow> vacancy_form" where
  "vf_step f (Vf_Input n x) = vf_input n x f"
| "vf_step f (Vf_Select n x) = vf_select n x f"
| "vf_step f (Vf_Switch n c) = vf_switch n c f"
| "vf_step f (Vf_Array_Change k x a) = vf_set_array a (array_change k x (vf_array a f)) f"
| "vf_step f (Vf_Add_Item a) = vf_set_array a (array_add (vf_array a f)) f"
| "vf_step f (Vf_Remove_Item k a) = vf_set_array a (array_remove k (vf_array a f)) f"

text \<open>
  The payload of \<open>handleSubmit\<close> (lines 95--113): \<open>countryCode\<close> is filled from
  \<open>formData.country\<close>; three of the five lists drop the items that trim to the empty string.
\<close>

definition non_blank :: "string list \<Rightarrow> string list" where
  "non_blank xs = filter (\<lambda>x. js_trim x \<noteq> []) xs"

definition add_vacancy_payload :: "vacancy_form \<Rightarrow> (string \<times> json_field) list" where
  "add_vacancy_payload f =
     [(''categoryId'', F_Val (JStr (vf_category_id f))), (''title'', F_Val (JStr (vf_title f))),
      (''isRemote'', F_Val (JBool (vf_is_remote f))), (''city'', F_Val (JStr (vf_city f))),
      (''state'', F_Val (JStr (vf_state f))), (''country'', F_Val (vf_country f)),
      (''countryCode'', F_Val (vf_country f)), (''jobType'', F_Val (JStr (vf_job_type f))),
      (''description'', F_Val (JStr (vf_description f))),
      (''seniorityLevel'', F_Val (JStr (vf_seniority_level f))),
      (''salary'', if vf_salary f \<noteq> [] then F_Float (vf_salary f) else F_Val JNull),
      (''jobOverview'', F_Strs (vf_job_overview f)), (''jobRole'', F_Strs (vf_job_role f)),
      (''jobResponsibilities'', F_Strs (non_blank (vf_job_responsibilities f))),
      (''youHaveText'', F_Strs (non_blank (vf_you_have_text f))),
      (''requirements'', F_Strs (non_blank (vf_requirements f))),
      (''isActive'', F_Val (JBool (vf_is_active f)))]"

text \<open>The request's outcome: navigation to the list only on status 201 (lines 116--128).\<close>

definition add_vacancy_submit :: "unit outcome \<Rightarrow> vacancy_form \<Rightarrow> (string \<times> json_field) list \<times> string option" where
  "add_vacancy_submit r f =
     (add_vacancy_payload f,
      case axios_call r of Inl _ \<Rightarrow> None | Inr (s, _) \<Rightarrow> if s = 201 then Some ''/company/vacancies'' else None)"

text \<open>\<open>fetchCategories\<close> of both forms: the list on status 200, unchanged otherwise.\<close>

definition form_categories_load :: "(entity_id \<times> string) list outcome \<Rightarrow> (entity_id \<times> string) list \<Rightarrow> (entity_id \<times> string) list" where
  "form_categories_load r cs = (case axios_call r of Inl _ \<Rightarrow> cs | Inr (s, data) \<Rightarrow> if s = 200 then data else cs)"

text \<open>The category select's items: \<open>value={category.id.toString()}\<close>.\<close>

definition category_options :: "(entity_id \<times> string) list \<Rightarrow> (string \<times> string) list" where
  "category_options cs = map (\<lambda>(i, n). (int_to_string i, n)) cs"

subsection \<open>VacancyEdit.tsx\<close>

text \<open>
  The vacancy as the page holds it. Line 97 stores \<open>response.data\<close> as the backend returns
  it, so \<open>jobOverview\<close> and \<open>jobRole\<close>, typed \<open>string\<close> at lines 75--76 but stored by
  AddVacancy as arrays, hold whatever JSON value was loaded (\<open>json_field\<close>) until their
  text area's \<open>onChange\<close> replaces it by the typed text.
\<close>

record edit_vacancy =
  ev_id :: entity_id
  ev_title :: string
  ev_category_id :: jsval
  ev_is_remote :: bool
  ev_is_active :: bool
  ev_job_type :: string
  ev_seniority_level :: string
  ev_city :: string
  ev_state :: string
  ev_country :: jsval
  ev_description :: string
  ev_country_code :: string
  ev_salary :: jsval
  ev_job_overview :: json_field
  ev_job_role :: json_field
  ev_job_responsibilities :: "string list"
  ev_you_have_text :: "string list"

definition ve_api :: string where
  "ve_api = ''http://127.0.0.1:8000/api/''"

text \<open>The effect on \<open>[vacancyId]\<close> (lines 88--108): no request without a route parameter.\<close>

definition ve_load ::
  "string option \<Rightarrow> (string \<Rightarrow> edit_vacancy outcome) \<Rightarrow> edit_vacancy option \<Rightarrow> edit_vacancy option \<times> string list" where
  "ve_load route srv v =
     (case route of
        Some rid \<Rightarrow>
          if truthy (JStr rid) then
            let p = ve_api @ ''companies/vacancies/'' @ rid in
            (case axios_call (srv p) of Inl _ \<Rightarrow> (v, [p]) | Inr (_, d) \<Rightarrow> (Some d, [p]))
          else (v, [])
      | None \<Rightarrow> (v, []))"

text \<open>
  \<open>handleInputChange\<close> (lines 110--113) for the inputs and text areas of the form, every
  value a string (the salary input included); \<open>handleSelectChange\<close> and
  \<open>handleSwitchChange\<close> as in AddVacancy (lines 115--142). Nothing happens before the
  vacancy is loaded.
\<close>

definition ve_input :: "string \<Rightarrow> string \<Rightarrow> edit_vacancy \<Rightarrow> edit_vacancy" where
  "ve_input name x v =
     (if name = ''title'' then v\<lparr>ev_title := x\<rparr>
      else if name = ''salary'' then v\<lparr>ev_salary := JStr x\<rparr>
      else if name = ''state'' then v\<lparr>ev_state := x\<rparr>
      else if name = ''city'' then v\<lparr>ev_city := x\<rparr>
      else if name = ''description'' then v\<lparr>ev_description := x\<rparr>
      else if name = ''jobOverview'' then v\<lparr>ev_job_overview := F_Val (JStr x)\<rparr>
      else if name = ''jobRole'' then v\<lparr>ev_job_role := F_Val (JStr x)\<rparr>
      else v)"

definition ve_select :: "string \<Rightarrow> string \<Rightarrow> edit_vacancy \<Rightarrow> edit_vacancy" where
  "ve_select name x v =
     (if name = ''country'' \<or> name = ''countryCode'' then v\<lparr>ev_country := country_of_code country_mapping x, ev_country_code := x\<rparr>
      else if name = ''categoryId'' then v\<lparr>ev_category_id := JStr x\<rparr>
      else if name = ''jobType'' then v\<lparr>ev_job_type := x\<rparr>
      else if name = ''seniorityLevel'' then v\<lparr>ev_seniority_level := x\<rparr>
      else v)"

definition ve_switch :: "string \<Rightarrow> bool \<Rightarrow> edit_vacancy \<Rightarrow> edit_vacancy" where
  "ve_switch name c v =
     (if name = ''isRemote'' then v\<lparr>ev_is_remote := c\<rparr>
      else if name = ''isActive'' then v\<lparr>ev_is_active := c\<rparr> else v)"

text \<open>The two list fields of the edit form, with the handlers of lines 144--172.\<close>

datatype ve_array = Ve_Responsibilities | Ve_You_Have_Text

fun ve_array_update :: "ve_array \<Rightarrow> (string list \<Rightarrow> string list) \<Rightarrow> edit_vacancy \<Rightarrow> edit_vacancy" where
  "ve_array_update Ve_Responsibilities g v = v\<lparr>ev_job_responsibilities := g (ev_job_responsibilities v)\<rparr>"
| "ve_array_update Ve_You_Have_Text g v = v\<lparr>ev_you_have_text := g (ev_you_have_text v)\<rparr>"

datatype ve_event =
    Ve_Input string string
  | Ve_Select string string
  | Ve_Switch string bool
  | Ve_Array_Change nat string ve_array
  | Ve_Add_Item ve_array
  | Ve_Remove_Item nat ve_array

fun ve_step :: "edit_vacancy option \<Rightarrow> ve_event \<Rightarrow> edit_vacancy option" where
  "ve_step v (Ve_Input n x) = map_option (ve_input n x) v"
| "ve_step v (Ve_Select n x) = map_option (ve_select n x) v"
| "ve_step v (Ve_Switch n c) = map_option (ve_switch n c) v"
| "ve_step v (Ve_Array_Change k x a) = map_option (ve_array_update a (array_change k x)) v"
| "ve_step v (Ve_Add_Item a) = map_option (ve_array_update a array_add) v"
| "ve_step v (Ve_Remove_Item k a) = map_option (ve_array_update a (array_remove k)) v"

text \<open>\<open>updatedData\<close> (lines 188--205), sent as the text \<open>JSON.stringify(updatedData)\<close>.\<close>

definition vacancy_edit_data :: "edit_vacancy \<Rightarrow> (string \<times> json_field) list" where
  "vacancy_edit_data v =
     [(''title'', F_Val (JStr (ev_title v))), (''categoryId'', F_Val (ev_category_id v)),
      (''isRemote'', F_Val (JBool (ev_is_remote v))), (''isActive'', F_Val (JBool (ev_is_active v))),
      (''jobType'', F_Val (JStr (ev_job_type v))), (''seniorityLevel'', F_Val (JStr (ev_seniority_level v))),
      (''city'', F_Val (JStr (ev_city v))), (''description'', F_Val (JStr (ev_description v))),
      (''state'', F_Val (JStr (ev_state v))), (''country'', F_Val (ev_country v)),
      (''countryCode'', F_Val (JStr (ev_country_code v))), (''salary'', F_Val (ev_salary v)),
      (''jobOverview'', ev_job_overview v), (''jobRole'', ev_job_role v),
      (''jobResponsibilities'', F_Strs (ev_job_responsibilities v)),
      (''youHaveText'', F_Strs (ev_you_have_text v))]"

datatype ve_result = Ve_Invalid | Ve_Sent string string "string option"

text \<open>
  \<open>handleSubmit\<close> (lines 174--226): the path, the body text, and the navigation on
  status 200; without a vacancy or a route parameter nothing is sent.
\<close>

definition ve_submit :: "string option \<Rightarrow> unit outcome \<Rightarrow> edit_vacancy option \<Rightarrow> ve_result" where
  "ve_submit route r v =
     (case (v, route) of
        (Some x, Some rid) \<Rightarrow>
          if truthy (JStr rid) then
            Ve_Sent (ve_api @ ''vacancies/'' @ rid) (json_props (vacancy_edit_data x))
              (case axios_call r of
                 Inl _ \<Rightarrow> None
               | Inr (s, _) \<Rightarrow> if s = 200 then Some (''/company/vacancies/'' @ rid) else None)
          else Ve_Invalid
      | _ \<Rightarrow> Ve_Invalid)"

subsection \<open>Facts\<close>

lemma array_change_from:
  "map (\<lambda>(i, y). if i = k then x else y) (zip [m..<m + length xs] xs) =
   (if m \<le> k then xs[k - m := x] else xs)"
proof (induction xs arbitrary: m)
  case Nil
  then show ?case by simp
next
  case (Cons y xs)
  have z: "zip [m..<m + length (y # xs)] (y # xs) = (m, y) # zip [Suc m..<Suc m + length xs] xs"
    by (simp add: upt_rec)
  show ?case
    unfolding z using Cons.IH [of "Suc m"]
    by (cases "m < k") (auto simp del: upt_Suc simp: Suc_diff_Suc [symmetric] dest: Suc_leI)
qed

lemma array_change_eq_list_update: "array_change k x xs = xs[k := x]"
  using array_change_from [of k x 0 xs] by (simp add: array_change_def)

lemma array_remove_from:
  "map snd (filter (\<lambda>(i, y). i \<noteq> k) (zip [m..<m + length xs] xs)) =
   (if m \<le> k then remove_nth (k - m) xs else xs)"
proof (induction xs arbitrary: m)
  case Nil
  then show ?case by (simp add: remove_nth_def)
next
  case (Cons x xs)
  have z: "zip [m..<m + length (x # xs)] (x # xs) = (m, x) # zip [Suc m..<Suc m + length xs] xs"
    by (simp add: upt_rec)
  have r: "remove_nth (Suc j) (x # xs) = x # remove_nth j xs" for j
    by (simp add: remove_nth_def)
  show ?case
    unfolding z using Cons.IH [of "Suc m"]
    by (cases "m < k") (auto simp del: upt_Suc simp: remove_nth_def Suc_diff_Suc [symmetric] r
                              dest: Suc_leI)
qed

lemma array_remove_eq_remove_nth: "array_remove k xs = remove_nth k xs"
  using array_remove_from [of k 0 xs] by (simp add: array_remove_def)

lemma array_remove_add: "array_remove (length xs) (array_add xs) = xs"
  by (simp add: array_remove_eq_remove_nth array_add_def remove_nth_def)

lemma length_array_change [simp]: "length (array_change k x xs) = length xs"
  by (simp add: array_change_eq_list_update)

lemma length_array_remove: "k < length xs \<Longrightarrow> length (array_remove k xs) = length xs - 1"
  by (simp add: array_remove_eq_remove_nth)

lemma av_country_mapping_eq: "av_country_mapping = country_mapping"
  by (simp add: av_country_mapping_def country_mapping_def)

lemma country_mapping_facts:
  "distinct (map fst country_mapping) \<and> (\<forall>(c, n) \<in> set country_mapping. n \<noteq> c)"
  by (simp add: country_mapping_def)

lemma add_vacancy_country_code_is_name:
  assumes "(c, n) \<in> set country_mapping"
  shows "map_of (add_vacancy_payload (vf_select ''countryCode'' c f)) ''countryCode'' = Some (F_Val (JStr n)) \<and>
         n \<noteq> c"
proof -
  have "map_of country_mapping c = Some n"
    using assms country_mapping_facts by (simp add: map_of_is_SomeI)
  moreover have "n \<noteq> c" using assms country_mapping_facts by auto
  ultimately show ?thesis
    by (simp add: add_vacancy_payload_def vf_select_def country_of_code_def av_country_mapping_eq)
qed

lemma vacancy_edit_country_code:
  "map_of (vacancy_edit_data (ve_select ''countryCode'' c v)) ''countryCode'' = Some (F_Val (JStr c))"
  by (simp add: vacancy_edit_data_def ve_select_def)

lemma non_blank_items: "x \<in> set (non_blank xs) \<Longrightarrow> js_trim x \<noteq> []"
  by (simp add: non_blank_def)

lemma add_vacancy_initial_lists:
  "map_of (add_vacancy_payload vacancy_form_init) ''jobOverview'' = Some (F_Strs [[]]) \<and>
   map_of (add_vacancy_payload vacancy_form_init) ''jobRole'' = Some (F_Strs [[]]) \<and>
   map_of (add_vacancy_payload vacancy_form_init) ''requirements'' = Some (F_Strs [])"
  by (simp add: add_vacancy_payload_def vacancy_form_init_def non_blank_def js_trim_def)

lemma vacancy_edit_salary_string:
  "json_field_text (F_Val (ev_salary (ve_input ''salary'' ''5000'' v))) = ''\"5000\"''"
  by (simp add: ve_input_def json_string_def json_char_def)

text \<open>
  A session on the loaded edit form is a sequence of events folded by \<open>ve_step\<close>: it never
  loses the vacancy, an edited overview stays text, and an overview never edited is the
  one loaded.
\<close>

lemma ve_steps_loaded: "\<exists>x. foldl ve_step (Some v) es = Some x"
proof (induction es arbitrary: v)
  case Nil
  then show ?case by simp
next
  case (Cons e es)
  then show ?case by (cases e) simp_all
qed

lemma ve_input_overview:
  "ev_job_overview (ve_input n t v) = (if n = ''jobOverview'' then F_Val (JStr t) else ev_job_overview v)"
  by (simp add: ve_input_def)

lemma ve_array_update_overview: "ev_job_overview (ve_array_update a g v) = ev_job_overview v"
  by (cases a) simp_all

lemma ve_step_overview:
  "ve_step (Some v) e = Some w \<Longrightarrow>
     ev_job_overview w = (case e of Ve_Input n t \<Rightarrow> if n = ''jobOverview'' then F_Val (JStr t) else ev_job_overview v
                          | _ \<Rightarrow> ev_job_overview v)"
  by (cases e) (auto simp: ve_input_overview ve_select_def ve_switch_def ve_array_update_overview)

lemma ve_steps_overview_text:
  "ev_job_overview v = F_Val (JStr s) \<Longrightarrow> foldl ve_step (Some v) es = Some x \<Longrightarrow>
     \<exists>s'. ev_job_overview x = F_Val (JStr s')"
proof (induction es arbitrary: v s)
  case Nil
  then show ?case by simp
next
  case (Cons e es)
  obtain w where w: "ve_step (Some v) e = Some w" by (cases e) simp_all
  have "\<exists>s'. ev_job_overview w = F_Val (JStr s')"
    using ve_step_overview [OF w] Cons.prems(1) by (auto split: ve_event.splits)
  then show ?case using Cons.IH Cons.prems(2) w by auto
qed

lemma ve_steps_overview_untouched:
  "(\<forall>t. Ve_Input ''jobOverview'' t \<notin> set es) \<Longrightarrow> foldl ve_step (Some v) es = Some x \<Longrightarrow>
     map_of (vacancy_edit_data x) ''jobOverview'' = Some (ev_job_overview v)"
proof (induction es arbitrary: v)
  case Nil
  then show ?case by (simp add: vacancy_edit_data_def)
next
  case (Cons e es)
  obtain w where w: "ve_step (Some v) e = Some w" by (cases e) simp_all
  have "ev_job_overview w = ev_job_overview v"
    using ve_step_overview [OF w] Cons.prems(1) by (auto split: ve_event.splits)
  with Cons.IH [of w] Cons.prems w show ?case by simp
qed

end
