(* ===== verification/DetailViews.thy ===== *)
theory DetailViews
  imports DependentFetch VacancyForms
begin

text \<open>
  What the two vacancy detail screens render from their state: Components/Find-Jobs/
  JobDetails.jsx (lines 160--360) and Pages/Admin/VacancyViewAdmin.tsx (lines 111--240).
  Both list the four text sections of a vacancy with \<open>vacancy?.field.map(...)\<close>: optional
  chaining stops at a missing vacancy, but on a loaded vacancy \<open>.map\<close> is called on the
  property itself, which throws a \<open>TypeError\<close> unless it is an array; React then unmounts
  the page. A render is therefore an option, \<open>None\<close> for the thrown error.
\<close>

subsection \<open>Shared pieces\<close>

text \<open>\<open>field.map(item => ...)\<close>: the items of an array, an error for any other value.\<close>

fun js_array_items :: "json_field \<Rightarrow> string list option" where
  "js_array_items (F_Strs ss) = Some ss"
| "js_array_items (F_Val v) = None"
| "js_array_items (F_Float s) = None"

text \<open>The four sections in the order of the markup; the first error ends the render.\<close>

definition vacancy_sections ::
  "json_field \<Rightarrow> json_field \<Rightarrow> json_field \<Rightarrow> json_field \<Rightarrow> (string list \<times> string list \<times> string list \<times> string list) option" where
  "vacancy_sections ov ro re yh =
     (case js_array_items ov of None \<Rightarrow> None | Some a \<Rightarrow>
      case js_array_items ro of None \<Rightarrow> None | Some b \<Rightarrow>
      case js_array_items re of None \<Rightarrow> None | Some c \<Rightarrow>
      case js_array_items yh of None \<Rightarrow> None | Some d \<Rightarrow> Some (a, b, c, d))"

subsection \<open>JobDetails.jsx\<close>

record job_details_markup =
  jdm_title :: string
  jdm_location :: "string option"
  jdm_job_type :: "string option"
  jdm_seniority :: "string option"
  jdm_remote :: bool
  jdm_sections :: "string list \<times> string list \<times> string list \<times> string list"
  jdm_company_name :: string
  jdm_company_description :: string

text \<open>
  The header (lines 166--190): the location only when city and country are non-empty,
  job type and seniority only when set, each shown through its label map (an unknown
  value renders as nothing), "Remote" when \<open>isRemote\<close>. The company block (lines
  265--268) hides an empty description and the text \<open>"null"\<close>.
\<close>

definition label_text :: "(string \<times> string) list \<Rightarrow> string \<Rightarrow> string" where
  "label_text labels x = (case map_of labels x of Some l \<Rightarrow> l | None \<Rightarrow> [])"

definition company_description_text :: "company option \<Rightarrow> string" where
  "company_description_text c =
     (case c of
        Some co \<Rightarrow> if company_description co \<noteq> [] \<and> company_description co \<noteq> ''null''
                   then company_description co else []
      | None \<Rightarrow> [])"

definition job_details_markup_of :: "job_details_view \<Rightarrow> job_details_markup option" where
  "job_details_markup_of v =
     (let cname = (case job_company v of Some c \<Rightarrow> company_name c | None \<Rightarrow> []);
          cdesc = company_description_text (job_company v) in
      case job_detail v of
        None \<Rightarrow> Some \<lparr>jdm_title = [], jdm_location = None, jdm_job_type = None, jdm_seniority = None,
                      jdm_remote = False, jdm_sections = ([], [], [], []),
                      jdm_company_name = cname, jdm_company_description = cdesc\<rparr>
      | Some d \<Rightarrow>
          (case vacancy_sections (vd_job_overview d) (vd_job_role d) (vd_job_responsibilities d)
                  (vd_you_have_text d) of
             None \<Rightarrow> None
           | Some secs \<Rightarrow>
               Some \<lparr>jdm_title = vd_title d,
                     jdm_location = (if vd_city d \<noteq> [] \<and> vd_country d \<noteq> []
                                     then Some (vd_city d @ '', '' @ vd_country d) else None),
                     jdm_job_type = (if vd_job_type d \<noteq> [] then Some (label_text job_type_labels (vd_job_type d)) else None),
                     jdm_seniority = (if vd_seniority_level d \<noteq> []
                                      then Some (label_text seniority_level_labels (vd_seniority_level d)) else None),
                     jdm_remote = vd_is_remote d, jdm_sections = secs,
                     jdm_company_name = cname, jdm_company_description = cdesc\<rparr>))"

text \<open>The application modal (lines 271--355): closed, the form, or the confirmation.\<close>

datatype application_modal = Modal_Closed | Modal_Form application_form | Modal_Sent

definition application_modal_of :: "job_details_view \<Rightarrow> application_modal" where
  "application_modal_of v =
     (if \<not> is_modal_open v then Modal_Closed
      else if \<not> is_application_sent v then Modal_Form (form_values v) else Modal_Sent)"

subsection \<open>VacancyViewAdmin.tsx\<close>

text \<open>The label maps of this screen (lines 75--86), a copy of those of JobDetails.jsx.\<close>

definition vva_job_type_labels :: "(string \<times> string) list" where
  "vva_job_type_labels = [(''full-time'', ''Full-time''), (''part-time'', ''Part-time''), (''contract'', ''Contract'')]"

definition vva_seniority_level_labels :: "(string \<times> string) list" where
  "vva_seniority_level_labels =
     [(''junior'', ''Junior''), (''middle'', ''Middle''), (''senior'', ''Senior''), (''intern'', ''Intern'')]"

text \<open>\<open>labels[x ?? ''] || x\<close>: the label, or the raw value when there is none.\<close>

definition label_or_raw :: "(string \<times> string) list \<Rightarrow> string \<Rightarrow> string" where
  "label_or_raw labels x = (case map_of labels x of Some l \<Rightarrow> if l \<noteq> [] then l else x | None \<Rightarrow> x)"

record vacancy_admin_markup =
  vam_title :: string
  vam_id :: string
  vam_badge :: string
  vam_category :: string
  vam_job_type :: string
  vam_seniority :: string
  vam_location :: string
  vam_remote :: string
  vam_salary :: "jsval option"
  vam_description :: string
  vam_sections :: "string list \<times> string list \<times> string list \<times> string list"
  vam_back_path :: string

text \<open>
  The card (lines 118--210). Before the vacancy is loaded every \<open>vacancy?.x\<close> is
  \<open>undefined\<close>: the template literal of the location prints it as \<open>undefined\<close>, the other
  fields render nothing. The category shows \<open>categoryName || 'Loading...'\<close>. A truthy
  salary is shown as \<open>$\<close> followed by its \<open>toLocaleString()\<close> (kept as the value here),
  anything else as "Not specified". The header's back link (line 113) leads to
  \<open>/admin/vacancies\<close>.
\<close>

definition vacancy_admin_markup_of :: "vacancy_view_admin \<Rightarrow> vacancy_admin_markup option" where
  "vacancy_admin_markup_of v =
     (let cat = (if admin_category_name v \<noteq> [] then admin_category_name v else ''Loading...'') in
      case admin_vacancy v of
        None \<Rightarrow> Some \<lparr>vam_title = [], vam_id = [], vam_badge = ''Inactive'', vam_category = cat, vam_job_type = [],
                      vam_seniority = [], vam_location = ''undefined, undefined, undefined'',
                      vam_remote = ''No'', vam_salary = None, vam_description = ''Not specified'',
                      vam_sections = ([], [], [], []), vam_back_path = ''/admin/vacancies''\<rparr>
      | Some a \<Rightarrow>
          (case vacancy_sections (av_job_overview a) (av_job_role a) (av_job_responsibilities a)
                  (av_you_have_text a) of
             None \<Rightarrow> None
           | Some secs \<Rightarrow>
               Some \<lparr>vam_title = av_title a, vam_id = int_to_string (av_id a), vam_badge = (if av_is_active a then ''Active'' else ''Inactive''),
                     vam_category = cat,
                     vam_job_type = label_or_raw vva_job_type_labels (av_job_type a),
                     vam_seniority = label_or_raw vva_seniority_level_labels (av_seniority_level a),
                     vam_location = av_city a @ '', '' @ av_state a @ '', '' @ av_country a,
                     vam_remote = (if av_is_remote a then ''Yes'' else ''No''),
                     vam_salary = (if truthy (av_salary a) then Some (av_salary a) else None),
                     vam_description = (if av_description a \<noteq> [] then av_description a else ''Not specified''),
                     vam_sections = secs, vam_back_path = ''/admin/vacancies''\<rparr>))"

text \<open>The "Edit Vacancy" button (line 231): \<open>/admin/vacancies/${vacancy?.id}/edit\<close>.\<close>

definition vacancy_admin_edit_path :: "vacancy_view_admin \<Rightarrow> string" where
  "vacancy_admin_edit_path v =
     ''/admin/vacancies/'' @ (case admin_vacancy v of Some a \<Rightarrow> int_to_string (av_id a) | None \<Rightarrow> ''undefined'')
     @ ''/edit''"

text \<open>
  A property of the JSON object a form sends, as the backend returns it for a stored vacancy
  (the backend is not part of the repository; an absent property reads as \<open>undefined\<close>).
\<close>

definition prop_of :: "(string \<times> json_field) list \<Rightarrow> string \<Rightarrow> json_field" where
  "prop_of kvs k = (case map_of kvs k of Some x \<Rightarrow> x | None \<Rightarrow> F_Val JUndef)"

subsection \<open>Facts\<close>

lemma vacancy_sections_None_iff:
  "vacancy_sections a b c d = None \<longleftrightarrow>
     js_array_items a = None \<or> js_array_items b = None \<or> js_array_items c = None \<or> js_array_items d = None"
  by (auto simp: vacancy_sections_def split: option.split)

lemma vacancy_sections_strs [simp]:
  "vacancy_sections (F_Strs a) (F_Strs b) (F_Strs c) (F_Strs d) = Some (a, b, c, d)"
  by (simp add: vacancy_sections_def)

lemma vacancy_sections_str_overview [simp]: "vacancy_sections (F_Val v) b c d = None"
  by (simp add: vacancy_sections_def)

lemma vacancy_sections_str_role [simp]: "vacancy_sections (F_Strs a) (F_Val v) c d = None"
  by (simp add: vacancy_sections_def)

text \<open>The render fails only on a loaded vacancy, at its list sections.\<close>

lemma vacancy_admin_markup_None_iff:
  "vacancy_admin_markup_of v = None \<longleftrightarrow>
     (\<exists>a. admin_vacancy v = Some a \<and>
          vacancy_sections (av_job_overview a) (av_job_role a) (av_job_responsibilities a) (av_you_have_text a) = None)"
  by (cases "admin_vacancy v") (auto simp: vacancy_admin_markup_of_def Let_def split: option.split)

lemma job_details_markup_None_iff:
  "job_details_markup_of w = None \<longleftrightarrow>
     (\<exists>d. job_detail w = Some d \<and>
          vacancy_sections (vd_job_overview d) (vd_job_role d) (vd_job_responsibilities d) (vd_you_have_text d) = None)"
  by (cases "job_detail w") (auto simp: job_details_markup_of_def Let_def split: option.split)

text \<open>Either screen throws exactly when a loaded vacancy has a list field that is no array.\<close>

lemma detail_views_crash_iff:
  "(vacancy_admin_markup_of v = None \<longleftrightarrow>
      (\<exists>a. admin_vacancy v = Some a \<and>
           (js_array_items (av_job_overview a) = None \<or> js_array_items (av_job_role a) = None \<or>
            js_array_items (av_job_responsibilities a) = None \<or> js_array_items (av_you_have_text a) = None))) \<and>
   (job_details_markup_of w = None \<longleftrightarrow>
      (\<exists>d. job_detail w = Some d \<and>
           (js_array_items (vd_job_overview d) = None \<or> js_array_items (vd_job_role d) = None \<or>
            js_array_items (vd_job_responsibilities d) = None \<or> js_array_items (vd_you_have_text d) = None)))"
  by (simp only: vacancy_admin_markup_None_iff job_details_markup_None_iff vacancy_sections_None_iff)

lemma vacancy_view_admin_load_loaded:
  assumes "srv1 (''/admin/vacancies/'' @ rid) = Reply s d" "status_2xx s"
  shows "admin_vacancy (fst (vacancy_view_admin_load rid srv1 srv2 vacancy_view_admin_init)) = Some d \<and>
         admin_category_name (fst (vacancy_view_admin_load rid srv1 srv2 vacancy_view_admin_init)) =
           (if truthy (av_category_id d)
            then (case axios_call (srv2 (''/categories/'' @ js_to_string (av_category_id d))) of
                    Inl _ \<Rightarrow> [] | Inr (_, c) \<Rightarrow> category_name c)
            else [])"
  using assms by (auto simp: vacancy_view_admin_load_def vacancy_view_admin_init_def axios_call_def Let_def
                       split: sum.split)

subsection \<open>Properties of the rendered screens\<close>

text \<open>
  C18: VacancyViewAdmin.tsx, category cell: once the vacancy is loaded the cell shows the
  category's name, and "Loading..." for good when \<open>categoryId\<close> is falsy, the category
  request fails, or the name is empty; nothing requests the category again, so the
  placeholder is not a loading state in these cases.
\<close>

theorem vacancy_admin_category_stuck_loading:
  assumes "srv1 (''/admin/vacancies/'' @ rid) = Reply s d" "status_2xx s"
      and "vacancy_admin_markup_of (fst (vacancy_view_admin_load rid srv1 srv2 vacancy_view_admin_init)) = Some m"
  shows "vam_category m =
           (if truthy (av_category_id d)
            then (case axios_call (srv2 (''/categories/'' @ js_to_string (av_category_id d))) of
                    Inl _ \<Rightarrow> ''Loading...''
                  | Inr (_, c) \<Rightarrow> if category_name c \<noteq> [] then category_name c else ''Loading...'')
            else ''Loading...'')"
proof -
  have "vam_category m = (let n = admin_category_name (fst (vacancy_view_admin_load rid srv1 srv2 vacancy_view_admin_init))
                          in if n \<noteq> [] then n else ''Loading...'')"
    using assms(3) by (auto simp: vacancy_admin_markup_of_def Let_def split: option.splits)
  then show ?thesis
    using vacancy_view_admin_load_loaded [of srv1 rid s d srv2, OF assms(1,2)]
    by (auto simp: Let_def split: sum.splits)
qed

theorem vacancy_admin_category_stuck_loading_witness:
  "vam_category (the (vacancy_admin_markup_of (fst (vacancy_view_admin_load ''7''
      (\<lambda>_. Reply 200 \<lparr>av_id = 7, av_title = ''Dev'', av_category_id = JNum 0, av_is_active = True,
             av_is_remote = False, av_salary = JNull, av_description = [], av_job_type = ''contract'',
             av_seniority_level = ''lead'', av_city = ''Almaty'', av_state = [], av_country = ''Kazakhstan'',
             av_job_overview = F_Strs [], av_job_role = F_Strs [], av_job_responsibilities = F_Strs [],
             av_you_have_text = F_Strs []\<rparr>)
      (\<lambda>_. Network_Failure) vacancy_view_admin_init)))) = ''Loading...''"
  (is "vam_category (the (vacancy_admin_markup_of ?v)) = _")
proof -
  have m: "vacancy_admin_markup_of ?v = Some (the (vacancy_admin_markup_of ?v))"
    by (simp add: vacancy_admin_markup_of_def vacancy_view_admin_load_def vacancy_view_admin_init_def
                  axios_call_def status_2xx_def Let_def)
  show ?thesis
    using vacancy_admin_category_stuck_loading [OF _ _ m] by (simp add: status_2xx_def)
qed

text \<open>
  JobDetails.jsx, the modal's close controls (the two \<open>&times;\<close> marks, Cancel and "Browse
  more similar jobs", lines 276--349) all run \<open>handleCloseModal\<close>: the modal closes with an
  empty form, and the page is left for the job list.
\<close>

lemma close_modal_leaves_page:
  "application_modal_of (fst (handle_close_modal v)) = Modal_Closed \<and>
   form_values (fst (handle_close_modal v)) = empty_application_form \<and>
   snd (handle_close_modal v) = handle_back_click"
  by (simp add: handle_close_modal_def application_modal_of_def handle_back_click_def)

end
