(* ===== verification/BlogScreens.thy ===== *)
theory BlogScreens
  imports BlogList
begin

text \<open>
  What the public blog pages render: the cards of Components/Blog/Blogs.jsx (lines 60--73)
  and the post page of Components/Blog/BlogDetail.jsx (lines 62--111) with its
  "Continue Reading" cards. A card shows the image, the category, the title cut by
  \<open>truncateTitle\<close> (40 characters on the list, 50 on the post page) and leads to
  \<open>/blog/${id}\<close>; dates are formatted by the browser and are not kept.
\<close>

record blog_card =
  bc_image :: string
  bc_alt :: string
  bc_category :: string
  bc_title :: string
  bc_link :: string

definition blog_card_of :: "nat \<Rightarrow> blog \<Rightarrow> blog_card" where
  "blog_card_of n b =
     \<lparr>bc_image = blog_image_url b, bc_alt = blog_title b, bc_category = blog_categories_name b,
      bc_title = truncate_title n (blog_title b), bc_link = ''/blog/'' @ blog_route_param (blog_id b)\<rparr>"

text \<open>\<open>filteredBlogs.map(blog => <div ... onClick={() => handleBlogClick(blog.id)}>)\<close>.\<close>

definition blogs_cards :: "blogs_view \<Rightarrow> blog_card list" where
  "blogs_cards v = map (blog_card_of 40) (filtered_blogs v)"

text \<open>
  BlogDetail's render: "Loading..." while \<open>blog\<close> is \<open>null\<close> (lines 62--64), else the
  post's title, image, category and content and one card per related post.
\<close>

datatype blog_detail_screen =
    Blog_Detail_Loading
  | Blog_Detail_Post string string string string "blog_card list"

definition blog_detail_screen_of :: "blog_detail_view \<Rightarrow> blog_detail_screen" where
  "blog_detail_screen_of v =
     (case detail_blog v of
        None \<Rightarrow> Blog_Detail_Loading
      | Some b \<Rightarrow> Blog_Detail_Post (blog_title b) (blog_image_url b) (blog_categories_name b) (blog_content b)
                   (map (blog_card_of 50) (related_blogs v)))"

subsection \<open>Facts\<close>

lemma truncate_title_bound: "length (truncate_title n t) \<le> n + 3"
  by (simp add: truncate_title_def)

lemma truncate_title_prefix: "take n (truncate_title n t) = take n t"
  by (simp add: truncate_title_def)

lemma truncate_title_short: "length t \<le> n \<Longrightarrow> truncate_title n t = t"
  by (simp add: truncate_title_def)

lemma blog_route_param_inj: "blog_route_param m = blog_route_param n \<longleftrightarrow> m = n"
  by (metis blog_route_param_roundtrip jsval.inject(2))

lemma blog_card_link_inj: "bc_link (blog_card_of k a) = ''/blog/'' @ blog_route_param n \<longleftrightarrow> blog_id a = n"
  by (simp add: blog_card_of_def blog_route_param_inj)

lemma related_not_self:
  "b \<in> set (related_filter (blog_route_param n) c bs) \<Longrightarrow> blog_id b \<noteq> n \<and> blog_category_id b = c"
  by (auto simp: related_filter_def blog_route_param_roundtrip dest: set_take_filter)

lemma blog_detail_load_ok_screen:
  assumes "srv_one (''/blogs/'' @ rid) = Reply s d" "status_2xx s"
  shows "blog_detail_screen_of (fst (blog_detail_load rid srv_one srv_all v)) =
           Blog_Detail_Post (blog_title d) (blog_image_url d) (blog_categories_name d) (blog_content d)
             (map (blog_card_of 50) (related_blogs (fetch_related rid (blog_category_id d) (srv_all ''/blogs'')
                                                       (v\<lparr>detail_blog := Some d\<rparr>))))"
  using assms by (simp add: blog_detail_load_primary_ok blog_detail_screen_of_def)

lemma related_cards_props:
  "c \<in> set (map (blog_card_of 50) (related_filter (blog_route_param n) cat bs)) \<Longrightarrow>
   bc_link c \<noteq> ''/blog/'' @ blog_route_param n \<and> length (bc_title c) \<le> 53"
proof -
  assume "c \<in> set (map (blog_card_of 50) (related_filter (blog_route_param n) cat bs))"
  then obtain x where x: "x \<in> set (related_filter (blog_route_param n) cat bs)" and c: "c = blog_card_of 50 x"
    by auto
  have "bc_link c \<noteq> ''/blog/'' @ blog_route_param n"
    using related_not_self [OF x] by (simp only: c blog_card_link_inj) simp
  moreover have "length (bc_title c) \<le> 53"
    using truncate_title_bound [of 50] by (simp add: c blog_card_of_def)
  ultimately show ?thesis ..
qed

lemma blog_filter_subset: "set (blog_filter c bs) \<subseteq> set bs"
  by (auto simp: blog_filter_def)

subsection \<open>Properties of the blog screens\<close>

text \<open>
  C19: BlogDetail.jsx opened from the initial state on the route of post \<open>n\<close>: once the
  post is fetched the page shows it with at most three "Continue Reading" cards, none of
  which leads back to \<open>/blog/n\<close>, each title cut to at most 53 characters.
\<close>

theorem blog_continue_reading_never_self:
  assumes "srv_one (''/blogs/'' @ blog_route_param n) = Reply s d" "status_2xx s"
  shows "\<exists>cs. blog_detail_screen_of (fst (blog_detail_load (blog_route_param n) srv_one srv_all blog_detail_init)) =
               Blog_Detail_Post (blog_title d) (blog_image_url d) (blog_categories_name d) (blog_content d) cs \<and>
             length cs \<le> 3 \<and> (\<forall>c \<in> set cs. bc_link c \<noteq> ''/blog/'' @ blog_route_param n \<and> length (bc_title c) \<le> 53)"
proof -
  let ?v = "blog_detail_init\<lparr>detail_blog := Some d\<rparr>"
  have "related_blogs (fetch_related (blog_route_param n) (blog_category_id d) (srv_all ''/blogs'') ?v) = [] \<or>
        (\<exists>bs. related_blogs (fetch_related (blog_route_param n) (blog_category_id d) (srv_all ''/blogs'') ?v) =
               related_filter (blog_route_param n) (blog_category_id d) bs)"
    by (auto simp: fetch_related_def blog_detail_init_def split: sum.split)
  then show ?thesis
    using blog_detail_load_ok_screen [of srv_one "blog_route_param n" s d srv_all blog_detail_init, OF assms] related_cards_props
          length_take_filter_le
    by (fastforce simp: related_filter_def)
qed

theorem blog_continue_reading_never_self_witness:
  "\<exists>cs. blog_detail_screen_of (fst (blog_detail_load (blog_route_param 2)
          (\<lambda>_. Reply 200 \<lparr>blog_id = 2, blog_title = ''B'', blog_image_url = [], blog_category_id = 7,
                           blog_categories_name = ''Tech'', blog_content = ''text'', blog_created_at = []\<rparr>)
          (\<lambda>_. Network_Failure) blog_detail_init)) =
        Blog_Detail_Post ''B'' [] ''Tech'' ''text'' cs \<and> length cs \<le> 3 \<and>
        list_all (\<lambda>c. bc_link c \<noteq> ''/blog/'' @ blog_route_param 2 \<and> length (bc_title c) \<le> 53) cs"
  using blog_continue_reading_never_self [of "\<lambda>_. Reply 200 \<lparr>blog_id = 2, blog_title = ''B'', blog_image_url = [],
           blog_category_id = 7, blog_categories_name = ''Tech'', blog_content = ''text'', blog_created_at = []\<rparr>"
           2 200 _ "\<lambda>_. Network_Failure"]
  by (simp add: status_2xx_def list_all_iff)

text \<open>
  C20: BlogDetail.jsx keeps its state across a change of route. From any state whose
  "Continue Reading" cards include post \<open>b\<close>, a click on that card loads \<open>/blog/b\<close>; when the
  post arrives and the related request fails, the page shows the new post with the old
  related cards, among them the card of \<open>b\<close> itself, linking to the page it is on.
\<close>

theorem blog_stale_related_links_to_itself:
  assumes "b \<in> set (related_blogs v)"
      and "srv_one (''/blogs/'' @ blog_route_param (blog_id b)) = Reply s d" "status_2xx s"
      and "\<not> (\<exists>s' bs. srv_all ''/blogs'' = Reply s' bs \<and> status_2xx s')"
  shows "blog_detail_screen_of (fst (blog_detail_load (blog_route_param (blog_id b)) srv_one srv_all v)) =
           Blog_Detail_Post (blog_title d) (blog_image_url d) (blog_categories_name d) (blog_content d)
             (map (blog_card_of 50) (related_blogs v)) \<and>
         (\<exists>c \<in> set (map (blog_card_of 50) (related_blogs v)). bc_link c = ''/blog/'' @ blog_route_param (blog_id b))"
proof
  have "fetch_related (blog_route_param (blog_id b)) (blog_category_id d) (srv_all ''/blogs'') (v\<lparr>detail_blog := Some d\<rparr>) =
          v\<lparr>detail_blog := Some d\<rparr>"
    using assms(4) by (cases "srv_all ''/blogs''") (auto simp: fetch_related_def fetch_call_def)
  then show "blog_detail_screen_of (fst (blog_detail_load (blog_route_param (blog_id b)) srv_one srv_all v)) =
           Blog_Detail_Post (blog_title d) (blog_image_url d) (blog_categories_name d) (blog_content d)
             (map (blog_card_of 50) (related_blogs v))"
    using assms(2,3) by (simp add: blog_detail_load_primary_ok blog_detail_screen_of_def)
  show "\<exists>c \<in> set (map (blog_card_of 50) (related_blogs v)). bc_link c = ''/blog/'' @ blog_route_param (blog_id b)"
    using assms(1) blog_card_link_inj [of 50 b "blog_id b"] by auto
qed

theorem blog_stale_related_links_to_itself_witness:
  "let a = \<lparr>blog_id = 1, blog_title = ''A'', blog_image_url = [], blog_category_id = 7,
            blog_categories_name = ''Tech'', blog_content = [], blog_created_at = []\<rparr>;
       b = \<lparr>blog_id = 2, blog_title = ''B'', blog_image_url = [], blog_category_id = 7,
            blog_categories_name = ''Tech'', blog_content = [], blog_created_at = []\<rparr>;
       srv = (\<lambda>p. Reply 200 (if p = ''/blogs/'' @ blog_route_param 1 then a else b));
       on_a = fst (blog_detail_load (blog_route_param 1) srv (\<lambda>_. Reply 200 [a, b]) blog_detail_init)
   in b \<in> set (related_blogs on_a) \<and> status_2xx 200 \<and>
      \<not> (\<exists>s' bs. (Network_Failure :: blog list outcome) = Reply s' bs \<and> status_2xx s') \<and>
      blog_detail_screen_of (fst (blog_detail_load (blog_route_param 2) srv (\<lambda>_. Network_Failure) on_a)) =
        Blog_Detail_Post ''B'' [] ''Tech'' [] [blog_card_of 50 b] \<and>
      bc_link (blog_card_of 50 b) = ''/blog/'' @ blog_route_param 2"
proof -
  let ?a = "\<lparr>blog_id = 1, blog_title = ''A'', blog_image_url = [], blog_category_id = 7,
            blog_categories_name = ''Tech'', blog_content = [], blog_created_at = []\<rparr>"
  let ?b = "\<lparr>blog_id = 2, blog_title = ''B'', blog_image_url = [], blog_category_id = 7,
            blog_categories_name = ''Tech'', blog_content = [], blog_created_at = []\<rparr>"
  let ?srv = "\<lambda>p. Reply 200 (if p = ''/blogs/'' @ blog_route_param 1 then ?a else ?b)"
  let ?on_a = "fst (blog_detail_load (blog_route_param 1) ?srv (\<lambda>_. Reply 200 [?a, ?b]) blog_detail_init)"
  have rel: "related_blogs ?on_a = [?b]"
    by (simp add: blog_detail_load_def fetch_related_def related_filter_def blog_detail_init_def
                  blog_route_param_roundtrip fetch_call_def status_2xx_def)
  have one: "?srv (''/blogs/'' @ blog_route_param (blog_id ?b)) = Reply 200 ?b"
    by (simp add: blog_route_param_inj)
  have s: "status_2xx (200::nat)" by (simp add: status_2xx_def)
  have nf: "\<not> (\<exists>s' bs. (Network_Failure :: blog list outcome) = Reply s' bs \<and> status_2xx s')" by simp
  have "?b \<in> set (related_blogs ?on_a)" using rel by simp
  from blog_stale_related_links_to_itself [of ?b ?on_a ?srv 200 ?b "\<lambda>_. Network_Failure", OF this one s nf] rel s nf
  show ?thesis by (simp add: Let_def blog_card_of_def)
qed

text \<open>
  C21: Blogs.jsx, every reachable state: the cards are those of the fetched posts in the
  selected category, in order, each the card of a fetched post with its title cut to at
  most 43 characters.
\<close>

theorem blogs_cards_shown:
  assumes "blogs_reachable v"
  shows "blogs_cards v = map (blog_card_of 40) (blog_filter (selected_category v) (blogs v)) \<and>
         (\<forall>c \<in> set (blogs_cards v). length (bc_title c) \<le> 43 \<and> (\<exists>b \<in> set (blogs v). c = blog_card_of 40 b))"
proof -
  have eq: "blogs_cards v = map (blog_card_of 40) (blog_filter (selected_category v) (blogs v))"
    using blogs_reachable_inv [OF assms] by (simp add: blogs_cards_def blogs_filter_inv_def)
  moreover have "\<forall>c \<in> set (blogs_cards v). length (bc_title c) \<le> 43"
    using truncate_title_bound [of 40] by (auto simp: blogs_cards_def blog_card_of_def)
  moreover have "\<forall>c \<in> set (blogs_cards v). \<exists>b \<in> set (blogs v). c = blog_card_of 40 b"
    using blog_filter_subset by (auto simp: eq)
  ultimately show ?thesis by blast
qed

theorem blogs_cards_shown_witness:
  "let b1 = \<lparr>blog_id = 1, blog_title = ''An article whose title is longer than forty characters'', blog_image_url = [],
             blog_category_id = 7, blog_categories_name = ''Tech'', blog_content = [], blog_created_at = []\<rparr>;
       v = blogs_step blogs_init (Blogs_Response (Reply 200 [b1]))
   in blogs_cards v = [blog_card_of 40 b1] \<and>
      bc_title (blog_card_of 40 b1) = ''An article whose title is longer than fo...''"
proof -
  let ?b1 = "\<lparr>blog_id = 1, blog_title = ''An article whose title is longer than forty characters'', blog_image_url = [],
             blog_category_id = 7, blog_categories_name = ''Tech'', blog_content = [], blog_created_at = []\<rparr>"
  have "blogs_cards (blogs_step blogs_init (Blogs_Response (Reply 200 [?b1]))) =
          map (blog_card_of 40) (blog_filter ''All'' [?b1])"
    using blogs_cards_shown [OF blogs_reachable.step [OF blogs_reachable.init, of "Blogs_Response (Reply 200 [?b1])"]]
    by (simp add: blogs_init_def blogs_step_def blogs_filter_effect_def fetch_call_def status_2xx_def)
  then show ?thesis
    by (simp add: blog_filter_def blog_card_of_def truncate_title_def Let_def)
qed

end
