(* ===== verification/AdminScreens.thy ===== *)
theory AdminScreens
  imports AdminCrud
begin

text \<open>
  What the admin list pages render (Pages/Admin/CategoryPage.tsx lines 35--91 and
  149--180, IndustryPage.tsx lines 31--87 and 145--176): the form card with its heading,
  the name field, the submit button's label and the "Cancel Edit" button while a record
  is edited, and one card per listed record with its name and the events its Edit and
  Delete buttons fire. The two pages differ only in their texts.
\<close>

record admin_labels =
  lbl_edit_heading :: string
  lbl_add_heading :: string
  lbl_name :: string
  lbl_update :: string
  lbl_add :: string
  lbl_list :: string

definition category_labels :: admin_labels where
  "category_labels =
     \<lparr>lbl_edit_heading = ''Edit Category'', lbl_add_heading = ''Add New Category'', lbl_name = ''Category Name'',
      lbl_update = ''Update Category'', lbl_add = ''Add Category'', lbl_list = ''Existing Categories''\<rparr>"

definition industry_labels :: admin_labels where
  "industry_labels =
     \<lparr>lbl_edit_heading = ''Edit Industry'', lbl_add_heading = ''Add New Industry'', lbl_name = ''Industry Name'',
      lbl_update = ''Update Industry'', lbl_add = ''Add Industry'', lbl_list = ''Existing Industries''\<rparr>"

record 'a admin_panel =
  ap_heading :: string
  ap_name_label :: string
  ap_name_value :: string
  ap_submit_label :: string
  ap_cancel :: "'a admin_event option"
  ap_list_heading :: string
  ap_cards :: "(string \<times> 'a admin_event \<times> 'a admin_event) list"

text \<open>
  \<open>XList\<close>: \<open>items.map(x => <Card> {x.name} <Button onClick={() => onEdit(x)}/>
  <Button onClick={() => onDelete(x.id)}/> </Card>)\<close>, with \<open>onEdit = handleEdit\<close> and
  \<open>onDelete = handleDelete\<close>.
\<close>

definition admin_cards :: "('a \<Rightarrow> entity_id) \<Rightarrow> ('a \<Rightarrow> string) \<Rightarrow> 'a list \<Rightarrow> (string \<times> 'a admin_event \<times> 'a admin_event) list" where
  "admin_cards key name xs = map (\<lambda>x. (name x, Admin_Edit x, Admin_Delete (key x))) xs"

text \<open>
  The page: the heading and the form's button test \<open>editingX\<close> (passed to the form as
  \<open>editingX || undefined\<close>); the field shows the form's \<open>name\<close>; "Cancel Edit" runs
  \<open>setEditingX(null)\<close>.
\<close>

definition admin_panel_of :: "admin_labels \<Rightarrow> ('a \<Rightarrow> entity_id) \<Rightarrow> ('a \<Rightarrow> string) \<Rightarrow> 'a admin_list_view \<Rightarrow> 'a admin_panel" where
  "admin_panel_of l key name v =
     \<lparr>ap_heading = (if al_editing v \<noteq> None then lbl_edit_heading l else lbl_add_heading l),
      ap_name_label = lbl_name l,
      ap_name_value = al_form_name v,
      ap_submit_label = (if al_editing v \<noteq> None then lbl_update l else lbl_add l),
      ap_cancel = (if al_editing v \<noteq> None then Some Admin_Cancel else None),
      ap_list_heading = lbl_list l,
      ap_cards = admin_cards key name (al_items v)\<rparr>"

text \<open>
  IndustryPage.tsx renders the same structure (IndustryForm, IndustryList and the page,
  lines 30--88 and 145--176) with its own texts.
\<close>

definition category_panel_of :: "admin_category admin_list_view \<Rightarrow> admin_category admin_panel" where
  "category_panel_of v = admin_panel_of category_labels cat_id cat_name v"

definition industry_panel_of :: "industry admin_list_view \<Rightarrow> industry admin_panel" where
  "industry_panel_of v = admin_panel_of industry_labels ind_id ind_name v"

subsection \<open>Facts\<close>

lemma admin_cards_admin_remove:
  "admin_cards key name (admin_remove key i xs) = filter (\<lambda>c. snd (snd c) \<noteq> Admin_Delete i) (admin_cards key name xs)"
  by (induction xs) (auto simp: admin_cards_def admin_remove_def)

lemma distinct_key_remove_length:
  "distinct (map key xs) \<Longrightarrow> i \<in> set (map key xs) \<Longrightarrow> length (admin_remove key i xs) = length xs - 1"
proof (induction xs)
  case (Cons a xs)
  show ?case
  proof (cases "key a = i")
    case True
    with Cons.prems have "\<forall>x \<in> set xs. key x \<noteq> i" by (auto simp: image_iff)
    with True show ?thesis by (simp add: admin_remove_def)
  next
    case False
    with Cons have "i \<in> set (map key xs)" "length (admin_remove key i xs) = length xs - 1" by auto
    with False show ?thesis by (cases xs) (auto simp: admin_remove_def)
  qed
qed simp

lemma admin_delete_then_ok:
  "admin_step name submit category_response (Admin_Response (length (al_pending v)) (Reply 200 c))
      (admin_step name submit category_response (Admin_Delete i) v) =
   v\<lparr>al_items := admin_remove cat_id i (al_items v)\<rparr>"
  by (simp add: axios_call_def status_2xx_def remove_nth_def)

subsection \<open>Properties of the rendered pages\<close>

text \<open>
  C22: CategoryPage.tsx, a rendered card's Delete button: in a reachable state, the click
  and a successful reply to that request remove exactly that card from the rendered
  page, and nothing else on the page changes.
\<close>

theorem category_delete_card_removed:
  assumes "category_reachable v"
      and "(n, e, Admin_Delete i) \<in> set (ap_cards (admin_panel_of category_labels cat_id cat_name v))"
  shows "let v' = category_step (Admin_Response (length (al_pending v)) (Reply 200 c)) (category_step (Admin_Delete i) v)
         in admin_panel_of category_labels cat_id cat_name v' =
              (admin_panel_of category_labels cat_id cat_name v)
                \<lparr>ap_cards := filter (\<lambda>d. snd (snd d) \<noteq> Admin_Delete i)
                               (ap_cards (admin_panel_of category_labels cat_id cat_name v))\<rparr> \<and>
            length (ap_cards (admin_panel_of category_labels cat_id cat_name v')) =
              length (ap_cards (admin_panel_of category_labels cat_id cat_name v)) - 1"
proof -
  have mem: "i \<in> set (map cat_id (al_items v))"
    using assms(2) by (auto simp: admin_panel_of_def admin_cards_def)
  have v': "category_step (Admin_Response (length (al_pending v)) (Reply 200 c)) (category_step (Admin_Delete i) v) =
            v\<lparr>al_items := admin_remove cat_id i (al_items v)\<rparr>"
    unfolding category_step_def by (rule admin_delete_then_ok)
  have "length (ap_cards (admin_panel_of category_labels cat_id cat_name (v\<lparr>al_items := admin_remove cat_id i (al_items v)\<rparr>))) =
        length (al_items v) - 1"
    using distinct_key_remove_length [OF category_reachable_inv [OF assms(1)] mem]
    by (simp add: admin_panel_of_def admin_cards_def)
  then show ?thesis
    by (simp add: v' admin_panel_of_def admin_cards_admin_remove Let_def) (simp add: admin_cards_def)
qed

theorem category_delete_card_removed_witness:
  "let c1 = \<lparr>cat_id = 1, cat_name = ''Design'', cat_created_at = [], cat_updated_at = []\<rparr>;
       c2 = \<lparr>cat_id = 2, cat_name = ''Sales'', cat_created_at = [], cat_updated_at = []\<rparr>;
       v = category_step (Admin_Loaded (Reply 200 [c1, c2])) admin_init;
       v' = category_step (Admin_Response 0 (Reply 200 c1)) (category_step (Admin_Delete 1) v)
   in ap_cards (admin_panel_of category_labels cat_id cat_name v') = [(''Sales'', Admin_Edit c2, Admin_Delete 2)] \<and>
      ap_heading (admin_panel_of category_labels cat_id cat_name v') = ''Add New Category''"
proof -
  let ?c1 = "\<lparr>cat_id = 1, cat_name = ''Design'', cat_created_at = [], cat_updated_at = []\<rparr>"
  let ?c2 = "\<lparr>cat_id = 2, cat_name = ''Sales'', cat_created_at = [], cat_updated_at = []\<rparr>"
  let ?v = "category_step (Admin_Loaded (Reply 200 [?c1, ?c2])) admin_init"
  have r: "category_reachable ?v"
    by (rule category_reachable.step [OF category_reachable.init]) simp
  have p: "al_pending ?v = []" and cards: "ap_cards (admin_panel_of category_labels cat_id cat_name ?v) =
      [(''Design'', Admin_Edit ?c1, Admin_Delete 1), (''Sales'', Admin_Edit ?c2, Admin_Delete 2)]"
    by (simp_all add: category_step_def admin_loaded_def admin_init_def axios_call_def status_2xx_def
                      admin_panel_of_def admin_cards_def)
  have "(''Design'', Admin_Edit ?c1, Admin_Delete 1) \<in> set (ap_cards (admin_panel_of category_labels cat_id cat_name ?v))"
    by (simp add: cards)
  from category_delete_card_removed [OF r this, of ?c1] show ?thesis
    by (simp add: p cards Let_def) (simp add: category_step_def admin_loaded_def admin_init_def axios_call_def
                                     status_2xx_def admin_panel_of_def category_labels_def)
qed

end
