(* ===== verification/ApplicantScreens.thy ===== *)
theory ApplicantScreens
  imports Applications
begin

text \<open>
  What Pages/ApplicantList.tsx renders (lines 152--333): the search field, the filter
  menu, one card per application with the selected one highlighted, and, for the
  selected application, the detail pane with its status badge (\<open>status[...]\<close>, lines
  51--56), the progress bar of \<open>getStageProgress\<close>, the contact and application details,
  the CV links, and the status select. Each button is kept as the event it fires, so a
  click on the rendered page is a step of theory Applications.
\<close>

definition status_labels :: "(string \<times> string) list" where
  "status_labels =
     [(''submitted'', ''Submitted''), (''reviewed'', ''Reviewed''), (''interview'', ''Interview''), (''offer'', ''Offer'')]"

text \<open>\<open>status[s]\<close>: the label, \<open>undefined\<close> for any other own key (inherited members of
  \<open>Object.prototype\<close> are not modelled).\<close>

definition status_label :: "string \<Rightarrow> jsval" where
  "status_label s = (case map_of status_labels s of Some l \<Rightarrow> JStr l | None \<Rightarrow> JUndef)"

definition status_options :: "string list" where
  "status_options = [''submitted'', ''reviewed'', ''interview'', ''offer'']"

definition filter_options :: "filter_option list" where
  "filter_options = [Newest, Oldest, Submitted, Reviewed, Interview, Offer]"

text \<open>\<open>application.first_name[0]\<close>: the first character, \<open>undefined\<close> for an empty name.\<close>

definition first_char :: "string \<Rightarrow> jsval" where
  "first_char s = (case s of [] \<Rightarrow> JUndef | c # _ \<Rightarrow> JStr [c])"

record applicant_card =
  ac_initial :: jsval
  ac_name :: string
  ac_email :: string
  ac_job_title :: string
  ac_highlighted :: bool
  ac_click :: applicants_event

definition applicant_card_of :: "application option \<Rightarrow> application \<Rightarrow> applicant_card" where
  "applicant_card_of sel a =
     \<lparr>ac_initial = first_char (app_first_name a), ac_name = app_first_name a, ac_email = app_email a,
      ac_job_title = app_job_title a,
      ac_highlighted = (case sel of Some s \<Rightarrow> app_id s = app_id a | None \<Rightarrow> False),
      ac_click = Ap_Select a\<rparr>"

definition cv_url :: "string \<Rightarrow> string" where
  "cv_url c = ''http://127.0.0.1:8000/storage/'' @ c"

record applicant_detail =
  ad_initial :: jsval
  ad_name :: string
  ad_badge :: jsval
  ad_progress :: rat
  ad_email :: string
  ad_phone :: string
  ad_linkedin :: string
  ad_job_title :: string
  ad_vacancy_link :: string
  ad_cv_links :: "string list"
  ad_status_events :: "applicants_event list"

text \<open>
  The detail pane: the CV buttons ("View CV", "Download CV") only for a truthy
  \<open>cv_link\<close>; the select offers the four statuses and fires \<open>handleStatusChange\<close>.
\<close>

definition applicant_detail_of :: "application \<Rightarrow> applicant_detail" where
  "applicant_detail_of a =
     \<lparr>ad_initial = first_char (app_first_name a), ad_name = app_first_name a,
      ad_badge = status_label (app_status a), ad_progress = stage_progress (app_status a),
      ad_email = app_email a, ad_phone = app_phone a, ad_linkedin = app_linkedin a,
      ad_job_title = app_job_title a,
      ad_vacancy_link = ''/company/vacancies/'' @ int_to_string (app_vacancy_id a),
      ad_cv_links = (case app_cv_link a of Some c \<Rightarrow> if c \<noteq> [] then [cv_url c, cv_url c] else [] | None \<Rightarrow> []),
      ad_status_events = map Ap_Change_Status status_options\<rparr>"

record applicants_screen =
  as_search :: string
  as_filter_events :: "applicants_event list"
  as_cards :: "applicant_card list"
  as_detail :: "applicant_detail option"
  as_mobile_shows_detail :: bool

definition applicants_screen_of :: "applicants_view \<Rightarrow> applicants_screen" where
  "applicants_screen_of v =
     \<lparr>as_search = ap_search v, as_filter_events = map Ap_Pick_Filter filter_options,
      as_cards = map (applicant_card_of (ap_selected v)) (ap_applications v),
      as_detail = map_option applicant_detail_of (ap_selected v),
      as_mobile_shows_detail = ap_mobile_detail v\<rparr>"

subsection \<open>Facts\<close>

lemma status_label_defined_iff: "status_label s \<noteq> JUndef \<longleftrightarrow> s \<in> set stages"
  by (auto simp: status_label_def status_labels_def stages_def)

lemma status_options_stages: "set status_options = set stages"
  by (simp add: status_options_def stages_def)

lemma stage_progress_pos: "s \<in> set stages \<Longrightarrow> 0 < stage_progress s"
  by (auto simp: stage_progress_def stages_def)

lemma change_then_settle:
  assumes "ap_selected v = Some a" "ap_next v \<notin> fst ` set (ap_status_reqs v)" "status_2xx s"
  shows "ap_selected (applicants_step (applicants_step v (Ap_Change_Status st)) (Ap_Status_Response (ap_next v) (Reply s ()))) =
           Some (a\<lparr>app_status := st\<rparr>)"
proof -
  have "map_of (ap_status_reqs v) (ap_next v) = None"
    using assms(2) by (simp add: map_of_eq_None_iff)
  then have "map_of (ap_status_reqs v @ [(ap_next v, a, st)]) (ap_next v) = Some (a, st)"
    by (simp add: map_add_def)
  with assms show ?thesis
    by (simp add: applicants_step_def change_status_def settle_status_def axios_call_def Let_def)
qed

subsection \<open>Properties of the rendered page\<close>

text \<open>
  C24: ApplicantList.tsx, the status select of the detail pane: every status it offers,
  once its request succeeds, shows the selected applicant with a defined badge and a
  positive progress bar; a status outside the four (say one the backend adds) shows no
  badge and an empty progress bar.
\<close>

theorem status_select_shown:
  assumes "ap_selected v = Some a" "ap_next v \<notin> fst ` set (ap_status_reqs v)" "status_2xx s"
      and "e \<in> set (ad_status_events (applicant_detail_of a))"
  shows "(\<exists>st d. e = Ap_Change_Status st \<and>
            as_detail (applicants_screen_of (applicants_step (applicants_step v e) (Ap_Status_Response (ap_next v) (Reply s ())))) =
              Some d \<and>
            ad_name d = app_first_name a \<and> ad_badge d = status_label st \<and> ad_badge d \<noteq> JUndef \<and> 0 < ad_progress d) \<and>
         (app_status b \<notin> set stages \<longrightarrow>
            ad_badge (applicant_detail_of b) = JUndef \<and> ad_progress (applicant_detail_of b) = 0)"
proof -
  obtain st where e: "e = Ap_Change_Status st" and st: "st \<in> set stages"
    using assms(4) status_options_stages by (auto simp: applicant_detail_of_def)
  have sel: "ap_selected (applicants_step (applicants_step v e) (Ap_Status_Response (ap_next v) (Reply s ()))) =
               Some (a\<lparr>app_status := st\<rparr>)"
    using change_then_settle [OF assms(1-3)] by (simp add: e)
  have "app_status b \<notin> set stages \<Longrightarrow> stage_progress (app_status b) = 0"
    using index_of_neg_iff [of stages "app_status b"] by (simp add: stage_progress_def)
  then show ?thesis
    using st sel status_label_defined_iff [of st] status_label_defined_iff [of "app_status b"] stage_progress_pos [OF st]
    by (auto simp: e applicants_screen_of_def applicant_detail_of_def)
qed

theorem status_select_shown_witness:
  "let a = \<lparr>app_id = 1, app_vacancy_id = 9, app_first_name = ''Ann'', app_email = [], app_phone = [],
            app_status = ''submitted'', app_job_title = [], app_linkedin = [], app_cv_link = None, app_created_at = []\<rparr>;
       v = applicants_hooks\<lparr>ap_applications := [a], ap_selected := Some a\<rparr>;
       v2 = applicants_step (applicants_step v (Ap_Change_Status ''offer'')) (Ap_Status_Response 0 (Reply 200 ()))
   in as_detail (applicants_screen_of v2) \<noteq> None \<and>
      ad_badge (the (as_detail (applicants_screen_of v2))) = JStr ''Offer'' \<and>
      ad_progress (the (as_detail (applicants_screen_of v2))) = 100 \<and>
      ad_badge (applicant_detail_of (a\<lparr>app_status := ''rejected''\<rparr>)) = JUndef"
proof -
  let ?a = "\<lparr>app_id = 1, app_vacancy_id = 9, app_first_name = ''Ann'', app_email = [], app_phone = [],
            app_status = ''submitted'', app_job_title = [], app_linkedin = [], app_cv_link = None, app_created_at = []\<rparr>"
  let ?v = "applicants_hooks\<lparr>ap_applications := [?a], ap_selected := Some ?a\<rparr>"
  have "Ap_Change_Status ''offer'' \<in> set (ad_status_events (applicant_detail_of ?a))"
    by (simp add: applicant_detail_of_def status_options_def)
  from status_select_shown [of ?v ?a 200, OF _ _ _ this, where b = "?a\<lparr>app_status := ''rejected''\<rparr>"]
  show ?thesis
    by (simp add: applicants_hooks_def status_2xx_def Let_def applicants_step_def change_status_def
                  settle_status_def axios_call_def applicants_screen_of_def applicant_detail_of_def
                  status_label_def status_labels_def stage_progress_def stages_def stages_def)
qed

end
