(* ===== verification/VacancyFormPages.thy ===== *)
theory VacancyFormPages
  imports VacancyForms
begin

text \<open>
  The two vacancy forms as pages: each holds, beside its form, the categories its mount
  effect fetches once (\<open>fetchCategories\<close>, AddVacancy.tsx lines 130--146 and
  VacancyEdit.tsx lines 228--243), and offers them in a Radix \<open>Select\<close> whose items have
  the values \<open>category.id.toString()\<close>. A Radix select reports only the value of an
  item, so a category is picked by its position among the rendered items; it shows the
  item whose value is \<open>===\<close> to its \<open>value\<close> prop.
\<close>

record av_page =
  avp_form :: vacancy_form
  avp_categories :: "(entity_id \<times> string) list"
  avp_categories_pending :: bool

definition av_page_init :: av_page where
  "av_page_init = \<lparr>avp_form = vacancy_form_init, avp_categories = [], avp_categories_pending = True\<rparr>"

datatype av_page_event =
    Avp_Categories "(entity_id \<times> string) list outcome"
  | Avp_Pick_Category nat
  | Avp_Form vf_event

text \<open>The category select's own events go through \<open>Avp_Pick_Category\<close>.\<close>

fun picks_category :: "vf_event \<Rightarrow> bool" where
  "picks_category (Vf_Select n x) = (n = ''categoryId'')"
| "picks_category _ = False"

fun av_page_step :: "av_page \<Rightarrow> av_page_event \<Rightarrow> av_page" where
  "av_page_step p (Avp_Categories r) =
     (if avp_categories_pending p
      then p\<lparr>avp_categories := form_categories_load r (avp_categories p), avp_categories_pending := False\<rparr>
      else p)"
| "av_page_step p (Avp_Pick_Category k) =
     (let opts = category_options (avp_categories p) in
      if k < length opts then p\<lparr>avp_form := vf_select ''categoryId'' (fst (opts ! k)) (avp_form p)\<rparr> else p)"
| "av_page_step p (Avp_Form e) = (if picks_category e then p else p\<lparr>avp_form := vf_step (avp_form p) e\<rparr>)"

inductive av_page_reachable :: "av_page \<Rightarrow> bool" where
  init: "av_page_reachable av_page_init"
| step: "av_page_reachable p \<Longrightarrow> av_page_reachable (av_page_step p e)"

record ve_page =
  vep_vacancy :: "edit_vacancy option"
  vep_categories :: "(entity_id \<times> string) list"
  vep_categories_pending :: bool

definition ve_page_init :: ve_page where
  "ve_page_init = \<lparr>vep_vacancy = None, vep_categories = [], vep_categories_pending = True\<rparr>"

definition ve_page_categories :: "(entity_id \<times> string) list outcome \<Rightarrow> ve_page \<Rightarrow> ve_page" where
  "ve_page_categories r p =
     (if vep_categories_pending p
      then p\<lparr>vep_categories := form_categories_load r (vep_categories p), vep_categories_pending := False\<rparr>
      else p)"

text \<open>
  The item the edit form's category select shows (lines 271--279):
  \<open>value={vacancy?.categoryId}\<close> against the items' string values.
\<close>

definition ve_category_shown :: "ve_page \<Rightarrow> (string \<times> string) option" where
  "ve_category_shown p =
     (case vep_vacancy p of
        None \<Rightarrow> None
      | Some v \<Rightarrow> find (\<lambda>(x, _). strict_eq (ev_category_id v) (JStr x)) (category_options (vep_categories p)))"

subsection \<open>Facts\<close>

lemma vf_set_array_category_id [simp]: "vf_category_id (vf_set_array a xs f) = vf_category_id f"
  by (cases a) simp_all

lemma vf_step_category_id:
  "\<not> picks_category e \<Longrightarrow> vf_category_id (vf_step f e) = vf_category_id f"
  by (cases e) (auto simp: vf_input_def vf_select_def vf_switch_def)

lemma int_to_string_inj: "int_to_string i = int_to_string j \<longleftrightarrow> i = j"
  by (metis parse_int_int_to_string jsval.inject(2))

subsection \<open>Properties of the form pages\<close>

text \<open>
  C25: AddVacancy.tsx, in every reachable state of the page the category the form holds,
  and sends as \<open>categoryId\<close>, is either none or the string id of a category the page
  fetched.
\<close>

theorem av_category_from_loaded:
  assumes "av_page_reachable p"
  shows "vf_category_id (avp_form p) = [] \<or>
         (\<exists>i n. (i, n) \<in> set (avp_categories p) \<and> vf_category_id (avp_form p) = int_to_string i \<and>
                map_of (add_vacancy_payload (avp_form p)) ''categoryId'' = Some (F_Val (JStr (int_to_string i))))"
proof -
  have "(avp_categories_pending p \<longrightarrow> avp_categories p = [] \<and> vf_category_id (avp_form p) = []) \<and>
        (vf_category_id (avp_form p) = [] \<or>
         (\<exists>i n. (i, n) \<in> set (avp_categories p) \<and> vf_category_id (avp_form p) = int_to_string i))"
    using assms
  proof (induction rule: av_page_reachable.induct)
    case init
    then show ?case by (simp add: av_page_init_def vacancy_form_init_def)
  next
    case (step p e)
    then show ?case
    proof (cases e)
      case (Avp_Categories r)
      with step show ?thesis by (auto simp: form_categories_load_def split: sum.split)
    next
      case (Avp_Pick_Category k)
      show ?thesis
      proof (cases "k < length (category_options (avp_categories p))")
        case True
        then obtain i n where "avp_categories p ! k = (i, n)" "(i, n) \<in> set (avp_categories p)"
          by (metis category_options_def length_map nth_mem prod.exhaust)
        with True step Avp_Pick_Category show ?thesis
          by (auto simp: Let_def vf_select_def category_options_def)
      qed (use step Avp_Pick_Category in \<open>auto simp: Let_def\<close>)
    next
      case (Avp_Form e')
      with step show ?thesis by (auto simp: vf_step_category_id)
    qed
  qed
  then show ?thesis by (auto simp: add_vacancy_payload_def)
qed

theorem av_category_from_loaded_witness:
  "let p = av_page_step (av_page_step av_page_init (Avp_Categories (Reply 200 [(7, ''Design'')]))) (Avp_Pick_Category 0)
   in vf_category_id (avp_form p) = int_to_string 7 \<and> (7, ''Design'') \<in> set (avp_categories p)"
proof -
  let ?p = "av_page_step (av_page_step av_page_init (Avp_Categories (Reply 200 [(7, ''Design'')]))) (Avp_Pick_Category 0)"
  have r: "av_page_reachable ?p" by (intro av_page_reachable.step av_page_reachable.init)
  have "avp_categories ?p = [(7, ''Design'')]"
    by (simp add: av_page_init_def form_categories_load_def axios_call_def status_2xx_def Let_def)
  moreover have "vf_category_id (avp_form ?p) \<noteq> []"
    by (simp add: av_page_init_def form_categories_load_def axios_call_def status_2xx_def Let_def
                  category_options_def vf_select_def int_to_string_def)
  ultimately show ?thesis
    using av_category_from_loaded [OF r] by (auto simp: Let_def)
qed

text \<open>
  C26: VacancyEdit.tsx, the category select: it shows a category only when the loaded
  \<open>categoryId\<close> is the string of a fetched id; a numeric \<open>categoryId\<close> never matches
  the string item values, and the select shows its placeholder.
\<close>

theorem ve_category_select_shown:
  assumes "vep_vacancy p = Some v"
  shows "((\<exists>n. ev_category_id v = JNum n) \<longrightarrow> ve_category_shown p = None) \<and>
         (ev_category_id v = JStr (int_to_string i) \<and> i \<in> fst ` set (vep_categories p) \<longrightarrow>
            (\<exists>n. ve_category_shown p = Some (int_to_string i, n)))"
proof -
  have none: "(\<exists>n. ev_category_id v = JNum n) \<longrightarrow> ve_category_shown p = None"
    using assms by (auto simp: ve_category_shown_def find_None_iff)
  have "ev_category_id v = JStr (int_to_string i) \<Longrightarrow> i \<in> fst ` set (vep_categories p) \<Longrightarrow>
        \<exists>n. ve_category_shown p = Some (int_to_string i, n)"
  proof -
    assume c: "ev_category_id v = JStr (int_to_string i)" and m: "i \<in> fst ` set (vep_categories p)"
    then have "\<exists>x \<in> set (category_options (vep_categories p)). (\<lambda>(x, _). strict_eq (ev_category_id v) (JStr x)) x"
      by (force simp: category_options_def)
    then obtain y where y: "find (\<lambda>(x, _). strict_eq (ev_category_id v) (JStr x)) (category_options (vep_categories p)) = Some y"
      by (metis find_None_iff not_Some_eq)
    then have "(\<lambda>(x, _). strict_eq (ev_category_id v) (JStr x)) y" by (metis find_Some_iff)
    with c have "fst y = int_to_string i" by (auto split: prod.splits)
    then have "y = (int_to_string i, snd y)" by (cases y) simp
    with y assms show ?thesis by (auto simp: ve_category_shown_def)
  qed
  with none show ?thesis by blast
qed

theorem ve_category_select_shown_witness:
  "ve_category_shown \<lparr>vep_vacancy = Some \<lparr>ev_id = 1, ev_title = [], ev_category_id = JNum 7, ev_is_remote = False,
        ev_is_active = True, ev_job_type = [], ev_seniority_level = [], ev_city = [], ev_state = [],
        ev_country = JUndef, ev_description = [], ev_country_code = [], ev_salary = JNull,
        ev_job_overview = F_Strs [], ev_job_role = F_Strs [], ev_job_responsibilities = [], ev_you_have_text = []\<rparr>,
      vep_categories = [(7, ''Design'')], vep_categories_pending = False\<rparr> = None"
  using ve_category_select_shown [of "\<lparr>vep_vacancy = Some \<lparr>ev_id = 1, ev_title = [], ev_category_id = JNum 7,
        ev_is_remote = False, ev_is_active = True, ev_job_type = [], ev_seniority_level = [], ev_city = [],
        ev_state = [], ev_country = JUndef, ev_description = [], ev_country_code = [], ev_salary = JNull,
        ev_job_overview = F_Strs [], ev_job_role = F_Strs [], ev_job_responsibilities = [], ev_you_have_text = []\<rparr>,
      vep_categories = [(7, ''Design'')], vep_categories_pending = False\<rparr>" _ 7]
  by simp

end
