(* ===== verification/AdminNavigation.thy ===== *)
theory AdminNavigation
  imports AdminScreens AdminPages DetailViews Navigation
begin

text \<open>
  The admin area's layout Pages/Admin/AdminDashboardLayout.tsx: a sidebar built from the
  constant list \<open>sidebarItems\<close> (lines 9--15) and an \<open>Outlet\<close> for the admin page of the
  current route. The layout has no state; what it fixes is where the admin pages can
  send the user. The icons are presentation and not kept; the sidebar component itself
  (\<open>DynamicSidebar\<close>) and the router are not in the repository.
\<close>

record sidebar_item =
  si_name :: string
  si_path :: string

definition admin_sidebar_items :: "sidebar_item list" where
  "admin_sidebar_items =
     [\<lparr>si_name = ''Industries'', si_path = ''/admin/industries''\<rparr>,
      \<lparr>si_name = ''Vacancies'', si_path = ''/admin/vacancies''\<rparr>,
      \<lparr>si_name = ''Categories'', si_path = ''/admin/categories''\<rparr>,
      \<lparr>si_name = ''Companies'', si_path = ''/admin/companies''\<rparr>,
      \<lparr>si_name = ''Blogs'', si_path = ''/admin/blogs''\<rparr>]"

definition sidebar_paths :: "string list" where
  "sidebar_paths = map si_path admin_sidebar_items"

text \<open>A path inside the admin area: \<open>/admin/\<close> followed by at least one character.\<close>

definition in_admin_area :: "string \<Rightarrow> bool" where
  "in_admin_area p \<longleftrightarrow> prefix ''/admin/'' p \<and> p \<noteq> ''/admin/''"

text \<open>
  The layout's render (lines 17--26): the sidebar with the items above, and the page of the
  current route in the \<open>Outlet\<close>.
\<close>

definition admin_dashboard_layout :: "'p \<Rightarrow> sidebar_item list \<times> 'p" where
  "admin_dashboard_layout outlet = (admin_sidebar_items, outlet)"

text \<open>
  The sidebar section a path belongs to: the item whose path it is, or whose path followed
  by \<open>/\<close> starts it; \<open>None\<close> outside every section.
\<close>

definition sidebar_section :: "string \<Rightarrow> string option" where
  "sidebar_section p =
     map_option si_name (find (\<lambda>i. p = si_path i \<or> prefix (si_path i @ ''/'') p) admin_sidebar_items)"

subsection \<open>Facts\<close>

lemma sidebar_distinct: "distinct sidebar_paths \<and> distinct (map si_name admin_sidebar_items)"
  by (simp add: sidebar_paths_def admin_sidebar_items_def)

lemma sidebar_in_admin_area: "p \<in> set sidebar_paths \<Longrightarrow> in_admin_area p"
  by (auto simp: sidebar_paths_def admin_sidebar_items_def in_admin_area_def)

lemma sidebar_section_lists:
  "sidebar_section ''/admin/vacancies'' = Some ''Vacancies''"
  "sidebar_section ''/admin/blogs'' = Some ''Blogs''"
  "sidebar_section ''/blogs'' = None"
  by (simp_all add: sidebar_section_def admin_sidebar_items_def)

text \<open>
  BlogEditPage.tsx, \<open>handleSubmit\<close>: the one navigation of the page's save is to the
  public blog list \<open>/blogs\<close>, which lies outside every sidebar section of the admin area.
\<close>

lemma blog_edit_save_leaves_admin:
  assumes "blog_edit_step v e = (v', Some p)"
  shows "p = ''/blogs'' \<and> sidebar_section p = None"
proof -
  have "p = ''/blogs''"
    using assms by (cases e) (auto split: option.splits sum.splits if_splits)
  then show ?thesis by (simp add: sidebar_section_lists)
qed

theorem blog_edit_save_leaves_admin_witness:
  "blog_edit_step (blog_edit_init\<lparr>bev_saving := True, bev_requests := [''{}'']\<rparr>) (Be_Save_Response 0 (Reply 200 ())) =
     (blog_edit_init, Some ''/blogs'') \<and> sidebar_section ''/blogs'' = None"
proof -
  have s: "blog_edit_step (blog_edit_init\<lparr>bev_saving := True, bev_requests := [''{}'']\<rparr>) (Be_Save_Response 0 (Reply 200 ())) =
     (blog_edit_init, Some ''/blogs'')"
    by (simp add: blog_edit_init_def fetch_call_def status_2xx_def)
  with blog_edit_save_leaves_admin [OF s] show ?thesis by simp
qed

end
