(* ===== verification/AddVacancyScreen.thy ===== *)
theory AddVacancyScreen
  imports VacancyFormPages
begin

text \<open>
  What AddVacancy.tsx renders (lines 191--391) and which events its controls can fire. The
  page is a list of controls in the order of the markup, each carrying the value it
  shows and, through \<open>av_control_fires\<close>, the events of \<open>av_page_step\<close> it can send: a
  text input sends \<open>handleInputChange\<close> with its name and any text, a select one of its
  items, a list row an edit or its removal, a switch either position. The category select
  is the page's own event (\<open>Avp_Pick_Category\<close>). The categories' response comes from the
  mount effect, not from a control. A user session is then a sequence of events each fired
  by a control of the screen rendered at that moment (\<open>av_ui_reachable\<close>).
\<close>

datatype av_control =
    Ctl_Link string
  | Ctl_Text string string
  | Ctl_Category_Select nat
  | Ctl_Select string "string list"
  | Ctl_Row array_field nat string
  | Ctl_Add array_field
  | Ctl_Switch string bool
  | Ctl_Submit

text \<open>
  A list section (lines 289--367): one row per item, \<open>value={item}\<close>, with its index, and the
  section's Add button. Four sections are rendered: Job Overview, Job Role, Job
  Responsibilities and You Have.
\<close>

definition av_list_section :: "array_field \<Rightarrow> vacancy_form \<Rightarrow> av_control list" where
  "av_list_section a f = map (\<lambda>(i, x). Ctl_Row a i x) (enumerate 0 (vf_array a f)) @ [Ctl_Add a]"

definition av_screen_of :: "av_page \<Rightarrow> av_control list" where
  "av_screen_of p =
     (let f = avp_form p in
      [Ctl_Link ''/company/vacancies'',
       Ctl_Text ''title'' (vf_title f),
       Ctl_Category_Select (length (avp_categories p)),
       Ctl_Select ''jobType'' form_job_types,
       Ctl_Select ''seniorityLevel'' form_seniority_levels,
       Ctl_Text ''salary'' (vf_salary f),
       Ctl_Select ''countryCode'' (map fst av_country_mapping),
       Ctl_Text ''state'' (vf_state f),
       Ctl_Text ''city'' (vf_city f),
       Ctl_Text ''description'' (vf_description f)]
      @ av_list_section Job_Overview f @ av_list_section Job_Role f
      @ av_list_section Job_Responsibilities f @ av_list_section You_Have_Text f
      @ [Ctl_Switch ''isRemote'' (vf_is_remote f), Ctl_Switch ''isActive'' (vf_is_active f), Ctl_Submit])"

text \<open>
  The events a control fires: \<open>onChange\<close> of an input, \<open>onValueChange\<close> of a select with one
  of its items, a row's \<open>handleArrayChange\<close> and \<open>removeArrayItem\<close> with the row's index,
  \<open>addArrayItem\<close>, \<open>onCheckedChange\<close>. The link navigates and the submit button submits the
  form (\<open>add_vacancy_submit\<close>); neither changes the page's state.
\<close>

fun av_control_fires :: "av_control \<Rightarrow> av_page_event \<Rightarrow> bool" where
  "av_control_fires (Ctl_Text n _) (Avp_Form (Vf_Input m _)) = (m = n)"
| "av_control_fires (Ctl_Category_Select k) (Avp_Pick_Category j) = (j < k)"
| "av_control_fires (Ctl_Select n vs) (Avp_Form (Vf_Select m x)) = (m = n \<and> x \<in> set vs)"
| "av_control_fires (Ctl_Row a i _) (Avp_Form (Vf_Array_Change j _ b)) = (j = i \<and> b = a)"
| "av_control_fires (Ctl_Row a i _) (Avp_Form (Vf_Remove_Item j b)) = (j = i \<and> b = a)"
| "av_control_fires (Ctl_Add a) (Avp_Form (Vf_Add_Item b)) = (b = a)"
| "av_control_fires (Ctl_Switch n _) (Avp_Form (Vf_Switch m _)) = (m = n)"
| "av_control_fires _ _ = False"

definition av_ui_event :: "av_page \<Rightarrow> av_page_event \<Rightarrow> bool" where
  "av_ui_event p e \<longleftrightarrow>
     (case e of Avp_Categories _ \<Rightarrow> True | _ \<Rightarrow> list_ex (\<lambda>c. av_control_fires c e) (av_screen_of p))"

inductive av_ui_reachable :: "av_page \<Rightarrow> bool" where
  init: "av_ui_reachable av_page_init"
| step: "av_ui_reachable p \<Longrightarrow> av_ui_event p e \<Longrightarrow> av_ui_reachable (av_page_step p e)"

text \<open>
  The submit button (line 388) submits the form, and the browser runs \<open>handleSubmit\<close> only
  when the form passes constraint validation: every rendered input or textarea marked
  \<open>required\<close> (title, state, description and every row of the four list sections) is
  non-empty. The three Radix selects marked \<open>required\<close> delegate the check to the
  library's hidden native select, which is not in the repository; leaving them out can
  only admit more submits.
\<close>

definition av_form_valid :: "vacancy_form \<Rightarrow> bool" where
  "av_form_valid f \<longleftrightarrow>
     vf_title f \<noteq> [] \<and> vf_state f \<noteq> [] \<and> vf_description f \<noteq> [] \<and>
     list_all (\<lambda>x. x \<noteq> []) (vf_job_overview f @ vf_job_role f @ vf_job_responsibilities f @ vf_you_have_text f)"

definition av_page_submit :: "unit outcome \<Rightarrow> av_page \<Rightarrow> ((string \<times> json_field) list \<times> string option) option" where
  "av_page_submit r p = (if av_form_valid (avp_form p) then Some (add_vacancy_submit r (avp_form p)) else None)"

subsection \<open>Facts\<close>

lemma av_ui_reachable_page: "av_ui_reachable p \<Longrightarrow> av_page_reachable p"
  by (induction rule: av_ui_reachable.induct) (auto intro: av_page_reachable.intros)

lemma av_screen_fields:
  "Ctl_Row a i x \<in> set (av_screen_of p) \<Longrightarrow> a \<noteq> Requirements"
  "Ctl_Add a \<in> set (av_screen_of p) \<Longrightarrow> a \<noteq> Requirements"
  by (auto simp: av_screen_of_def av_list_section_def Let_def)

lemma vf_set_array_requirements:
  "a \<noteq> Requirements \<Longrightarrow> vf_requirements (vf_set_array a xs f) = vf_requirements f"
  by (cases a) simp_all

lemma av_ui_event_not_requirements:
  "av_ui_event p (Avp_Form e) \<Longrightarrow> vf_requirements (vf_step f e) = vf_requirements f"
proof -
  assume "av_ui_event p (Avp_Form e)"
  then obtain c where c: "c \<in> set (av_screen_of p)" "av_control_fires c (Avp_Form e)"
    by (auto simp: av_ui_event_def list_ex_iff)
  then show ?thesis
    by (cases c rule: av_control.exhaust; cases e rule: vf_event.exhaust)
       (auto simp: vf_input_def vf_select_def vf_switch_def vf_set_array_requirements dest: av_screen_fields)
qed

lemma av_page_submit_nonempty_lists:
  "av_page_submit r p = Some (body, nav) \<Longrightarrow>
     [] \<notin> set (vf_job_overview (avp_form p)) \<and> [] \<notin> set (vf_job_role (avp_form p)) \<and>
     body = add_vacancy_payload (avp_form p)"
  by (auto simp: av_page_submit_def av_form_valid_def add_vacancy_submit_def list_all_iff split: if_splits)

lemma non_blank_single_empty: "non_blank [[]] = []"
  by (simp add: non_blank_def js_trim_def)

text \<open>
  C27: AddVacancy.tsx, \<open>requirements\<close>: the field is in \<open>formData\<close>, in the type of every list
  handler and in the payload, but no section of the page renders it, so no control edits
  it. In every state a user reaches through the rendered page it is still \<open>['']\<close>, and the
  form submits \<open>requirements: []\<close>.
\<close>

theorem requirements_never_edited:
  assumes "av_ui_reachable p"
  shows "vf_requirements (avp_form p) = [[]] \<and>
         map_of (add_vacancy_payload (avp_form p)) ''requirements'' = Some (F_Strs [])"
proof -
  from assms have "vf_requirements (avp_form p) = [[]]"
  proof (induction rule: av_ui_reachable.induct)
    case init
    show ?case by (simp add: av_page_init_def vacancy_form_init_def)
  next
    case (step p e)
    then show ?case
      by (cases e) (auto simp: Let_def vf_select_def av_ui_event_not_requirements)
  qed
  then show ?thesis by (simp add: add_vacancy_payload_def non_blank_single_empty)
qed

theorem requirements_never_edited_witness:
  "vf_requirements (avp_form (av_page_step av_page_init (Avp_Form (Vf_Add_Item Job_Role)))) = [[]] \<and>
   map_of (add_vacancy_payload (avp_form (av_page_step av_page_init (Avp_Form (Vf_Add_Item Job_Role)))))
     ''requirements'' = Some (F_Strs [])"
proof -
  have "av_ui_event av_page_init (Avp_Form (Vf_Add_Item Job_Role))"
    by (simp add: av_ui_event_def av_screen_of_def av_list_section_def Let_def list_ex_iff)
  then show ?thesis
    by (rule requirements_never_edited [OF av_ui_reachable.step [OF av_ui_reachable.init]])
qed

end
