(* ===== verification/Spec2Isabelle.thy ===== *)
theory Spec2Isabelle
  imports BlogList JobSearch JobSearchScreen DependentFetch AdminCrud StartupBrowse Applications AdminPages Navigation VacancyForms JobListing DetailViews BlogScreens AdminScreens ApplicantScreens VacancyFormPages AdminNavigation AddVacancyScreen
begin

text \<open>
  \<^bold>\<open>Job portal front end: verification development.\<close>
  The program is a React single-page application (src/src). Every screen has the same
  shape: on mount it requests data from a remote HTTP API, keeps it in \<open>useState\<close> hooks,
  renders it, and turns user intents (a filter click, typing, a form submit) into new state
  and new requests. There is no shared store: the screens interact only through the
  backend and through routing (a route parameter passed from a list to a detail screen).

  \<^bold>\<open>Semantics of a screen.\<close> A screen's state is a record with one field per hook.
  An event is one handler run: its \<open>setX\<close> calls, then every effect whose dependency list
  changed (compared with \<open>Object.is\<close>), so the states of the model are the settled states
  between events. A handler reads the state of the render it was created in (a stale
  closure); an effect reads the new state. A request is a separate value: the requests in
  flight are a list in the state and each response is an event of its own, so every
  order in which responses arrive is a sequence of events, and reachability predicates
  (\<open>inductive\<close>) range over all of them.

  \<^bold>\<open>Theories.\<close>
  \<^item> Prelude: the \<open>map_where\<close> idiom (\<open>xs.map(x => p(x) ? f(x) : x)\<close>) and list facts
    for filtering and truncation.
  \<^item> JsRuntime: JavaScript values (\<open>jsval\<close>), truthiness, \<open>===\<close>, \<open>String(n)\<close>,
    \<open>parseInt\<close>, \<open>trim\<close>; numbers are integers (the views only read ids, counts and
    salaries), whitespace is the ASCII part of ECMAScript's set.
  \<^item> Http: the remote resource client (spec 4.1). \<open>axios_call\<close> (axios rejects transport
    failures and non-2xx), \<open>fetch_call\<close> (fetch rejects only transport failures), the
    dead guard \<open>!response.status === 200\<close> of FindJobs.jsx and JobDetails.jsx, and the
    \<open>URLSearchParams\<close> serializer with its parser and their round trip.
  \<^item> BlogList: Components/Blog/Blogs.jsx (\<open>blogs_view\<close>, \<open>blogs_handle\<close>, the filter
    effect \<open>blogs_filter_effect\<close>, the category chips) and BlogDetail.jsx
    (\<open>blog_detail_load\<close>: the post, then all posts filtered to related ones).
  \<^item> JobSearch: Components/Find-Jobs/FindJobs.jsx. \<open>find_jobs_view\<close> holds the hooks,
    \<open>find_jobs_query\<close> the query of \<open>fetchJobs\<close>, \<open>fj_handler\<close> the handlers,
    \<open>fj_deps\<close> the effect's dependency list, \<open>fj_step\<close> a step including
    \<open>Jobs_Response\<close> events that settle any request in flight, \<open>load_job_counts\<close> the
    per-category counts of \<open>Promise.all\<close>.
  \<^item> DependentFetch: the dependent fetch orchestrator (spec 4.3) as the abstract
    \<open>load_detail_spec\<close>, and JobDetails.jsx (vacancy then company, the application form
    and its submission, the handlers that navigate returning their target beside the
    state) and Pages/Admin/VacancyViewAdmin.tsx (vacancy then category).
  \<^item> AdminCrud: Pages/Admin/CategoryPage.tsx and IndustryPage.tsx: one view record,
    event type and step \<open>admin_step\<close> shared by both pages, each page's submit and
    response handlers, and the catalogue abstraction \<open>catalog\<close> (id to name).
  \<^item> StartupBrowse: Components/BrowseSturtups/Browse.jsx: \<open>browse_view\<close> (hooks),
    \<open>browse_query\<close> (the \<open>params\<close> of \<open>companies()\<close>), \<open>browse_handler\<close>,
    \<open>browse_deps\<close>, \<open>settle_companies\<close> and \<open>fetch_industries\<close> with the per-industry
    counts of \<open>Promise.all\<close>. The static \<open>Companies.json\<close> is not in the repository and
    is a parameter \<open>cd\<close> of the step.
  \<^item> Applications: Pages/ApplicantList.tsx: the list query (\<open>applications_url\<close>), the
    selection, \<open>change_status\<close>/\<open>settle_status\<close> with the application the handler
    captured, the JSON body of the status request, \<open>stage_progress\<close> (rationals, as the
    division of \<open>getStageProgress\<close> is exact on its inputs).
  \<^item> Json: \<open>JSON.stringify\<close> of the values the views send (\<open>json_string\<close>,
    \<open>json_value\<close>, \<open>json_object\<close>) and the \<open>json_field\<close> type of a vacancy property
    (a scalar, an array of strings, or a typed number).
  \<^item> AdminPages: Pages/Admin/VacancyEditAdmin.tsx (block/unblock), BlogPage.tsx (the
    table with its loading and error states) and BlogEditPage.tsx (edit and \<open>PUT\<close>; the
    form submits only through its Save button, under its \<open>disabled\<close> prop and the
    \<open>required\<close> inputs, \<open>blog_edit_ui_step\<close>).
  \<^item> VacancyForms: Pages/AddVacancy.tsx (\<open>vf_step\<close>, \<open>add_vacancy_payload\<close>) and
    Pages/VacancyEdit.tsx (\<open>ve_step\<close>, \<open>vacancy_edit_data\<close>, \<open>ve_submit\<close>; the overview
    and role hold the JSON value loaded until their text area replaces it), and the
    vocabulary the vacancy screens share (countries, job types, seniority levels, labels).
  \<^item> VacancyFormPages: both forms as pages with the categories they fetch once and the
    Radix category select (\<open>av_page_step\<close>, \<open>ve_category_shown\<close>).
  \<^item> AddVacancyScreen: what AddVacancy.tsx renders, as the list of its controls
    (\<open>av_screen_of\<close>) with the events each can fire (\<open>av_control_fires\<close>); a user session is
    a sequence of events fired by the controls on screen (\<open>av_ui_reachable\<close>), and a submit
    passes the \<open>required\<close> inputs' constraint validation (\<open>av_page_submit\<close>).
  \<^item> Navigation: Components/Navbar.jsx (\<open>navbar_step\<close>, links, \<open>nav_buttons\<close>).
  \<^item> JobSearchProgress: \<open>fj_drain\<close>, the network answering FindJobs' requests in flight
    one by one (a \<open>function\<close> whose termination measure is the number of requests in
    flight), and the progress theorem that the page then settles.
  \<^item> JobListing: the rendered job list of FindJobs.jsx (\<open>job_card_of\<close>,
    \<open>jobs_panel_of\<close>) with \<open>format_time_ago\<close>; the clock and \<open>Date\<close> parsing enter as
    the elapsed milliseconds (\<open>None\<close> for an unparsable date).
  \<^item> JobSearchScreen: the search bar and filter panel of FindJobs.jsx
    (\<open>fj_filters_screen_of\<close>) and the page as the pair of the hooks and the state the
    browser keeps for the uncontrolled remote radio and salary selects
    (\<open>fj_page_step\<close>).
  \<^item> DetailViews: what JobDetails.jsx (\<open>job_details_markup_of\<close>, \<open>application_modal_of\<close>)
    and VacancyViewAdmin.tsx (\<open>vacancy_admin_markup_of\<close>, \<open>vacancy_admin_edit_path\<close>)
    render; a render is an option, \<open>None\<close> for the \<open>TypeError\<close> of \<open>.map\<close> on a list
    property that is not an array (\<open>js_array_items\<close>).
  \<^item> AdminScreens: what CategoryPage.tsx and IndustryPage.tsx render
    (\<open>admin_panel_of\<close>): the form card and one card per record carrying the events
    of its Edit and Delete buttons, so a click is the step of theory AdminCrud.
  \<^item> ApplicantScreens: what ApplicantList.tsx renders (\<open>applicants_screen_of\<close>): the
    cards, the detail pane with the status badge and progress bar, and the events of its
    buttons and status select.
  \<^item> BlogScreens: the cards of Blogs.jsx (\<open>blogs_cards\<close>) and the post page of
    BlogDetail.jsx (\<open>blog_detail_screen_of\<close>) with its "Continue Reading" cards.
  \<^item> AdminNavigation: Pages/Admin/AdminDashboardLayout.tsx, the admin area's sidebar
    (\<open>admin_sidebar_items\<close>, \<open>admin_dashboard_layout\<close>); \<open>sidebar_section\<close>, a helper of
    this development (the router is not in the repository), names the section a path
    falls under, to place the blog editor's save target outside the admin area.

  \<^bold>\<open>What is shown.\<close> For each screen: the functional behaviour of each handler on every
  branch, errors included (an \<open>http_error + 'a\<close> result, the \<open>catch\<close> branch as a case);
  invariants of the reachable states by rule induction (FindJobs: request numbers in
  flight distinct and loading on only while one is in flight; Blogs: the displayed list
  is the filter of the fetched one; admin pages: ids distinct; the blog editor: at most
  one save in flight; Browse: the role filter only ever holds an id or the empty string;
  AddVacancy: no control edits the requirements list); refinement of the detail screens
  against \<open>load_detail_spec\<close> and of the admin pages against the catalogue operations; round
  trips (URL parameters, route parameters, a form's lists through the stored vacancy to
  the rendered page); progress of FindJobs once the network answers; bounds of the
  posting-age label; equivalence of a loop with its reference definition (Browse's
  keyword counts). Rendered screens are functions of the state whose buttons carry the
  events they fire, so claims connect what a page shows with what its handlers do (a
  card's Delete button, the remote radio that cannot fire twice, the blog editor's
  disabled Save button, the controls of the add form). Properties about responses and
  route changes are stated for every state and every answer, not for a chosen trace: the
  stale request of Clear whose answer wins when it settles last, the related cards that
  outlive a route change. Across components: a vacancy whose overview was edited on the
  edit form crashes both detail screens once saved, and one created by the add form
  renders its lists. Several theorems pin down behaviour where the code and the spec or
  its own comments disagree (the dead status guard, a stale response overwriting a newer
  one, forms that lose their text on a failed submit, \<open>if (id)\<close> on id 0, a dependency that
  is not a parameter, an event object sent as a filter, a status response restoring an
  old selection, a related list that outlives a route change, a "Loading..." placeholder
  that never resolves, negative posting ages, a requirements list that no control of its
  page edits, the vocabularies of the forms, the search filters and the label maps);
  PROJECT.json lists them as findings.

  \<^bold>\<open>Bounds and termination.\<close> No definition needs fuel: every loop of the code is a
  traversal of a finite list (\<open>map\<close>, \<open>filter\<close>, \<open>Promise.all\<close> over categories, the
  digit loop of \<open>parseInt\<close>) and is structural recursion; the only unbounded behaviour,
  requests that never answer, is a request that stays in the pending list. Answering the
  requests in flight (\<open>fj_drain\<close>) terminates because every answer retires its request,
  so the length of the pending list decreases.

  \<^bold>\<open>Not modelled.\<close> Styling and routing beyond the paths the screens navigate to; toasts
  and console output; the clock and date formatting (\<open>toLocaleString\<close>, the elapsed time
  of \<open>formatTimeAgo\<close> is an input); files outside src/src (jsonData/jobsData.json enters
  JobDetails as a boolean input, Browse's Companies.json as a parameter, the axios
  instance's configuration, the backend, whose stored vacancy is read back by
  \<open>prop_of\<close> as the properties the forms sent); the Unicode case mapping of
  \<open>toLowerCase\<close> beyond ASCII; the sidebar component \<open>DynamicSidebar\<close> and the router,
  which are not in the repository (the layout is modelled as the items it passes and the
  outlet it renders). Browse's \<open>handleRemoteFilter\<close> and
  \<open>calculateJobCounts\<close> are modelled but, as in the code, called from nowhere.
\<close>

subsection \<open>Properties spanning components\<close>

text \<open>
  C15: BlogDetail.jsx, written with \<open>fetch\<close> and explicit \<open>response.ok\<close> tests, implements
  the same dependent fetch contract as the axios-based detail screens: the post is the
  primary result, all posts are the secondary request issued only after the post arrived,
  and the related list shown is the secondary result filtered by the post's category, or
  empty when either request failed.
\<close>

theorem blog_detail_refines_spec:
  "let (v, reqs) = blog_detail_load rid srv1 srv2 blog_detail_init;
       r = load_detail_spec (''/blogs/'' @ rid) (\<lambda>_. Some ''/blogs'') id srv1 srv2
   in detail_blog v = res_primary r \<and> reqs = res_requests r \<and>
      related_blogs v = (case (res_primary r, res_secondary r) of
                           (Some d, Some bs) \<Rightarrow> related_filter rid (blog_category_id d) bs
                         | _ \<Rightarrow> [])"
proof -
  have "blog_detail_load rid srv1 srv2 blog_detail_init =
        (case axios_call (srv1 (''/blogs/'' @ rid)) of
           Inl _ \<Rightarrow> (blog_detail_init, [''/blogs/'' @ rid])
         | Inr (s, d) \<Rightarrow>
             (fetch_related rid (blog_category_id d) (srv2 ''/blogs'')
                (blog_detail_init\<lparr>detail_blog := Some d\<rparr>), [''/blogs/'' @ rid, ''/blogs'']))"
    unfolding blog_detail_load_def Let_def
    using fetch_ok_check_eq_axios [where r = "srv1 (''/blogs/'' @ rid)" and a = "(blog_detail_init, [''/blogs/'' @ rid])"]
    by (cases "fetch_call (srv1 (''/blogs/'' @ rid))") auto
  moreover have "fetch_related rid c r v =
      (case axios_call r of Inl _ \<Rightarrow> v | Inr (s, data) \<Rightarrow> v\<lparr>related_blogs := related_filter rid c data\<rparr>)"
    for c r v
    unfolding fetch_related_def using fetch_ok_check_eq_axios [where r = r and a = v] by simp
  ultimately show ?thesis
    by (auto simp: load_detail_spec_def blog_detail_init_def split: sum.split)
qed

text \<open>
  The vacancy screens do not share a vocabulary. The seniority levels the forms store
  (AddVacancy.tsx, VacancyEdit.tsx) and the ones the FindJobs filter sends differ: a
  search for \<open>mid-level\<close> names a value no form stores, and vacancies saved as
  \<open>intern\<close> or \<open>middle\<close> cannot be selected by the filter; the job type filter sends
  \<open>intern\<close> where the forms store \<open>internship\<close>. The label maps of the detail screens have
  no label for the stored values \<open>lead\<close> and \<open>internship\<close>.
\<close>

theorem vacancy_vocabulary_mismatch:
  "set search_seniority_levels - set form_seniority_levels = {''mid-level''} \<and>
   set form_seniority_levels - set search_seniority_levels = {''intern'', ''middle''} \<and>
   set search_job_types - set form_job_types = {''intern''} \<and>
   set form_job_types - set search_job_types = {''internship''} \<and>
   {l \<in> set form_seniority_levels. map_of seniority_level_labels l = None} = {''lead''} \<and>
   {t \<in> set form_job_types. map_of job_type_labels t = None} = {''internship''}"
  by (auto simp: search_seniority_levels_def form_seniority_levels_def search_job_types_def
        form_job_types_def seniority_level_labels_def job_type_labels_def)

text \<open>
  C16: A vacancy whose overview was edited on VacancyEdit.tsx cannot be shown any more. The
  page keeps \<open>jobOverview\<close> as loaded until its text area's \<open>onChange\<close> stores the typed
  text; once that happened in a session, whatever follows, the saved body carries a string,
  and when the backend returns the field as stored both JobDetails.jsx and
  VacancyViewAdmin.tsx call \<open>.map\<close> on it and throw. (An overview never edited is sent back
  as loaded: lemma \<open>ve_steps_overview_untouched\<close>.)
\<close>

theorem edited_vacancy_crashes_detail_views:
  assumes "Ve_Input ''jobOverview'' t \<in> set es" and "foldl ve_step (Some ev) es = Some x"
      and "admin_vacancy v = Some a" "av_job_overview a = prop_of (vacancy_edit_data x) ''jobOverview''"
      and "job_detail w = Some d" "vd_job_overview d = prop_of (vacancy_edit_data x) ''jobOverview''"
  shows "vacancy_admin_markup_of v = None \<and> job_details_markup_of w = None"
proof -
  obtain es1 es2 where es: "es = es1 @ Ve_Input ''jobOverview'' t # es2"
    using split_list [OF assms(1)] by blast
  obtain y where y: "foldl ve_step (Some ev) es1 = Some y" using ve_steps_loaded by blast
  have "ev_job_overview (ve_input ''jobOverview'' t y) = F_Val (JStr t)" by (simp add: ve_input_def)
  moreover have "foldl ve_step (Some (ve_input ''jobOverview'' t y)) es2 = Some x"
    using assms(2) y by (simp add: es)
  ultimately obtain s' where "ev_job_overview x = F_Val (JStr s')"
    using ve_steps_overview_text by blast
  then show ?thesis
    using assms(3-6) by (simp add: detail_views_crash_iff vacancy_edit_data_def prop_of_def)
qed

theorem edited_vacancy_crashes_detail_views_witness:
  "vacancy_admin_markup_of (vacancy_view_admin_init\<lparr>admin_vacancy := Some
      \<lparr>av_id = 7, av_title = ''Dev'', av_category_id = JNum 2, av_is_active = True, av_is_remote = False,
       av_salary = JNull, av_description = [], av_job_type = ''contract'', av_seniority_level = ''senior'',
       av_city = ''Almaty'', av_state = [], av_country = ''Kazakhstan'', av_job_overview = F_Val (JStr ''Build it''),
       av_job_role = F_Strs [''Lead''], av_job_responsibilities = F_Strs [], av_you_have_text = F_Strs []\<rparr>\<rparr>) = None \<and>
   job_details_markup_of (job_details_init\<lparr>job_detail := Some
      \<lparr>vd_title = ''Dev'', vd_city = ''Almaty'', vd_country = ''Kazakhstan'', vd_job_type = ''contract'',
       vd_seniority_level = ''senior'', vd_is_remote = False, vd_company_id = JNum 3,
       vd_job_overview = F_Val (JStr ''Build it''), vd_job_role = F_Strs [''Lead''],
       vd_job_responsibilities = F_Strs [], vd_you_have_text = F_Strs []\<rparr>\<rparr>) = None"
  by (rule edited_vacancy_crashes_detail_views [where t = "''Build it''" and es = "[Ve_Input ''jobOverview'' ''Build it'']"
        and ev = "\<lparr>ev_id = 7, ev_title = ''Dev'', ev_category_id = JNum 2,
        ev_is_remote = False, ev_is_active = True, ev_job_type = ''contract'', ev_seniority_level = ''senior'',
        ev_city = ''Almaty'', ev_state = [], ev_country = JStr ''Kazakhstan'', ev_description = [],
        ev_country_code = ''KZ'', ev_salary = JNull, ev_job_overview = F_Strs [''Build''], ev_job_role = F_Strs [''Lead''],
        ev_job_responsibilities = [], ev_you_have_text = []\<rparr>"
        and x = "ve_input ''jobOverview'' ''Build it'' \<lparr>ev_id = 7, ev_title = ''Dev'', ev_category_id = JNum 2,
        ev_is_remote = False, ev_is_active = True, ev_job_type = ''contract'', ev_seniority_level = ''senior'',
        ev_city = ''Almaty'', ev_state = [], ev_country = JStr ''Kazakhstan'', ev_description = [],
        ev_country_code = ''KZ'', ev_salary = JNull, ev_job_overview = F_Strs [''Build''], ev_job_role = F_Strs [''Lead''],
        ev_job_responsibilities = [], ev_you_have_text = []\<rparr>"])
     (simp add: vacancy_view_admin_init_def job_details_init_def vacancy_edit_data_def prop_of_def ve_input_def)+

text \<open>
  C17: A vacancy created by AddVacancy.tsx shows its four lists on VacancyViewAdmin.tsx
  as the form held them: the overview and the role unchanged, the responsibilities and
  the "you have" items without their blank entries.
\<close>

theorem added_vacancy_lists_render:
  assumes "admin_vacancy v = Some a"
      and "[av_job_overview a, av_job_role a, av_job_responsibilities a, av_you_have_text a] =
             map (prop_of (add_vacancy_payload f)) [''jobOverview'', ''jobRole'', ''jobResponsibilities'', ''youHaveText'']"
  shows "map_option vam_sections (vacancy_admin_markup_of v) =
           Some (vf_job_overview f, vf_job_role f, non_blank (vf_job_responsibilities f), non_blank (vf_you_have_text f))"
  using assms by (simp add: vacancy_admin_markup_of_def add_vacancy_payload_def prop_of_def Let_def)

theorem added_vacancy_lists_render_witness:
  "map_option vam_sections (vacancy_admin_markup_of (vacancy_view_admin_init\<lparr>admin_vacancy := Some
      \<lparr>av_id = 7, av_title = ''Dev'', av_category_id = JNum 2, av_is_active = True, av_is_remote = False,
       av_salary = JNull, av_description = [], av_job_type = ''contract'', av_seniority_level = ''senior'',
       av_city = ''Almaty'', av_state = [], av_country = ''Kazakhstan'', av_job_overview = F_Strs [''Build''],
       av_job_role = F_Strs [[]], av_job_responsibilities = F_Strs [], av_you_have_text = F_Strs []\<rparr>\<rparr>)) =
   Some ([''Build''], [[]], [], [])"
  using added_vacancy_lists_render [where f = "vacancy_form_init\<lparr>vf_job_overview := [''Build'']\<rparr>"]
  by (simp add: vacancy_view_admin_init_def vacancy_form_init_def add_vacancy_payload_def prop_of_def
                non_blank_def js_trim_def)

end
